(* ===== verification/Prelude.thy ===== *)
theory Prelude
  imports Complex_Main
begin

text \<open>
  Shared vocabulary of the development: the Python exceptions the scripts can raise,
  the IEEE-754 double as the scripts' numpy arrays hold it (finite values exact,
  the three special values as constructors), numpy's reductions on non-empty arrays,
  Python's floored modulo on floats, and the generic lemmas the component theories
  share through the collection \<open>model_simps\<close>.
\<close>

named_theorems model_simps "evaluation rules of the model's numeric helpers"

section \<open>Python exceptions\<close>

text \<open>
  Every exception that a modelled line can raise is a constructor; a script that lets
  an exception escape terminates with it, which the model returns as \<open>Inl\<close>.
\<close>

datatype py_error =
    ValueError
  | TypeError
  | IndexError
  | ZeroDivisionError
  | RuntimeError
  | ParserError
  | OverflowError
  | FileNotFoundError
  | SystemExit int

type_synonym 'a result = "py_error + 'a"

section \<open>Floats\<close>

text \<open>
  A float64 value: a finite value (held exactly, so rounding is not modelled), the two
  infinities, or NaN. numpy's \<open>clip\<close>, comparisons and \<open>nan_to_num\<close> are defined
  over it with IEEE semantics: every comparison with NaN is false.
\<close>

datatype flt = Fin real | PInf | NInf | NaN

fun flt_gt :: "flt \<Rightarrow> flt \<Rightarrow> bool" where
  "flt_gt (Fin a) (Fin b) = (a > b)"
| "flt_gt PInf (Fin b) = True"
| "flt_gt PInf NInf = True"
| "flt_gt (Fin a) NInf = True"
| "flt_gt _ _ = False"

fun flt_sub :: "flt \<Rightarrow> flt \<Rightarrow> flt" where
  "flt_sub (Fin a) (Fin b) = Fin (a - b)"
| "flt_sub NaN _ = NaN"
| "flt_sub _ NaN = NaN"
| "flt_sub PInf PInf = NaN"
| "flt_sub NInf NInf = NaN"
| "flt_sub PInf _ = PInf"
| "flt_sub NInf _ = NInf"
| "flt_sub (Fin a) PInf = NInf"
| "flt_sub (Fin a) NInf = PInf"

text \<open>Division by a positive finite constant, the only division the pipeline performs.\<close>

fun flt_div_pos :: "flt \<Rightarrow> real \<Rightarrow> flt" where
  "flt_div_pos (Fin a) c = Fin (a / c)"
| "flt_div_pos v c = v"

text \<open>
  \<open>numpy.clip(v, lo, hi)\<close> is \<open>minimum(maximum(v, lo), hi)\<close>; both propagate NaN.
\<close>

fun np_clip :: "flt \<Rightarrow> real \<Rightarrow> real \<Rightarrow> flt" where
  "np_clip (Fin a) lo hi = Fin (min (max a lo) hi)"
| "np_clip PInf lo hi = Fin hi"
| "np_clip NInf lo hi = Fin (min lo hi)"
| "np_clip NaN lo hi = NaN"

text \<open>
  \<open>numpy.nan_to_num(v, nan=n)\<close>: NaN becomes \<open>n\<close>, the infinities the largest and
  smallest finite doubles.
\<close>

definition max_double :: real where
  "max_double = (2 - 1 / 2 ^ 52) * 2 ^ 1023"

fun nan_to_num :: "real \<Rightarrow> flt \<Rightarrow> real" where
  "nan_to_num n (Fin a) = a"
| "nan_to_num n NaN = n"
| "nan_to_num n PInf = max_double"
| "nan_to_num n NInf = - max_double"

section \<open>numpy reductions\<close>

text \<open>
  \<open>numpy.min\<close> and \<open>numpy.max\<close> of an empty array raise ValueError ("zero-size
  array to reduction operation"); of a non-empty one they return the extremum.
\<close>

definition np_min :: "real list \<Rightarrow> real result" where
  "np_min xs = (if xs = [] then Inl ValueError else Inr (Min (set xs)))"

definition np_max :: "real list \<Rightarrow> real result" where
  "np_max xs = (if xs = [] then Inl ValueError else Inr (Max (set xs)))"

text \<open>Python's \<open>xs[i]\<close> for \<open>i \<ge> 0\<close>: IndexError past the end.\<close>

definition py_index :: "'a list \<Rightarrow> nat \<Rightarrow> 'a result" where
  "py_index xs i = (if i < length xs then Inr (xs ! i) else Inl IndexError)"

text \<open>Statements executed in order: the first exception stops the sequence.\<close>

fun seq_res :: "'a result list \<Rightarrow> 'a list result" where
  "seq_res [] = Inr []"
| "seq_res (x # xs) =
     (case x of
        Inl e \<Rightarrow> Inl e
      | Inr v \<Rightarrow> (case seq_res xs of Inl e \<Rightarrow> Inl e | Inr vs \<Rightarrow> Inr (v # vs)))"

lemma np_min_Inr [model_simps]: "xs \<noteq> [] \<Longrightarrow> np_min xs = Inr (Min (set xs))"
  by (simp add: np_min_def)

lemma np_max_Inr [model_simps]: "xs \<noteq> [] \<Longrightarrow> np_max xs = Inr (Max (set xs))"
  by (simp add: np_max_def)

lemma np_min_Nil [model_simps]: "np_min [] = Inl ValueError"
  and np_max_Nil [model_simps]: "np_max [] = Inl ValueError"
  by (simp_all add: np_min_def np_max_def)

lemma Min_le_elem: "x \<in> set xs \<Longrightarrow> Min (set xs) \<le> (x::real)"
  by simp

lemma elem_le_Max: "x \<in> set xs \<Longrightarrow> x \<le> Max (set xs :: real set)"
  by simp

lemma length_takeWhile_less:
  "x \<in> set xs \<Longrightarrow> \<not> P x \<Longrightarrow> length (takeWhile P xs) < length xs"
  by (induction xs) auto

section \<open>Python's float modulo\<close>

text \<open>
  Python's \<open>a % m\<close> on floats has the sign of \<open>m\<close>: \<open>a - m * floor(a / m)\<close>.
\<close>

definition pymod :: "real \<Rightarrow> real \<Rightarrow> real" where
  "pymod a m = a - m * of_int \<lfloor>a / m\<rfloor>"

lemma pymod_nonneg [model_simps]:
  assumes "0 < m" shows "0 \<le> pymod a m"
  using floor_divide_lower [OF assms, of a] by (simp add: pymod_def mult.commute)

lemma pymod_less [model_simps]:
  assumes "0 < m" shows "pymod a m < m"
  using floor_divide_upper [OF assms, of a] by (simp add: pymod_def algebra_simps)

lemma pymod_add_period [model_simps]:
  assumes "m \<noteq> 0" shows "pymod (a + m) m = pymod a m"
proof -
  have "(a + m) / m = a / m + 1" using assms by (simp add: field_simps)
  then have "\<lfloor>(a + m) / m\<rfloor> = \<lfloor>a / m\<rfloor> + 1" by simp
  then show ?thesis by (simp add: pymod_def algebra_simps)
qed

lemma pymod_shift_int [model_simps]:
  assumes "m \<noteq> 0" shows "pymod (a + of_int k * m) m = pymod a m"
proof -
  have "(a + of_int k * m) / m = a / m + of_int k" using assms by (simp add: field_simps)
  then have "\<lfloor>(a + of_int k * m) / m\<rfloor> = \<lfloor>a / m\<rfloor> + k" by simp
  then show ?thesis by (simp add: pymod_def algebra_simps)
qed

lemma pymod_uminus [model_simps]:
  assumes m: "0 < m"
  shows "pymod (- a) m = (if pymod a m = 0 then 0 else m - pymod a m)"
proof (cases "a / m = of_int \<lfloor>a / m\<rfloor>")
  case True
  then have a: "a - m * of_int \<lfloor>a / m\<rfloor> = 0" using m by (simp add: field_simps)
  have "\<lceil>a / m\<rceil> = \<lfloor>a / m\<rfloor>" using True by (simp add: ceiling_altdef)
  then show ?thesis using a by (simp add: pymod_def floor_minus)
next
  case False
  then have c: "\<lceil>a / m\<rceil> = \<lfloor>a / m\<rfloor> + 1" by (simp add: ceiling_altdef)
  have "pymod a m \<noteq> 0"
  proof
    assume "pymod a m = 0"
    then have "a - m * of_int \<lfloor>a / m\<rfloor> = 0" by (simp add: pymod_def)
    then have "a / m - of_int \<lfloor>a / m\<rfloor> = 0" using m by (simp add: field_simps)
    with False show False by simp
  qed
  moreover have "pymod (- a) m = m - pymod a m"
    using c by (simp add: pymod_def floor_minus algebra_simps)
  ultimately show ?thesis by simp
qed

lemma pymod_eq_self [model_simps]:
  assumes "0 \<le> a" "a < m" shows "pymod a m = a"
proof -
  have "0 \<le> a / m" "a / m < 1" using assms by simp_all
  then have "\<lfloor>a / m\<rfloor> = 0" by (simp add: floor_eq_iff)
  then show ?thesis by (simp add: pymod_def)
qed

section \<open>numpy arrays\<close>

text \<open>
  An n-dimensional array: its shape and its entries in row-major (C) order, which is the
  order \<open>flatten()\<close> returns them in. \<open>size\<close> is the product of the shape.
\<close>

record 'a ndarray =
  shape :: "nat list"
  data :: "'a list"

definition nd_size :: "'a ndarray \<Rightarrow> nat" where
  "nd_size a = prod_list (shape a)"

definition nd_wf :: "'a ndarray \<Rightarrow> bool" where
  "nd_wf a \<longleftrightarrow> length (data a) = nd_size a"

lemma seq_res_Inl:
  "seq_res xs = Inl e \<longleftrightarrow> (\<exists>i < length xs. (\<forall>j < i. \<not> isl (xs ! j)) \<and> xs ! i = Inl e)"
proof (induction xs)
  case Nil
  then show ?case by simp
next
  case (Cons x xs)
  show ?case
  proof (cases x)
    case (Inl e')
    have i0: "i = 0" if "\<forall>j < i. \<not> isl ((x # xs) ! j)" for i
    proof (rule ccontr)
      assume "i \<noteq> 0"
      then have "\<not> isl ((x # xs) ! 0)" using that by blast
      then show False using Inl by simp
    qed
    show ?thesis
    proof
      assume "seq_res (x # xs) = Inl e"
      then have "x = Inl e" using Inl by simp
      then show "\<exists>i < length (x # xs). (\<forall>j < i. \<not> isl ((x # xs) ! j)) \<and> (x # xs) ! i = Inl e"
        by (intro exI [of _ 0]) simp
    next
      assume "\<exists>i < length (x # xs). (\<forall>j < i. \<not> isl ((x # xs) ! j)) \<and> (x # xs) ! i = Inl e"
      then obtain i where "\<forall>j < i. \<not> isl ((x # xs) ! j)" "(x # xs) ! i = Inl e" by blast
      with i0 have "x = Inl e" by fastforce
      then show "seq_res (x # xs) = Inl e" by simp
    qed
  next
    case (Inr v)
    have "seq_res (x # xs) = Inl e \<longleftrightarrow> seq_res xs = Inl e"
      using Inr by (simp split: sum.split)
    also have "\<dots> \<longleftrightarrow> (\<exists>i < length (x # xs). (\<forall>j < i. \<not> isl ((x # xs) ! j)) \<and> (x # xs) ! i = Inl e)"
      unfolding Cons.IH
    proof
      assume "\<exists>i < length xs. (\<forall>j < i. \<not> isl (xs ! j)) \<and> xs ! i = Inl e"
      then obtain i where "i < length xs" "\<forall>j < i. \<not> isl (xs ! j)" "xs ! i = Inl e" by blast
      then show "\<exists>i < length (x # xs). (\<forall>j < i. \<not> isl ((x # xs) ! j)) \<and> (x # xs) ! i = Inl e"
        using Inr by (intro exI [of _ "Suc i"]) (auto simp add: less_Suc_eq_0_disj)
    next
      assume "\<exists>i < length (x # xs). (\<forall>j < i. \<not> isl ((x # xs) ! j)) \<and> (x # xs) ! i = Inl e"
      then obtain i where i: "i < length (x # xs)" "\<forall>j < i. \<not> isl ((x # xs) ! j)"
          "(x # xs) ! i = Inl e" by blast
      then obtain k where k: "i = Suc k" using Inr by (cases i) auto
      have "\<not> isl (xs ! j)" if "j < k" for j
        using spec [OF i(2), of "Suc j"] that k by simp
      then show "\<exists>i < length xs. (\<forall>j < i. \<not> isl (xs ! j)) \<and> xs ! i = Inl e"
        using i k by (intro exI [of _ k]) simp
    qed
    finally show ?thesis .
  qed
qed

lemma seq_res_Inr:
  "seq_res xs = Inr vs \<Longrightarrow> length vs = length xs \<and> (\<forall>i < length xs. xs ! i = Inr (vs ! i))"
proof (induction xs arbitrary: vs)
  case Nil
  then show ?case by simp
next
  case (Cons x xs)
  then show ?case
    by (auto simp add: nth_Cons' split: sum.splits)
qed

lemma seq_res_map_Inr: "seq_res (map (\<lambda>x. Inr (f x)) xs) = Inr (map f xs)"
  by (induction xs) simp_all

text \<open>A loop whose only exception is one guard's: it raises exactly when some element fails it.\<close>

text \<open>A loop body that runs a second, total step after a fallible one.\<close>

lemma seq_res_map_bind:
  "seq_res (map (\<lambda>x. case f x of Inl e \<Rightarrow> Inl e | Inr v \<Rightarrow> Inr (g x v)) xs) =
     (case seq_res (map f xs) of Inl e \<Rightarrow> Inl e | Inr vs \<Rightarrow> Inr (map2 g xs vs))"
  by (induction xs) (simp_all split: sum.split)

lemma seq_res_map_guard:
  "seq_res (map (\<lambda>x. if P x then Inl e else Inr (f x)) xs) = (if list_ex P xs then Inl e else Inr (map f xs))"
  by (induction xs) simp_all


text \<open>A loop all of whose exceptions are the same one raises it exactly when some iteration raises.\<close>

lemma seq_res_map_Inl_uniform:
  assumes "\<And>x e'. f x = Inl e' \<Longrightarrow> e' = E"
  shows "seq_res (map f xs) = Inl e \<longleftrightarrow> e = E \<and> list_ex (\<lambda>x. isl (f x)) xs"
  using assms by (induction xs) (auto split: sum.split)

end
