(* ===== verification/Grid.thy ===== *)
theory Grid
  imports Prelude
begin

text \<open>
  The evaluation grid of \<^verbatim>\<open>heatmap_gstools.py\<close> (\<^verbatim>\<open>build_grid\<close>, lines 59-68):
  numpy's \<open>arange\<close>, the padded axes, \<open>meshgrid\<close> and row-major \<open>flatten\<close>.
  The theorems show that the axes are strictly increasing with spacing exactly the
  cell size, that they start one cell below the data and end past the data's maximum,
  so that every input coordinate lies inside the grid and in one cell of it, and that
  the flattened meshgrid enumerates the grid row by row, as \<^verbatim>\<open>main\<close> relies on when it
  zips the flattened coordinates with the flattened field.
\<close>

section \<open>numpy.arange\<close>

text \<open>
  \<open>numpy.arange(start, stop, step)\<close> has \<open>ceil((stop - start) / step)\<close> elements
  (none when that is not positive), the \<open>i\<close>-th being \<open>start + i * step\<close>; a zero
  step raises ZeroDivisionError.
\<close>

definition arange_list :: "real \<Rightarrow> real \<Rightarrow> real \<Rightarrow> real list" where
  "arange_list start stop step =
     map (\<lambda>i. start + real i * step) [0..<nat \<lceil>(stop - start) / step\<rceil>]"

definition arange :: "real \<Rightarrow> real \<Rightarrow> real \<Rightarrow> real list result" where
  "arange start stop step =
     (if step = 0 then Inl ZeroDivisionError else Inr (arange_list start stop step))"

section \<open>build_grid\<close>

text \<open>
  \<open>meshgrid(gx, gy)\<close> returns two arrays of shape \<open>(len gy, len gx)\<close>: row \<open>i\<close>
  of the first is \<open>gx\<close>, every entry of row \<open>i\<close> of the second is \<open>gy[i]\<close>.
  A 2-D array is a list of its rows.
\<close>

definition meshgrid :: "real list \<Rightarrow> real list \<Rightarrow> real list list \<times> real list list" where
  "meshgrid gx gy = (map (\<lambda>_. gx) gy, map (\<lambda>yv. map (\<lambda>_. yv) gx) gy)"

definition flatten :: "'a list list \<Rightarrow> 'a list" where
  "flatten rows = concat rows"

text \<open>The padding constant \<open>1e-6\<close> that makes the upper bound inclusive.\<close>

definition grid_eps :: real where
  "grid_eps = 1 / 1000000"

type_synonym grid = "real list \<times> real list \<times> real list list \<times> real list list"

definition build_grid :: "real list \<Rightarrow> real list \<Rightarrow> real \<Rightarrow> grid result" where
  "build_grid x y grid_res_m =
     (case np_min x of Inl e \<Rightarrow> Inl e | Inr minx \<Rightarrow>
      (case np_max x of Inl e \<Rightarrow> Inl e | Inr maxx \<Rightarrow>
       (case np_min y of Inl e \<Rightarrow> Inl e | Inr miny \<Rightarrow>
        (case np_max y of Inl e \<Rightarrow> Inl e | Inr maxy \<Rightarrow>
          (let padx = grid_res_m * 1; pady = grid_res_m * 1 in
           (case arange (minx - padx) (maxx + padx + grid_eps) grid_res_m of
              Inl e \<Rightarrow> Inl e
            | Inr gx \<Rightarrow>
                (case arange (miny - pady) (maxy + pady + grid_eps) grid_res_m of
                   Inl e \<Rightarrow> Inl e
                 | Inr gy \<Rightarrow> (case meshgrid gx gy of (gridx, gridy) \<Rightarrow> Inr (gx, gy, gridx, gridy)))))))))"

section \<open>Lemmas on arange\<close>

lemma length_arange_list [simp]:
  "length (arange_list a b s) = nat \<lceil>(b - a) / s\<rceil>"
  by (simp add: arange_list_def)

lemma nth_arange_list [simp]:
  "i < length (arange_list a b s) \<Longrightarrow> arange_list a b s ! i = a + real i * s"
  by (simp add: arange_list_def del: upt_Suc)

lemma arange_list_sorted:
  assumes "0 < s" shows "sorted_wrt (<) (arange_list a b s)"
proof -
  have "\<And>i j. i < j \<Longrightarrow> a + real i * s < a + real j * s"
    using assms by simp
  then show ?thesis
    by (simp add: sorted_wrt_iff_nth_less)
qed

lemma arange_list_step:
  "Suc i < length (arange_list a b s) \<Longrightarrow>
     arange_list a b s ! Suc i - arange_list a b s ! i = s"
  by (simp add: algebra_simps)

text \<open>The last element stays below \<open>stop\<close> and is at least \<open>stop - step\<close>.\<close>

lemma arange_list_last_bounds:
  assumes s: "0 < s" and ab: "a < b"
  defines "xs \<equiv> arange_list a b s"
  shows "xs \<noteq> [] \<and> b - s \<le> last xs \<and> last xs < b"
proof -
  define n where "n = nat \<lceil>(b - a) / s\<rceil>"
  have q: "0 < (b - a) / s" using s ab by simp
  then have n_pos: "0 < n" by (simp add: n_def)
  have len: "length xs = n" by (simp add: xs_def n_def)
  then have ne: "xs \<noteq> []" using n_pos by auto
  have lst: "last xs = a + real (n - 1) * s"
    using ne len n_pos by (simp add: last_conv_nth xs_def)
  have rn: "real n = of_int \<lceil>(b - a) / s\<rceil>"
    using q by (simp add: n_def)
  have up: "(b - a) / s \<le> real n" using rn by simp
  have lo: "real n < (b - a) / s + 1" using rn by linarith
  have rn1: "real (n - 1) = real n - 1" using n_pos by simp
  have "b - a \<le> real n * s" using up s by (simp add: pos_divide_le_eq)
  then have lower: "b - s \<le> a + real (n - 1) * s" using rn1 by (simp add: algebra_simps)
  have "real n * s < ((b - a) / s + 1) * s"
    using lo s by (rule mult_strict_right_mono)
  moreover have "((b - a) / s + 1) * s = b - a + s" using s by (simp add: field_simps)
  ultimately have "real n * s < b - a + s" by simp
  then have "a + real (n - 1) * s < b" using rn1 by (simp add: algebra_simps)
  with lower show ?thesis using ne lst by simp
qed

lemma arange_list_hd:
  "arange_list a b s \<noteq> [] \<Longrightarrow> hd (arange_list a b s) = a"
  by (auto simp: arange_list_def hd_map)

lemma arange_list_cell:
  assumes s: "0 < s" and ap: "a \<le> p" and pl: "p < last (arange_list a b s)"
    and ne: "arange_list a b s \<noteq> []"
  shows "\<exists>i. Suc i < length (arange_list a b s) \<and>
           arange_list a b s ! i \<le> p \<and> p < arange_list a b s ! Suc i"
proof -
  define n where "n = length (arange_list a b s)"
  define i where "i = nat \<lfloor>(p - a) / s\<rfloor>"
  have n_pos: "0 < n" unfolding n_def using ne by (rule length_greater_0_conv [THEN iffD2])
  have lst: "last (arange_list a b s) = a + real (n - 1) * s"
    using ne n_pos by (simp add: last_conv_nth n_def)
  have q0: "0 \<le> (p - a) / s" using s ap by simp
  then have ri: "real i = of_int \<lfloor>(p - a) / s\<rfloor>" by (simp add: i_def)
  have fl: "real i * s \<le> p - a"
    using floor_divide_lower [OF s, of "p - a"] ri by simp
  have fu: "p - a < (real i + 1) * s"
    using floor_divide_upper [OF s, of "p - a"] ri by simp
  have "p - a < real (n - 1) * s" using pl lst by simp
  then have "(p - a) / s < real (n - 1)" using s by (simp add: pos_divide_less_eq)
  then have "real i < real (n - 1)" using ri by linarith
  then have si: "Suc i < n" by linarith
  have "arange_list a b s ! i = a + real i * s" using si by (simp add: n_def)
  moreover have "arange_list a b s ! Suc i = a + (real i + 1) * s"
    using si by (simp add: n_def algebra_simps)
  ultimately show ?thesis using si fl fu by (intro exI [of _ i]) (simp add: n_def algebra_simps)
qed

lemma arange_list_last:
  assumes "arange_list a b s \<noteq> []"
  shows "last (arange_list a b s) = a + real (length (arange_list a b s) - 1) * s"
proof -
  have "0 < length (arange_list a b s)"
    using assms by (rule length_greater_0_conv [THEN iffD2])
  then show ?thesis
    using assms by (simp add: last_conv_nth del: length_arange_list)
qed

text \<open>An axis of at least three lines, strictly increasing by exactly \<open>s\<close>.\<close>

definition regular_axis :: "real \<Rightarrow> real list \<Rightarrow> bool" where
  "regular_axis s g \<longleftrightarrow> 3 \<le> length g \<and> sorted_wrt (<) g \<and>
     (\<forall>i. Suc i < length g \<longrightarrow> g ! Suc i - g ! i = s)"

section \<open>Lemmas on build_grid\<close>

text \<open>The whole behaviour of \<open>build_grid\<close>, its two error paths included.\<close>

lemma build_grid_eq:
  "build_grid x y r =
     (if x = [] \<or> y = [] then Inl ValueError
      else if r = 0 then Inl ZeroDivisionError
      else Inr (arange_list (Min (set x) - r) (Max (set x) + r + grid_eps) r,
                arange_list (Min (set y) - r) (Max (set y) + r + grid_eps) r,
                fst (meshgrid (arange_list (Min (set x) - r) (Max (set x) + r + grid_eps) r)
                              (arange_list (Min (set y) - r) (Max (set y) + r + grid_eps) r)),
                snd (meshgrid (arange_list (Min (set x) - r) (Max (set x) + r + grid_eps) r)
                              (arange_list (Min (set y) - r) (Max (set y) + r + grid_eps) r))))"
  by (simp add: build_grid_def np_min_def np_max_def arange_def meshgrid_def)

lemma build_grid_InrD:
  assumes "build_grid x y r = Inr (gx, gy, gridx, gridy)"
  shows "x \<noteq> [] \<and> y \<noteq> [] \<and> r \<noteq> 0 \<and>
         gx = arange_list (Min (set x) - r) (Max (set x) + r + grid_eps) r \<and>
         gy = arange_list (Min (set y) - r) (Max (set y) + r + grid_eps) r \<and>
         (gridx, gridy) = meshgrid gx gy"
  using assms by (auto simp add: build_grid_eq split: if_splits)

text \<open>One padded axis, for the coordinates \<open>vs\<close> of one dimension.\<close>

lemma padded_axis_bounds:
  assumes r: "0 < r" and ne: "vs \<noteq> []"
  defines "g \<equiv> arange_list (Min (set vs) - r) (Max (set vs) + r + grid_eps) r"
  shows "g \<noteq> [] \<and> hd g = Min (set vs) - r \<and> Max (set vs) < last g \<and>
         last g < Max (set vs) + r + grid_eps"
proof -
  have mm: "Min (set vs) \<le> Max (set vs)" using ne by simp
  have eps: "0 < grid_eps" by (simp add: grid_eps_def)
  have "Min (set vs) - r < Max (set vs) + r + grid_eps" using mm r eps by simp
  from arange_list_last_bounds [OF r this]
  have "g \<noteq> [] \<and> Max (set vs) + grid_eps \<le> last g \<and> last g < Max (set vs) + r + grid_eps"
    by (simp add: g_def)
  with eps show ?thesis by (simp add: g_def arange_list_hd)
qed

text \<open>Row-major flattening of an array whose rows all have length \<open>n\<close>.\<close>

lemma nth_concat_rows:
  assumes "\<forall>row \<in> set rows. length row = n" and "k < n * length rows"
  shows "concat rows ! k = rows ! (k div n) ! (k mod n)"
  using assms
proof (induction rows arbitrary: k)
  case Nil
  then show ?case by simp
next
  case (Cons row rows)
  have lr: "length row = n" using Cons.prems(1) by simp
  show ?case
  proof (cases "k < n")
    case True
    then show ?thesis using lr by (simp add: nth_append)
  next
    case False
    then have k': "k - n < n * length rows" using Cons.prems(2) by simp
    have ih: "concat rows ! (k - n) = rows ! ((k - n) div n) ! ((k - n) mod n)"
      using Cons.prems(1) k' by (intro Cons.IH) simp_all
    have n0: "0 < n" using Cons.prems(2) False by (cases n) auto
    moreover have "(k - n) div n = k div n - 1" "(k - n) mod n = k mod n"
      using False n0 by (simp_all add: le_div_geq le_mod_geq)
    moreover have "k div n \<noteq> 0" using False n0 by (simp add: div_eq_0_iff)
    ultimately show ?thesis using False lr ih
      by (simp add: nth_append nth_Cons')
  qed
qed

lemma length_flatten_meshgrid:
  "length (flatten (fst (meshgrid gx gy))) = length gx * length gy"
  "length (flatten (snd (meshgrid gx gy))) = length gx * length gy"
  by (simp_all add: flatten_def meshgrid_def length_concat comp_def sum_list_triv)

text \<open>A concrete run: two samples 10 m apart in x and 5 m apart in y, 30 m cells.\<close>

lemma build_grid_example:
  "build_grid [0, 10] [0, 5] 30 =
     Inr ([-30, 0, 30], [-30, 0, 30],
          [[-30, 0, 30], [-30, 0, 30], [-30, 0, 30]],
          [[-30, -30, -30], [0, 0, 0], [30, 30, 30]])"
  by (simp add: build_grid_eq arange_list_def meshgrid_def grid_eps_def upt_rec)

section \<open>Properties of the grid\<close>

text \<open>
  C1 [grid_covers]: Grid coverage. When \<open>build_grid\<close> succeeds with a positive cell size,
  each axis starts exactly one cell below the smallest coordinate, ends below the largest
  coordinate plus one cell plus \<open>1e-6\<close>, and every input coordinate lies between the
  first and the last grid line of its axis.
\<close>

theorem build_grid_covers:
  assumes r: "0 < r" and g: "build_grid x y r = Inr (gx, gy, gridx, gridy)"
  shows "(\<forall>p \<in> set x. hd gx \<le> p \<and> p \<le> last gx) \<and> (\<forall>q \<in> set y. hd gy \<le> q \<and> q \<le> last gy) \<and>
         hd gx = Min (set x) - r \<and> hd gy = Min (set y) - r \<and>
         last gx < Max (set x) + r + grid_eps \<and> last gy < Max (set y) + r + grid_eps"
proof -
  from build_grid_InrD [OF g] have nx: "x \<noteq> []" and ny: "y \<noteq> []"
    and gx: "gx = arange_list (Min (set x) - r) (Max (set x) + r + grid_eps) r"
    and gy: "gy = arange_list (Min (set y) - r) (Max (set y) + r + grid_eps) r" by auto
  have bx: "hd gx = Min (set x) - r \<and> Max (set x) < last gx \<and> last gx < Max (set x) + r + grid_eps"
    using padded_axis_bounds [OF r nx] gx by simp
  have by': "hd gy = Min (set y) - r \<and> Max (set y) < last gy \<and> last gy < Max (set y) + r + grid_eps"
    using padded_axis_bounds [OF r ny] gy by simp
  have "\<forall>p \<in> set x. hd gx \<le> p \<and> p \<le> last gx"
    using bx r by (auto dest: Min_le_elem elem_le_Max)
  moreover have "\<forall>q \<in> set y. hd gy \<le> q \<and> q \<le> last gy"
    using by' r by (auto dest: Min_le_elem elem_le_Max)
  ultimately show ?thesis using bx by' by blast
qed

theorem build_grid_covers_witness:
  "hd [-30, 0, 30::real] \<le> 0 \<and> (10::real) \<le> last [-30, 0, 30::real] \<and>
   hd [-30, 0, 30::real] = Min (set [0, 10]) - 30 \<and> last [-30, 0, 30::real] < 10 + 30 + grid_eps"
  using build_grid_covers [OF _ build_grid_example] by simp

text \<open>
  C16 [grid_regular]: Grid axes are regular. With a positive cell size, each axis built by
  \<open>build_grid\<close> has at least three grid lines (the data's extent plus a padding cell
  on each side), is strictly increasing, and consecutive lines are exactly one cell apart.
\<close>

lemma padded_axis_regular:
  assumes r: "0 < r" and ne: "vs \<noteq> []"
  shows "regular_axis r (arange_list (Min (set vs) - r) (Max (set vs) + r + grid_eps) r)"
proof -
  define g where "g = arange_list (Min (set vs) - r) (Max (set vs) + r + grid_eps) r"
  have b: "g \<noteq> [] \<and> hd g = Min (set vs) - r \<and> Max (set vs) < last g"
    using padded_axis_bounds [OF r ne] by (simp add: g_def)
  have mm: "Min (set vs) \<le> Max (set vs)" using ne by simp
  have "last g = Min (set vs) - r + real (length g - 1) * r"
    using b arange_list_last by (simp add: g_def)
  then have "r < real (length g - 1) * r" using b mm by simp
  then have "1 < real (length g - 1)" using r by simp
  then have "3 \<le> length g" by linarith
  moreover have "sorted_wrt (<) g" using r by (simp add: g_def arange_list_sorted)
  moreover have "\<forall>i. Suc i < length g \<longrightarrow> g ! Suc i - g ! i = r"
    by (simp add: g_def algebra_simps del: length_arange_list)
  ultimately show ?thesis by (simp add: regular_axis_def g_def)
qed

theorem build_grid_regular:
  assumes r: "0 < r" and g: "build_grid x y r = Inr (gx, gy, gridx, gridy)"
  shows "regular_axis r gx \<and> regular_axis r gy"
  using build_grid_InrD [OF g] padded_axis_regular [OF r] by auto

theorem build_grid_regular_witness:
  "regular_axis 30 [-30, 0, 30] \<and> regular_axis 30 [-30, 0, 30]"
  using build_grid_regular [OF _ build_grid_example] by simp

text \<open>
  Every sample lies in one grid cell. With a positive cell size, each input
  coordinate \<open>p\<close> of \<open>x\<close> has an index \<open>i\<close> with \<open>gx[i] \<le> p < gx[i+1]\<close>, and
  likewise for \<open>y\<close>: no sample falls outside the lattice the field is evaluated on.
\<close>

lemma padded_axis_cell:
  assumes r: "0 < r" and p: "p \<in> set vs"
  defines "g \<equiv> arange_list (Min (set vs) - r) (Max (set vs) + r + grid_eps) r"
  shows "\<exists>i. Suc i < length g \<and> g ! i \<le> p \<and> p < g ! Suc i"
proof -
  have ne: "vs \<noteq> []" using p by auto
  have b: "g \<noteq> [] \<and> Max (set vs) < last g"
    using padded_axis_bounds [OF r ne] by (simp add: g_def)
  have "Min (set vs) - r \<le> p" using p r by (auto dest: Min_le_elem)
  moreover have "p < last g" using b p by (auto dest: elem_le_Max)
  ultimately show ?thesis
    using arange_list_cell [OF r] b unfolding g_def by blast
qed

theorem build_grid_cell:
  assumes r: "0 < r" and g: "build_grid x y r = Inr (gx, gy, gridx, gridy)"
  shows "(\<forall>p \<in> set x. \<exists>i. Suc i < length gx \<and> gx ! i \<le> p \<and> p < gx ! Suc i) \<and>
         (\<forall>q \<in> set y. \<exists>j. Suc j < length gy \<and> gy ! j \<le> q \<and> q < gy ! Suc j)"
proof -
  have gx: "gx = arange_list (Min (set x) - r) (Max (set x) + r + grid_eps) r"
    and gy: "gy = arange_list (Min (set y) - r) (Max (set y) + r + grid_eps) r"
    using build_grid_InrD [OF g] by auto
  show ?thesis unfolding gx gy using padded_axis_cell [OF r] by blast
qed

theorem build_grid_cell_witness:
  "\<exists>i. Suc i < length [-30, 0, 30::real] \<and> [-30, 0, 30::real] ! i \<le> 10 \<and> 10 < [-30, 0, 30::real] ! Suc i"
  using build_grid_cell [OF _ build_grid_example] by simp

text \<open>
  The flattened meshgrid enumerates the grid row-major. The flattened
  \<open>gridx\<close> and \<open>gridy\<close> have \<open>nx * ny\<close> entries and entry \<open>k\<close> is the grid point
  \<open>(gx[k mod nx], gy[k div nx])\<close>, which is the order of a field of shape
  \<open>(ny, nx)\<close> flattened the same way.
\<close>

lemma meshgrid_flatten_nth:
  assumes k: "k < length gx * length gy"
  shows "flatten (fst (meshgrid gx gy)) ! k = gx ! (k mod length gx) \<and>
         flatten (snd (meshgrid gx gy)) ! k = gy ! (k div length gx)"
proof -
  have n0: "0 < length gx" using k by (cases "length gx") auto
  have kd: "k div length gx < length gy" using k n0 by (simp add: div_less_iff_less_mult mult.commute)
  have km: "k mod length gx < length gx" using n0 by simp
  have "concat (map (\<lambda>_. gx) gy) ! k = map (\<lambda>_. gx) gy ! (k div length gx) ! (k mod length gx)"
    using k by (intro nth_concat_rows) auto
  moreover have "concat (map (\<lambda>yv. map (\<lambda>_. yv) gx) gy) ! k =
      map (\<lambda>yv. map (\<lambda>_. yv) gx) gy ! (k div length gx) ! (k mod length gx)"
    using k by (intro nth_concat_rows) auto
  ultimately show ?thesis using kd km by (simp add: flatten_def meshgrid_def)
qed

theorem build_grid_flatten:
  assumes g: "build_grid x y r = Inr (gx, gy, gridx, gridy)"
  shows "length (flatten gridx) = length gx * length gy \<and>
         length (flatten gridy) = length gx * length gy \<and>
         (\<forall>k < length gx * length gy.
            flatten gridx ! k = gx ! (k mod length gx) \<and> flatten gridy ! k = gy ! (k div length gx))"
proof -
  have m: "(gridx, gridy) = meshgrid gx gy" using build_grid_InrD [OF g] by simp
  then have "gridx = fst (meshgrid gx gy)" "gridy = snd (meshgrid gx gy)"
    by (metis fst_conv, metis snd_conv)
  then show ?thesis using length_flatten_meshgrid meshgrid_flatten_nth by simp
qed

theorem build_grid_flatten_witness:
  "length (flatten [[-30, 0, 30], [-30, 0, 30], [-30, 0, 30::real]]) = 3 * 3 \<and>
   flatten [[-30, -30, -30], [0, 0, 0], [30, 30, 30::real]] ! 5 = [-30, 0, 30::real] ! (5 div 3)"
  using build_grid_flatten [OF build_grid_example] by simp

text \<open>
  Grid construction fails exactly when an axis has no sample (numpy's
  \<open>min\<close> of an empty array raises ValueError) or the cell size is zero (\<open>arange\<close>
  raises ZeroDivisionError); in every other case it returns a grid.
\<close>

theorem build_grid_error:
  "build_grid x y r = Inl e \<longleftrightarrow>
     ((x = [] \<or> y = []) \<and> e = ValueError) \<or> (x \<noteq> [] \<and> y \<noteq> [] \<and> r = 0 \<and> e = ZeroDivisionError)"
  by (auto simp add: build_grid_eq)

end
