(* ===== verification/Kriging.thy ===== *)
theory Kriging
  imports Prelude
begin

text \<open>
  The kriging step of \<^verbatim>\<open>heatmap_gstools.py\<close> (\<^verbatim>\<open>krige_with_gstools\<close>, lines 132-196).
  The geostatistics library is not part of the repository: the record \<open>backend\<close> is
  its interface, one field per library call the function makes, each returning a
  value or the exception it raises. The library is taken to be deterministic: the same
  call with the same arguments gives the same outcome, so the second construction of
  \<open>gs.SRF\<close> (line 154) behaves like the first (line 137). Everything the function itself
  decides is modelled: the order of the attempts, which exceptions each \<open>except\<close>
  catches (\<open>TypeError\<close> only, or any), the unpacking of a \<open>(field, var)\<close> pair,
  and the shape correction of lines 180-190.
\<close>

section \<open>The backend interface\<close>

text \<open>The three calling conventions of \<open>SRF.structured\<close> (lines 140, 143, 146).\<close>

datatype srf_call =
    CondMode   \<comment> \<open>\<open>cond_pos=, cond_val=, mode="conditional"\<close>\<close>
  | CondKw     \<comment> \<open>\<open>cond_pos=, cond_val=\<close>\<close>
  | CondPos    \<comment> \<open>\<open>cond_pos, vals\<close> positionally\<close>

text \<open>The two grid arguments of the ordinary-kriging call (lines 170 and 173).\<close>

datatype ok_arg = Axes | Mesh

text \<open>What \<open>ok(...)\<close> returns: a field, or a pair of field and variance.\<close>

datatype krige_res = Single "flt ndarray" | Pair "flt ndarray" "flt ndarray"

record backend =
  srf_init :: "unit result"
  srf_structured :: "srf_call \<Rightarrow> flt ndarray result"
  ok_init :: "unit result"
  ok_call :: "ok_arg \<Rightarrow> krige_res result"

section \<open>Shape correction\<close>

text \<open>
  \<open>field.reshape((ny, nx))\<close> of a 1-D array keeps the entries in order; \<open>field.T\<close> of a
  2-D array of shape \<open>(a, b)\<close> has shape \<open>(b, a)\<close> and entry \<open>[j][i]\<close> = \<open>[i][j]\<close>.
\<close>

definition reshape2 :: "nat \<Rightarrow> nat \<Rightarrow> 'a ndarray \<Rightarrow> 'a ndarray" where
  "reshape2 ny nx a = a\<lparr>shape := [ny, nx]\<rparr>"

definition transpose2 :: "'a ndarray \<Rightarrow> 'a ndarray" where
  "transpose2 a =
     (case shape a of
        [r, c] \<Rightarrow> \<lparr>shape = [c, r], data = map (\<lambda>k. data a ! ((k mod r) * c + k div r)) [0..<r * c]\<rparr>
      | _ \<Rightarrow> a\<lparr>shape := rev (shape a)\<rparr>)"

text \<open>
  Lines 181-190: the field and whether the warning of line 190 was printed. A shape that
  neither reshaping nor transposing fixes is only reported; the field is returned as it is.
\<close>

definition fix_shape :: "nat \<Rightarrow> nat \<Rightarrow> flt ndarray \<Rightarrow> flt ndarray \<times> bool" where
  "fix_shape ny nx field =
     (if shape field \<noteq> [ny, nx] then
        (if length (shape field) = 1 \<and> nd_size field = ny * nx then (reshape2 ny nx field, False)
         else if rev (shape field) = [ny, nx] then (transpose2 field, False)
         else (field, True))
      else (field, False))"

section \<open>The attempts\<close>

text \<open>Lines 136-148: build the SRF, then try the three conventions, falling through on TypeError only.\<close>

definition srf_first_attempt :: "backend \<Rightarrow> flt ndarray result" where
  "srf_first_attempt b =
     (case srf_init b of
        Inl e \<Rightarrow> Inl e
      | Inr _ \<Rightarrow>
          (case srf_structured b CondMode of
             Inl TypeError \<Rightarrow>
               (case srf_structured b CondKw of
                  Inl TypeError \<Rightarrow> srf_structured b CondPos
                | r \<Rightarrow> r)
           | r \<Rightarrow> r))"

text \<open>Lines 152-160: the retry inside the first handler.\<close>

definition srf_retry :: "backend \<Rightarrow> flt ndarray result" where
  "srf_retry b =
     (case srf_init b of
        Inl e \<Rightarrow> Inl e
      | Inr _ \<Rightarrow>
          (case srf_structured b CondKw of
             Inl TypeError \<Rightarrow> srf_structured b CondPos
           | r \<Rightarrow> r))"

text \<open>Lines 165-192: ordinary kriging; any exception of the first call falls back to the meshgrid call.\<close>

definition field_of :: "krige_res \<Rightarrow> flt ndarray" where
  "field_of res = (case res of Single f \<Rightarrow> f | Pair f v \<Rightarrow> f)"

definition ordinary_attempt :: "backend \<Rightarrow> nat \<Rightarrow> nat \<Rightarrow> flt ndarray result" where
  "ordinary_attempt b ny nx =
     (case ok_init b of
        Inl e \<Rightarrow> Inl e
      | Inr _ \<Rightarrow>
          (case (case ok_call b Axes of Inl _ \<Rightarrow> ok_call b Mesh | r \<Rightarrow> r) of
             Inl e \<Rightarrow> Inl e
           | Inr res \<Rightarrow> Inr (fst (fix_shape ny nx (field_of res)))))"

text \<open>The whole function; \<open>ny, nx = len(gy), len(gx)\<close>. Every exception is caught; only line 196 raises.\<close>

definition krige_with_gstools :: "backend \<Rightarrow> nat \<Rightarrow> nat \<Rightarrow> flt ndarray result" where
  "krige_with_gstools b ny nx =
     (case srf_first_attempt b of
        Inr field \<Rightarrow> Inr field
      | Inl e1 \<Rightarrow>
          (case srf_retry b of
             Inr field \<Rightarrow> Inr field
           | Inl e2 \<Rightarrow>
               (case ordinary_attempt b ny nx of
                  Inr field \<Rightarrow> Inr field
                | Inl e3 \<Rightarrow> Inl RuntimeError)))"

section \<open>Reference behaviour\<close>

text \<open>
  What the fallback chain amounts to: the SRF path succeeds with the first of the three
  conventions that returns a field, where the positional convention is only tried after
  the keyword convention raised TypeError; if the SRF cannot be built or no convention
  succeeds, ordinary kriging is tried; if that fails too, RuntimeError.
\<close>

definition srf_conventions :: "backend \<Rightarrow> flt ndarray result" where
  "srf_conventions b =
     (case srf_structured b CondMode of
        Inr f \<Rightarrow> Inr f
      | Inl _ \<Rightarrow>
          (case srf_structured b CondKw of
             Inr f \<Rightarrow> Inr f
           | Inl TypeError \<Rightarrow> srf_structured b CondPos
           | Inl e \<Rightarrow> Inl e))"

definition krige_reference :: "backend \<Rightarrow> nat \<Rightarrow> nat \<Rightarrow> flt ndarray result" where
  "krige_reference b ny nx =
     (case (case srf_init b of Inl e \<Rightarrow> Inl e | Inr _ \<Rightarrow> srf_conventions b) of
        Inr f \<Rightarrow> Inr f
      | Inl _ \<Rightarrow> (case ordinary_attempt b ny nx of Inr f \<Rightarrow> Inr f | Inl _ \<Rightarrow> Inl RuntimeError))"

section \<open>Properties of the kriging step\<close>

text \<open>
  C10 [krige_equiv]: The fallback chain is the reference chain. With a deterministic
  backend, \<open>krige_with_gstools\<close> returns exactly what \<open>krige_reference\<close> returns: the
  retry inside the first handler adds nothing beyond trying the keyword convention after
  a non-TypeError failure of the first convention.
\<close>

theorem krige_with_gstools_reference:
  "krige_with_gstools b ny nx = krige_reference b ny nx"
  by (cases "srf_structured b CondPos")
     (simp_all add: krige_with_gstools_def krige_reference_def srf_first_attempt_def
      srf_retry_def srf_conventions_def split: sum.split py_error.split)

text \<open>
  C11 [krige_error]: The only exception that escapes the kriging step is RuntimeError, and it
  is raised exactly when the first SRF attempt, the SRF retry and ordinary kriging all
  fail.
\<close>

theorem krige_with_gstools_error:
  "krige_with_gstools b ny nx = Inl e \<longleftrightarrow>
     e = RuntimeError \<and> isl (srf_first_attempt b) \<and> isl (srf_retry b) \<and> isl (ordinary_attempt b ny nx)"
  by (auto simp add: krige_with_gstools_def split: sum.splits)

theorem krige_with_gstools_error_witness:
  "krige_with_gstools
     \<lparr>srf_init = Inl ValueError, srf_structured = (\<lambda>_. Inl TypeError),
      ok_init = Inr (), ok_call = (\<lambda>_. Inl ValueError)\<rparr> 4 5 = Inl RuntimeError"
  using krige_with_gstools_error
  by (simp add: srf_first_attempt_def srf_retry_def ordinary_attempt_def)

lemma fix_shape_cases:
  "fix_shape ny nx field =
     (if shape field = [ny, nx] then (field, False)
      else if length (shape field) = 1 \<and> nd_size field = ny * nx then (reshape2 ny nx field, False)
      else if shape field = [nx, ny] then (transpose2 field, False)
      else (field, True))"
  by (simp add: fix_shape_def rev_swap)

lemma transpose2_wf:
  "shape a = [r, c] \<Longrightarrow> shape (transpose2 a) = [c, r] \<and> nd_wf (transpose2 a)"
  by (simp add: transpose2_def nd_wf_def nd_size_def)

text \<open>
  C12 [fix_shape]: Shape correction restores the grid shape or reports the mismatch. For a
  well-formed array, the field \<open>fix_shape\<close> returns is well formed; without the warning
  its shape is \<open>(ny, nx)\<close>; with the warning it is the input field, whose shape
  neither reshaping nor transposing makes \<open>(ny, nx)\<close>, and the run goes on with it.
\<close>

theorem fix_shape_sound:
  assumes wf: "nd_wf field" and fx: "fix_shape ny nx field = (f', warned)"
  shows "nd_wf f' \<and> (\<not> warned \<longrightarrow> shape f' = [ny, nx]) \<and>
         (warned \<longrightarrow> f' = field \<and> shape field \<noteq> [ny, nx] \<and> shape field \<noteq> [nx, ny] \<and>
                     \<not> (length (shape field) = 1 \<and> nd_size field = ny * nx))"
proof -
  consider (keep) "shape field = [ny, nx]"
    | (resh) "shape field \<noteq> [ny, nx]" "length (shape field) = 1 \<and> nd_size field = ny * nx"
    | (tr) "shape field \<noteq> [ny, nx]" "\<not> (length (shape field) = 1 \<and> nd_size field = ny * nx)"
        "shape field = [nx, ny]"
    | (bad) "shape field \<noteq> [ny, nx]" "\<not> (length (shape field) = 1 \<and> nd_size field = ny * nx)"
        "shape field \<noteq> [nx, ny]"
    by blast
  then show ?thesis
  proof cases
    case keep
    then show ?thesis using wf fx by (simp add: fix_shape_cases)
  next
    case resh
    then show ?thesis using wf fx by (auto simp add: fix_shape_cases reshape2_def nd_wf_def nd_size_def)
  next
    case tr
    then show ?thesis using fx transpose2_wf [OF tr(3)] by (simp add: fix_shape_cases)
  next
    case bad
    then show ?thesis using wf fx by (auto simp add: fix_shape_cases split: if_splits)
  qed
qed

theorem fix_shape_sound_witness:
  "nd_wf \<lparr>shape = [6], data = replicate 6 (Fin (-60))\<rparr> \<and>
   fix_shape 2 3 \<lparr>shape = [6], data = replicate 6 (Fin (-60))\<rparr> =
     (\<lparr>shape = [2, 3], data = replicate 6 (Fin (-60))\<rparr>, False) \<and>
   shape \<lparr>shape = [2, 3], data = replicate 6 (Fin (-60))\<rparr> = [2, 3]"
proof -
  have wf: "nd_wf \<lparr>shape = [6], data = replicate 6 (Fin (-60))\<rparr>"
    by (simp add: nd_wf_def nd_size_def)
  have fx: "fix_shape 2 3 \<lparr>shape = [6], data = replicate 6 (Fin (-60))\<rparr> =
     (\<lparr>shape = [2, 3], data = replicate 6 (Fin (-60))\<rparr>, False)"
    by (simp add: fix_shape_def nd_size_def reshape2_def)
  show ?thesis using fix_shape_sound [OF wf fx] wf fx by simp
qed

text \<open>
  Shape correction keeps every value at its grid point. A flat field
  of \<open>ny * nx\<close> entries is reshaped without moving an entry, and a field of shape
  \<open>(nx, ny)\<close> is transposed: entry \<open>[i][j]\<close> of the result, at row-major index
  \<open>i * nx + j\<close>, is entry \<open>[j][i]\<close> of the input.
\<close>

theorem fix_shape_entries:
  assumes wf: "nd_wf field" and ne: "nx \<noteq> ny"
  shows "(shape field = [ny * nx] \<longrightarrow> data (fst (fix_shape ny nx field)) = data field) \<and>
         (shape field = [nx, ny] \<longrightarrow>
            (\<forall>i < ny. \<forall>j < nx.
               data (fst (fix_shape ny nx field)) ! (i * nx + j) = data field ! (j * ny + i)))"
proof (intro conjI impI allI)
  assume "shape field = [ny * nx]"
  then show "data (fst (fix_shape ny nx field)) = data field"
    by (simp add: fix_shape_cases nd_size_def reshape2_def)
next
  fix i j
  assume sh: "shape field = [nx, ny]" and i: "i < ny" and j: "j < nx"
  have k: "i * nx + j < nx * ny"
  proof -
    have "i * nx + j < i * nx + nx" using j by simp
    also have "\<dots> = Suc i * nx" by simp
    also have "\<dots> \<le> ny * nx" using i by (intro mult_right_mono) simp_all
    finally show ?thesis by (simp add: mult.commute)
  qed
  have md: "(i * nx + j) mod nx = j" "(i * nx + j) div nx = i" using j by simp_all
  have "fst (fix_shape ny nx field) = transpose2 field"
    using sh ne by (simp add: fix_shape_cases)
  then show "data (fst (fix_shape ny nx field)) ! (i * nx + j) = data field ! (j * ny + i)"
    using sh k md by (simp add: transpose2_def)
qed

theorem fix_shape_entries_witness:
  "(2::nat) \<noteq> 1 \<and>
   nd_wf \<lparr>shape = [2, 1], data = [Fin (-50), Fin (-70)]\<rparr> \<and>
   data (fst (fix_shape 1 2 \<lparr>shape = [2, 1], data = [Fin (-50), Fin (-70)]\<rparr>)) ! (0 * 2 + 1) =
   [Fin (-50), Fin (-70)] ! (1 * 1 + 0)"
proof -
  have wf: "nd_wf \<lparr>shape = [2, 1], data = [Fin (-50), Fin (-70)]\<rparr>"
    by (simp add: nd_wf_def nd_size_def)
  show ?thesis using fix_shape_entries [OF wf, of 2 1] wf by simp
qed

text \<open>
  C18 [srf_unchecked]: A field from the SRF path is returned without any shape check. When the
  SRF can be built and the first convention returns a field, \<open>krige_with_gstools\<close>
  returns that field whatever its shape; only the ordinary-kriging path corrects shapes.
\<close>

theorem krige_srf_unchecked:
  assumes "srf_init b = Inr ()" and "srf_structured b CondMode = Inr f"
  shows "krige_with_gstools b ny nx = Inr f"
  using assms by (simp add: krige_with_gstools_def srf_first_attempt_def)

theorem krige_srf_unchecked_witness:
  "krige_with_gstools
     \<lparr>srf_init = Inr (), srf_structured = (\<lambda>_. Inr \<lparr>shape = [3, 2], data = replicate 6 NaN\<rparr>),
      ok_init = Inl ValueError, ok_call = (\<lambda>_. Inl ValueError)\<rparr> 2 3 =
   Inr \<lparr>shape = [3, 2], data = replicate 6 NaN\<rparr>"
  by (rule krige_srf_unchecked) simp_all

end
