(* ===== verification/Variogram.thy ===== *)
theory Variogram
  imports Prelude
begin

text \<open>
  The covariance-model fit of \<^verbatim>\<open>heatmap_gstools.py\<close> (\<^verbatim>\<open>fit_variogram\<close>, lines
  71-129). As for kriging, the library calls are an interface (\<open>vario_lib\<close>): the
  empirical variogram estimate under its three calling conventions and the automatic
  fit. The empirical variogram is a list of bin values, each a number or NaN (a bin
  with no pair); it is never infinite for finite data. Everything else is modelled: the
  TypeError-only fall-through between the conventions, the inner fallback that derives
  an exponential model from the empirical variogram when the fit fails or returns
  parameters, and the outer fallback that builds the default exponential model from the
  sample variance and the data's diagonal when anything in the \<open>try\<close> raises.
\<close>

section \<open>Models and the library interface\<close>

text \<open>
  A covariance model: an exponential model built by the script, with its variance (a
  float, possibly NaN) and its length scale, or a model instance the library's fit
  returned, which the script passes on untouched.
\<close>

datatype cov_model = Exponential flt real | LibModel nat

datatype fit_res = FitModel cov_model | FitParams

datatype vario_call = KwBinNum | KwBins | Positional

record vario_lib =
  vario_estimate :: "vario_call \<Rightarrow> (real list \<times> real option list) result"
  vario_fit :: "fit_res result"

section \<open>numpy helpers\<close>

definition hypot :: "real \<Rightarrow> real \<Rightarrow> real" where
  "hypot a b = sqrt (a\<^sup>2 + b\<^sup>2)"

text \<open>
  \<open>numpy.nanvar\<close> (population variance, \<open>ddof = 0\<close>) of a NaN-free array; the
  rows with NaN were dropped by the loader. Of an empty array it is NaN.
\<close>

definition nanvar :: "real list \<Rightarrow> flt" where
  "nanvar vs =
     (if vs = [] then NaN
      else let m = sum_list vs / real (length vs)
           in Fin (sum_list (map (\<lambda>v. (v - m)\<^sup>2) vs) / real (length vs)))"

text \<open>
  \<open>numpy.nanmax\<close>: ValueError on an empty array, NaN when every entry is NaN, else the
  largest number. \<open>numpy.nanargmax\<close>: the first index of that largest number.
\<close>

definition nanmax :: "real option list \<Rightarrow> flt result" where
  "nanmax vs =
     (if vs = [] then Inl ValueError
      else case List.map_filter id vs of [] \<Rightarrow> Inr NaN | ws \<Rightarrow> Inr (Fin (Max (set ws))))"

definition nanargmax :: "real option list \<Rightarrow> nat" where
  "nanargmax vs = length (takeWhile (\<lambda>v. v \<noteq> Some (Max (set (List.map_filter id vs)))) vs)"

definition any_not_nan :: "real option list \<Rightarrow> bool" where
  "any_not_nan vs \<longleftrightarrow> (\<exists>v \<in> set vs. v \<noteq> None)"

section \<open>fit_variogram\<close>

text \<open>Lines 84-101: the three conventions; only TypeError falls through to the next.\<close>

definition estimate :: "vario_lib \<Rightarrow> (real list \<times> real option list) result" where
  "estimate lib =
     (case vario_estimate lib KwBinNum of
        Inl TypeError \<Rightarrow>
          (case vario_estimate lib KwBins of
             Inl TypeError \<Rightarrow>
               (case vario_estimate lib Positional of
                  Inl _ \<Rightarrow> Inl RuntimeError
                | r \<Rightarrow> r)
           | r \<Rightarrow> r)
      | r \<Rightarrow> r)"

text \<open>Lines 115-118: an exponential model derived from the empirical variogram.\<close>

definition derived_model :: "real \<Rightarrow> real list \<Rightarrow> real option list \<Rightarrow> cov_model result" where
  "derived_model max_dist bins vario =
     (case nanmax vario of
        Inl e \<Rightarrow> Inl e
      | Inr sill \<Rightarrow>
          (case (if any_not_nan vario then py_index bins (nanargmax vario) else Inr (max_dist / 3)) of
             Inl e \<Rightarrow> Inl e
           | Inr rng \<Rightarrow> Inr (Exponential sill (max rng 1))))"

text \<open>Lines 77-120: the body of the \<open>try\<close>.\<close>

definition fit_attempt :: "vario_lib \<Rightarrow> real \<Rightarrow> cov_model result" where
  "fit_attempt lib max_dist =
     (case estimate lib of
        Inl e \<Rightarrow> Inl e
      | Inr (bins, vario) \<Rightarrow>
          (case vario_fit lib of
             Inr (FitModel m) \<Rightarrow> Inr m
           | _ \<Rightarrow> derived_model max_dist bins vario))"

text \<open>Lines 121-129: the default model of the outer handler.\<close>

definition default_model :: "real list \<Rightarrow> real list \<Rightarrow> real list \<Rightarrow> cov_model result" where
  "default_model x y vals =
     (case np_max x of Inl e \<Rightarrow> Inl e | Inr maxx \<Rightarrow>
      (case np_min x of Inl e \<Rightarrow> Inl e | Inr minx \<Rightarrow>
       (case np_max y of Inl e \<Rightarrow> Inl e | Inr maxy \<Rightarrow>
        (case np_min y of Inl e \<Rightarrow> Inl e | Inr miny \<Rightarrow>
          (let sill = nanvar vals; diag = hypot (maxx - minx) (maxy - miny);
               length = max (diag / 5) 1
           in Inr (Exponential sill length))))))"

text \<open>
  The whole function. \<open>max_dist = None\<close> computes half the diagonal before the
  \<open>try\<close> (line 76), so an empty coordinate array raises there.
\<close>

definition fit_variogram ::
  "vario_lib \<Rightarrow> real list \<Rightarrow> real list \<Rightarrow> real list \<Rightarrow> real option \<Rightarrow> cov_model result" where
  "fit_variogram lib x y vals max_dist =
     (case (case max_dist of
              Some d \<Rightarrow> Inr d
            | None \<Rightarrow>
                (case np_max x of Inl e \<Rightarrow> Inl e | Inr maxx \<Rightarrow>
                 (case np_min x of Inl e \<Rightarrow> Inl e | Inr minx \<Rightarrow>
                  (case np_max y of Inl e \<Rightarrow> Inl e | Inr maxy \<Rightarrow>
                   (case np_min y of Inl e \<Rightarrow> Inl e | Inr miny \<Rightarrow>
                      Inr (hypot (maxx - minx) (maxy - miny) / 2)))))) of
        Inl e \<Rightarrow> Inl e
      | Inr md \<Rightarrow>
          (case fit_attempt lib md of
             Inr model \<Rightarrow> Inr model
           | Inl _ \<Rightarrow> default_model x y vals))"

section \<open>Lemmas\<close>

lemma default_model_eq:
  "default_model x y vals =
     (if x = [] \<or> y = [] then Inl ValueError
      else Inr (Exponential (nanvar vals)
                  (max (hypot (Max (set x) - Min (set x)) (Max (set y) - Min (set y)) / 5) 1)))"
  by (simp add: default_model_def np_min_def np_max_def)

lemma fit_variogram_None_eq:
  "fit_variogram lib x y vals None =
     (if x = [] \<or> y = [] then Inl ValueError
      else case fit_attempt lib (hypot (Max (set x) - Min (set x)) (Max (set y) - Min (set y)) / 2) of
             Inr model \<Rightarrow> Inr model
           | Inl _ \<Rightarrow> default_model x y vals)"
  by (simp add: fit_variogram_def np_min_def np_max_def)

lemma derived_model_Exponential:
  "derived_model md bins vario = Inr m \<Longrightarrow> \<exists>v l. m = Exponential v l \<and> 1 \<le> l"
  by (auto simp add: derived_model_def split: sum.splits if_splits)

lemma fit_attempt_cases:
  "fit_attempt lib md = Inr m \<Longrightarrow>
     vario_fit lib = Inr (FitModel m) \<or> (\<exists>v l. m = Exponential v l \<and> 1 \<le> l)"
  by (auto simp add: fit_attempt_def dest: derived_model_Exponential
      split: sum.splits prod.splits fit_res.splits)

lemma set_map_filter_id [model_simps]:
  "set (List.map_filter id vs) = {v. Some v \<in> set vs}"
  by (induction vs) (auto simp add: List.map_filter_simps split: option.splits)

lemma map_filter_id_ne:
  assumes "any_not_nan vs" shows "List.map_filter id vs \<noteq> []"
proof -
  obtain v where "Some v \<in> set vs" using assms by (auto simp add: any_not_nan_def)
  then have "v \<in> set (List.map_filter id vs)" by (simp add: set_map_filter_id)
  then show ?thesis by auto
qed

lemma nanargmax_bound:
  assumes "any_not_nan vs"
  shows "nanargmax vs < length vs"
proof -
  have "Max (set (List.map_filter id vs)) \<in> set (List.map_filter id vs)"
    using map_filter_id_ne [OF assms] by (intro Max_in) simp_all
  then have "Some (Max (set (List.map_filter id vs))) \<in> set vs"
    by (simp add: set_map_filter_id)
  then show ?thesis
    unfolding nanargmax_def by (rule length_takeWhile_less) simp
qed

section \<open>Properties of the fit\<close>

text \<open>
  C13 [vario_total]: Fitting never fails on data. With \<open>max_dist = None\<close>, as \<open>main\<close> calls
  it, \<open>fit_variogram\<close> raises only when a coordinate array is empty (ValueError from
  \<open>x.max()\<close> on line 76); for any library behaviour it otherwise returns a model.
\<close>

theorem fit_variogram_error:
  "fit_variogram lib x y vals None = Inl e \<longleftrightarrow> (x = [] \<or> y = []) \<and> e = ValueError"
  by (auto simp add: fit_variogram_None_eq default_model_eq split: sum.splits)

theorem fit_variogram_error_witness:
  "fit_variogram \<lparr>vario_estimate = (\<lambda>_. Inl TypeError), vario_fit = Inl RuntimeError\<rparr>
     [] [20] [-60] None = Inl ValueError"
  using fit_variogram_error by simp

text \<open>
  C14 [vario_default]: The default model when estimation fails. If every convention of
  the variogram estimate fails, the model is the exponential one with variance the
  sample variance of the RSSI values and length scale one fifth of the data's diagonal,
  raised to at least 1.
\<close>

theorem fit_variogram_default:
  assumes "isl (estimate lib)" and "x \<noteq> []" and "y \<noteq> []"
  shows "fit_variogram lib x y vals None =
           Inr (Exponential (nanvar vals)
                  (max (hypot (Max (set x) - Min (set x)) (Max (set y) - Min (set y)) / 5) 1))"
  using assms by (auto simp add: fit_variogram_None_eq default_model_eq fit_attempt_def
      split: sum.splits)

theorem fit_variogram_default_witness:
  "fit_variogram \<lparr>vario_estimate = (\<lambda>_. Inl TypeError), vario_fit = Inl RuntimeError\<rparr>
     [10] [20] [-60] None = Inr (Exponential (Fin 0) 1)"
proof -
  have "isl (estimate \<lparr>vario_estimate = (\<lambda>_. Inl TypeError), vario_fit = Inl RuntimeError\<rparr>)"
    by (simp add: estimate_def)
  from fit_variogram_default [OF this, of "[10]" "[20]" "[-60]"]
  show ?thesis by (simp add: nanvar_def hypot_def)
qed

text \<open>
  C19 [vario_inner]: The model when estimation succeeds but the fit does not yield a model.
  The variance is then the largest empirical bin value and the length scale the bin of
  that value (at least 1), not the sample variance and diagonal the default uses.
\<close>

theorem fit_variogram_inner:
  assumes est: "estimate lib = Inr (bins, vario)"
    and nofit: "\<forall>m. vario_fit lib \<noteq> Inr (FitModel m)"
    and nn: "any_not_nan vario" and bl: "length bins = length vario"
    and ne: "x \<noteq> []" "y \<noteq> []"
  shows "fit_variogram lib x y vals None =
           Inr (Exponential (Fin (Max (set (List.map_filter id vario)))) (max (bins ! nanargmax vario) 1))"
proof -
  have ix: "nanargmax vario < length bins" using nanargmax_bound [OF nn] bl by simp
  have ne_v: "vario \<noteq> []" using nn by (auto simp add: any_not_nan_def)
  have "List.map_filter id vario \<noteq> []"
    using nn by (rule map_filter_id_ne)
  then have mx: "nanmax vario = Inr (Fin (Max (set (List.map_filter id vario))))"
    using ne_v by (simp add: nanmax_def split: list.split)
  have "fit_attempt lib md =
          Inr (Exponential (Fin (Max (set (List.map_filter id vario)))) (max (bins ! nanargmax vario) 1))"
    for md
    using est nofit nn ix mx
    by (auto simp add: fit_attempt_def derived_model_def py_index_def split: sum.split fit_res.split)
  then show ?thesis using ne by (simp add: fit_variogram_None_eq)
qed

theorem fit_variogram_inner_witness:
  "fit_variogram \<lparr>vario_estimate = (\<lambda>_. Inr ([5, 15], [Some 4, Some 9])), vario_fit = Inl RuntimeError\<rparr>
     [0, 10] [0, 10] [-60, -70] None = Inr (Exponential (Fin 9) 15)"
proof -
  let ?lib = "\<lparr>vario_estimate = (\<lambda>_. Inr ([5::real, 15], [Some (4::real), Some 9])),
               vario_fit = Inl RuntimeError\<rparr>"
  have est: "estimate ?lib = Inr ([5, 15], [Some 4, Some 9])" by (simp add: estimate_def)
  have "\<forall>m. vario_fit ?lib \<noteq> Inr (FitModel m)" by simp
  moreover have "any_not_nan [Some (4::real), Some 9]" by (simp add: any_not_nan_def)
  ultimately have "fit_variogram ?lib [0, 10] [0, 10] [-60, -70] None =
      Inr (Exponential (Fin (Max (set (List.map_filter id [Some (4::real), Some 9]))))
             (max ([5, 15] ! nanargmax [Some (4::real), Some 9]) 1))"
    using fit_variogram_inner [OF est] by simp
  then show ?thesis by (simp add: List.map_filter_def nanargmax_def)
qed

text \<open>
  Every model the script builds has a length scale of at least 1. A model
  \<open>fit_variogram\<close> returns is either the one the library's fit returned, or an
  exponential model whose length scale is at least 1.
\<close>

theorem fit_variogram_len_scale:
  assumes "fit_variogram lib x y vals md = Inr m"
  shows "vario_fit lib = Inr (FitModel m) \<or> (\<exists>v l. m = Exponential v l \<and> 1 \<le> l)"
proof -
  have "(\<exists>d. fit_attempt lib d = Inr m) \<or> default_model x y vals = Inr m"
    using assms by (auto simp add: fit_variogram_def split: sum.splits option.splits)
  then show ?thesis
  proof
    assume "\<exists>d. fit_attempt lib d = Inr m"
    then show ?thesis by (auto dest: fit_attempt_cases)
  next
    assume "default_model x y vals = Inr m"
    then show ?thesis by (auto simp add: default_model_eq split: if_splits)
  qed
qed

theorem fit_variogram_len_scale_witness:
  "fit_variogram \<lparr>vario_estimate = (\<lambda>_. Inl TypeError), vario_fit = Inl RuntimeError\<rparr>
     [10] [20] [-60] None = Inr (Exponential (Fin 0) 1) \<and>
   (vario_fit \<lparr>vario_estimate = (\<lambda>_. Inl TypeError), vario_fit = Inl RuntimeError\<rparr> =
      Inr (FitModel (Exponential (Fin 0) 1)) \<or>
    (\<exists>v l. Exponential (Fin 0) (1::real) = Exponential v l \<and> 1 \<le> l))"
proof -
  have f: "fit_variogram \<lparr>vario_estimate = (\<lambda>_. Inl TypeError), vario_fit = Inl RuntimeError\<rparr>
     [10] [20] [-60] None = Inr (Exponential (Fin 0) 1)"
    by (simp add: fit_variogram_def estimate_def fit_attempt_def default_model_eq
        np_min_def np_max_def nanvar_def hypot_def)
  show ?thesis using f fit_variogram_len_scale [OF f] by simp
qed

end
