(* ===== verification/Weights.thy ===== *)
theory Weights
  imports Grid
begin

text \<open>
  The renderer's weighting of predicted RSSI values. \<^verbatim>\<open>heatmap_gstools.py\<close> clips
  each value to \<open>[-140, -10]\<close> dBm and maps it linearly onto \<open>[0, 1]\<close>
  (\<^verbatim>\<open>grid_to_heatmap_data\<close>, lines 205-219), then keeps the grid points of positive
  weight (\<^verbatim>\<open>main\<close>, line 277). The other heatmap scripts shift instead:
  \<open>weight = rssi + 100\<close> (\<^verbatim>\<open>heatmap_generator.py\<close> line 19,
  \<^verbatim>\<open>heatmap_generator-2.py\<close> line 64, \<^verbatim>\<open>heatmap-generator-3.py\<close> line 79).
  The theorems show that the clipped weight is always in \<open>[0, 1]\<close>, is the linear
  rescale inside the clipping range and monotone, that exactly the cells predicted above
  \<open>-140\<close> dBm are rendered, and that the shift policy gives negative weights below
  \<open>-100\<close> dBm.
\<close>

section \<open>Definitions\<close>

text \<open>Lines 215-218 for one value: clip, rescale, NaN to 0.\<close>

definition clip_weight :: "flt \<Rightarrow> real" where
  "clip_weight v =
     nan_to_num 0 (flt_div_pos (flt_sub (np_clip v (-140) (-10)) (Fin (-140))) 130)"

text \<open>Lines 205-219: flattened grid coordinates and the weights of the flattened field.\<close>

definition grid_to_heatmap_data ::
  "flt ndarray \<Rightarrow> real list list \<Rightarrow> real list list \<Rightarrow> real list \<times> real list \<times> real list" where
  "grid_to_heatmap_data field gridx gridy =
     (let flat_x = flatten gridx; flat_y = flatten gridy; flat_val = data field
      in (flat_x, flat_y, map clip_weight flat_val))"

text \<open>
  Line 277: \<open>[[lat, lon, w] for lat, lon, w in zip(lats, lons, weights) if w > 0]\<close>;
  \<open>zip\<close> stops at the shortest list, as HOL's does.
\<close>

definition heat_points :: "real list \<Rightarrow> real list \<Rightarrow> real list \<Rightarrow> (real \<times> real \<times> real) list" where
  "heat_points lats lons weights =
     [(la, lo, w). (la, lo, w) \<leftarrow> zip lats (zip lons weights), w > 0]"

text \<open>The shift policy of the other heatmap scripts: \<open>weight = rssi + 100\<close>.\<close>

definition shift_weight :: "real \<Rightarrow> real" where
  "shift_weight rssi = rssi + 100"

section \<open>Lemmas\<close>

lemma clip_weight_simps [simp]:
  "clip_weight (Fin a) = (min (max a (-140)) (-10) + 140) / 130"
  "clip_weight PInf = 1"
  "clip_weight NInf = 0"
  "clip_weight NaN = 0"
  by (simp_all add: clip_weight_def)

lemma clip_weight_le_one: "clip_weight v \<le> 1"
  by (cases v) simp_all

lemma set_heat_points:
  "set (heat_points lats lons weights) =
     {(la, lo, w) | la lo w. (la, lo, w) \<in> set (zip lats (zip lons weights)) \<and> w > 0}"
  by (auto simp add: heat_points_def)

section \<open>Properties\<close>

text \<open>
  C2 [weight_bounds]: Weight boundedness. For every float value, finite, infinite or NaN,
  the weight \<open>grid_to_heatmap_data\<close> gives it lies in \<open>[0, 1]\<close>.
\<close>

theorem clip_weight_bounds: "0 \<le> clip_weight v \<and> clip_weight v \<le> 1"
  by (cases v) auto

text \<open>
  The weight is the clipped linear rescale. Inside \<open>[-140, -10]\<close>
  dBm it is \<open>(v + 140) / 130\<close>; values at or below \<open>-140\<close> (and NaN) weigh 0,
  values at or above \<open>-10\<close> weigh 1: out-of-range values are clipped, never
  extrapolated.
\<close>

theorem clip_weight_formula:
  "(-140 \<le> a \<and> a \<le> -10 \<longrightarrow> clip_weight (Fin a) = (a + 140) / 130) \<and>
   (a \<le> -140 \<longrightarrow> clip_weight (Fin a) = 0) \<and>
   (-10 \<le> a \<longrightarrow> clip_weight (Fin a) = 1) \<and> clip_weight NaN = 0"
  by auto

theorem clip_weight_formula_witness:
  "clip_weight (Fin (-75)) = 1 / 2 \<and> clip_weight (Fin (-150)) = 0 \<and> clip_weight (Fin 3) = 1"
  using clip_weight_formula [of "-75"] clip_weight_formula [of "-150"] clip_weight_formula [of 3]
  by simp

text \<open>
  The weight is monotone: a stronger predicted signal never gets a smaller
  weight.
\<close>

theorem clip_weight_mono:
  assumes "a \<le> b" shows "clip_weight (Fin a) \<le> clip_weight (Fin b)"
  using assms by (simp add: divide_right_mono)

theorem clip_weight_mono_witness: "clip_weight (Fin (-90)) \<le> clip_weight (Fin (-60))"
  by (rule clip_weight_mono) simp

text \<open>
  C17 [heat_filter]: Exactly the cells predicted above \<open>-140\<close> dBm are rendered. A grid
  point with predicted value \<open>v\<close> is kept by line 277 if and only if \<open>v > -140\<close>
  (a NaN prediction is dropped), and every kept weight is in \<open>(0, 1]\<close>.
\<close>

theorem heat_points_filter:
  "set (heat_points lats lons (map clip_weight vals)) =
     {(la, lo, clip_weight v) | la lo v.
        (la, lo, v) \<in> set (zip lats (zip lons vals)) \<and> flt_gt v (Fin (-140))} \<and>
   (\<forall>(la, lo, w) \<in> set (heat_points lats lons (map clip_weight vals)). 0 < w \<and> w \<le> 1)"
proof -
  have pos: "0 < clip_weight v \<longleftrightarrow> flt_gt v (Fin (-140))" for v
    by (cases v) (auto simp add: min_def max_def)
  have z: "zip lons (map clip_weight vals) = map (\<lambda>(lo, v). (lo, clip_weight v)) (zip lons vals)"
    by (simp add: zip_map2)
  have zz: "zip lats (map (\<lambda>(lo, v). (lo, clip_weight v)) (zip lons vals)) =
      map (\<lambda>(la, lo, v). (la, lo, clip_weight v)) (zip lats (zip lons vals))"
    by (simp add: zip_map2 case_prod_beta)
  have "set (heat_points lats lons (map clip_weight vals)) =
     {(la, lo, clip_weight v) | la lo v.
        (la, lo, v) \<in> set (zip lats (zip lons vals)) \<and> flt_gt v (Fin (-140))}"
    unfolding set_heat_points z zz using pos by force
  moreover have "\<forall>(la, lo, w) \<in> set (heat_points lats lons (map clip_weight vals)). 0 < w \<and> w \<le> 1"
    using clip_weight_le_one by (force simp add: set_heat_points dest!: set_zip_rightD)
  ultimately show ?thesis by blast
qed

theorem heat_points_filter_witness:
  "set (heat_points [53, 54] [1, 2] (map clip_weight [Fin (-75), NaN])) = {(53, 1, 1 / 2)}"
proof -
  have "set (heat_points [53, 54] [1, 2] (map clip_weight [Fin (-75), NaN])) =
     {(la, lo, clip_weight v) | la lo v.
        (la, lo, v) \<in> set (zip [53, 54] (zip [1, 2] [Fin (-75), NaN])) \<and> flt_gt v (Fin (-140))}"
    using heat_points_filter by blast
  also have "\<dots> = {(53, 1, 1 / 2)}" by auto
  finally show ?thesis .
qed

text \<open>
  The shift policy is not a positive weight. With
  \<open>weight = rssi + 100\<close>, every reading below \<open>-100\<close> dBm gets a negative weight, and
  the scripts using it pass such weights to the heat layer unfiltered.
\<close>

theorem shift_weight_negative:
  assumes "rssi < -100" shows "shift_weight rssi < 0"
  using assms by (simp add: shift_weight_def)

theorem shift_weight_negative_witness: "shift_weight (-112) < 0"
  by (rule shift_weight_negative) simp

end
