(* ===== verification/Loader.thy ===== *)
theory Loader
  imports Prelude
begin

text \<open>
  The loader of \<^verbatim>\<open>heatmap_gstools.py\<close> (\<^verbatim>\<open>load_csv\<close>, lines 36-50) and the part of
  \<^verbatim>\<open>pandas.read_csv(path, header=None)\<close> it relies on. The model starts from the
  file's fields, each classified as pandas classifies it: a number, a missing value
  (an empty field or one of pandas' NA markers) or other text. The CSV tokenizer is not
  modelled. What pandas does with the rows is: blank lines are skipped; the first line
  fixes the number of columns; a shorter line is padded with missing values; a longer line
  raises ParserError; a file with no line raises EmptyDataError, a ValueError. A column
  holding text stays a column of strings, and \<open>astype(float)\<close> raises ValueError on
  the first string that is not a number.
\<close>

section \<open>Data\<close>

datatype cell = Num real | NA | Txt string

record sample =
  rssi :: real
  lat :: real
  lon :: real
  alt :: "cell option"
  heading :: "cell option"

section \<open>pandas.read_csv with header=None\<close>

definition pad_row :: "nat \<Rightarrow> cell list \<Rightarrow> cell list" where
  "pad_row n r = r @ replicate (n - length r) NA"

definition read_csv :: "cell list list \<Rightarrow> cell list list result" where
  "read_csv lines =
     (let rows = filter (\<lambda>r. r \<noteq> []) lines in
      if rows = [] then Inl ValueError
      else let n = length (hd rows) in
        if \<exists>r \<in> set rows. n < length r then Inl ParserError
        else Inr (map (pad_row n) rows))"

section \<open>load_csv\<close>

definition is_txt :: "cell \<Rightarrow> bool" where
  "is_txt c = (case c of Txt _ \<Rightarrow> True | _ \<Rightarrow> False)"

text \<open>\<open>dropna(subset=["rssi", "lat", "lon"])\<close>: the first three fields are present.\<close>

definition complete :: "cell list \<Rightarrow> bool" where
  "complete r \<longleftrightarrow> r ! 0 \<noteq> NA \<and> r ! 1 \<noteq> NA \<and> r ! 2 \<noteq> NA"

definition cell_val :: "cell \<Rightarrow> real" where
  "cell_val c = (case c of Num v \<Rightarrow> v | _ \<Rightarrow> 0)"

definition to_sample :: "cell list \<Rightarrow> sample" where
  "to_sample r =
     \<lparr>rssi = cell_val (r ! 0), lat = cell_val (r ! 1), lon = cell_val (r ! 2),
      alt = (if 3 < length r then Some (r ! 3) else None),
      heading = (if 4 < length r then Some (r ! 4) else None)\<rparr>"

text \<open>
  Lines 38-50: at least three columns, keep the first five, drop incomplete rows, convert
  \<open>lat\<close>, \<open>lon\<close> and \<open>rssi\<close> to float (each conversion raises ValueError on text).
\<close>

definition load_csv :: "cell list list \<Rightarrow> sample list result" where
  "load_csv lines =
     (case read_csv lines of
        Inl e \<Rightarrow> Inl e
      | Inr df \<Rightarrow>
          if 3 \<le> length (hd df) then
            (let df5 = map (take 5) df;
                 kept = filter complete df5
             in if \<exists>r \<in> set kept. is_txt (r ! 1) then Inl ValueError
                else if \<exists>r \<in> set kept. is_txt (r ! 2) then Inl ValueError
                else if \<exists>r \<in> set kept. is_txt (r ! 0) then Inl ValueError
                else Inr (map to_sample kept))
          else Inl ValueError)"

section \<open>Specification of the loaded rows\<close>

text \<open>The \<open>(rssi, lat, lon)\<close> of a line whose first three fields are numbers.\<close>

fun triple_of :: "cell list \<Rightarrow> (real \<times> real \<times> real) option" where
  "triple_of (Num a # Num b # Num c # _) = Some (a, b, c)"
| "triple_of _ = None"

definition sample_triple :: "sample \<Rightarrow> real \<times> real \<times> real" where
  "sample_triple s = (rssi s, lat s, lon s)"

section \<open>Lemmas\<close>

lemma cell_Num: "c \<noteq> NA \<Longrightarrow> \<not> is_txt c \<Longrightarrow> c = Num (cell_val c)"
  by (cases c) (simp_all add: is_txt_def cell_val_def)

lemma padded_cell:
  "3 \<le> n \<Longrightarrow> length r \<le> n \<Longrightarrow> i < 3 \<Longrightarrow>
     take 5 (pad_row n r) ! i = (if i < length r then r ! i else NA)"
  by (auto simp add: pad_row_def nth_append min_def)

lemma triple_of_padded:
  assumes n: "3 \<le> n" and r: "length r \<le> n"
  defines "p \<equiv> take 5 (pad_row n r)"
  shows "(complete p \<and> \<not> is_txt (p ! 0) \<and> \<not> is_txt (p ! 1) \<and> \<not> is_txt (p ! 2) \<longrightarrow>
            triple_of r = Some (cell_val (p ! 0), cell_val (p ! 1), cell_val (p ! 2)) \<and>
            sample_triple (to_sample p) = (cell_val (p ! 0), cell_val (p ! 1), cell_val (p ! 2))) \<and>
         (\<not> complete p \<longrightarrow> triple_of r = None)"
proof -
  have c: "p ! i = (if i < length r then r ! i else NA)" if "i < 3" for i
    using padded_cell [OF n r that] by (simp add: p_def)
  show ?thesis
  proof (cases "3 \<le> length r")
    case True
    then obtain a b d rest where rr: "r = a # b # d # rest"
      by (auto simp add: numeral_3_eq_3 Suc_le_length_iff)
    have p012: "p ! 0 = a" "p ! 1 = b" "p ! 2 = d" using c [of 0] c [of 1] c [of 2] rr by simp_all
    show ?thesis
    proof (intro conjI impI)
      assume h: "complete p \<and> \<not> is_txt (p ! 0) \<and> \<not> is_txt (p ! 1) \<and> \<not> is_txt (p ! 2)"
      then have "a = Num (cell_val a)" "b = Num (cell_val b)" "d = Num (cell_val d)"
        using cell_Num p012 by (simp_all add: complete_def)
      then show "triple_of r = Some (cell_val (p ! 0), cell_val (p ! 1), cell_val (p ! 2))"
        using rr p012 by (metis triple_of.simps(1))
      show "sample_triple (to_sample p) = (cell_val (p ! 0), cell_val (p ! 1), cell_val (p ! 2))"
        by (simp add: sample_triple_def to_sample_def)
    next
      assume "\<not> complete p"
      then have "a = NA \<or> b = NA \<or> d = NA" using p012 by (auto simp add: complete_def)
      then show "triple_of r = None" using rr by (cases a; cases b; cases d) auto
    qed
  next
    case False
    then have "p ! 2 = NA" using c [of 2] by simp
    then have nc: "\<not> complete p" by (simp add: complete_def)
    have "triple_of r = None"
      using False by (cases r rule: triple_of.cases) auto
    then show ?thesis using nc by simp
  qed
qed

lemma load_csv_Inl: "load_csv lines = Inl e \<Longrightarrow> e = ValueError \<or> e = ParserError"
  by (auto simp add: load_csv_def read_csv_def Let_def split: sum.splits if_splits)

lemma read_csv_InrD:
  assumes "read_csv lines = Inr df"
  defines "rows \<equiv> filter (\<lambda>r. r \<noteq> []) lines"
  shows "rows \<noteq> [] \<and> (\<forall>r \<in> set rows. length r \<le> length (hd rows)) \<and>
         df = map (pad_row (length (hd rows))) rows \<and> length (hd df) = length (hd rows)"
proof -
  have "rows \<noteq> []" "\<forall>r \<in> set rows. length r \<le> length (hd rows)"
      "df = map (pad_row (length (hd rows))) rows"
    using assms by (auto simp add: read_csv_def Let_def not_less split: if_splits)
  moreover have "length (pad_row (length (hd rows)) (hd rows)) = length (hd rows)"
    by (simp add: pad_row_def)
  ultimately show ?thesis by (simp add: hd_map)
qed

lemma kept_triples:
  assumes "3 \<le> n" and "\<forall>r \<in> set rows. length r \<le> n"
    and "\<forall>p \<in> set (filter complete (map (take 5 \<circ> pad_row n) rows)).
           \<not> is_txt (p ! 0) \<and> \<not> is_txt (p ! 1) \<and> \<not> is_txt (p ! 2)"
  shows "map (sample_triple \<circ> to_sample) (filter complete (map (take 5 \<circ> pad_row n) rows)) =
           List.map_filter triple_of rows"
  using assms(2,3)
proof (induction rows)
  case Nil
  then show ?case by (simp add: List.map_filter_simps)
next
  case (Cons r rows)
  have lr: "length r \<le> n" using Cons.prems(1) by simp
  note row = triple_of_padded [OF assms(1) lr]
  show ?case
  proof (cases "complete (take 5 (pad_row n r))")
    case True
    with Cons.prems(2) have "\<not> is_txt (take 5 (pad_row n r) ! 0) \<and> \<not> is_txt (take 5 (pad_row n r) ! 1) \<and>
        \<not> is_txt (take 5 (pad_row n r) ! 2)" by simp
    with True row Cons show ?thesis by (simp add: List.map_filter_simps)
  next
    case False
    with row Cons show ?thesis by (simp add: List.map_filter_simps)
  qed
qed

text \<open>What a successful load consists of: the padded, truncated, complete rows, without text.\<close>

lemma load_csv_InrD:
  assumes "load_csv lines = Inr ss"
  defines "rows \<equiv> filter (\<lambda>r. r \<noteq> []) lines"
  shows "3 \<le> length (hd rows) \<and> (\<forall>r \<in> set rows. length r \<le> length (hd rows)) \<and>
         (\<forall>p \<in> set (filter complete (map (take 5 \<circ> pad_row (length (hd rows))) rows)).
            \<not> is_txt (p ! 0) \<and> \<not> is_txt (p ! 1) \<and> \<not> is_txt (p ! 2)) \<and>
         ss = map to_sample (filter complete (map (take 5 \<circ> pad_row (length (hd rows))) rows))"
proof -
  obtain df where df: "read_csv lines = Inr df"
    using assms by (cases "read_csv lines") (simp_all add: load_csv_def)
  note rd = read_csv_InrD [OF df, folded rows_def]
  then have dfn: "df = map (pad_row (length (hd rows))) rows" by simp
  show ?thesis
    using assms(1) df rd by (auto simp add: load_csv_def dfn Let_def split: if_splits)
qed

section \<open>Properties of the loader\<close>

text \<open>
  C26 [load_rows]: The loader keeps exactly the complete rows. When \<open>load_csv\<close> succeeds,
  the \<open>(rssi, lat, lon)\<close> of the samples are, in file order, those of the non-blank
  lines whose first three fields are numbers: a line with a missing field among them
  (a short line included) is dropped, every other line is kept.
\<close>

theorem load_csv_rows:
  assumes "load_csv lines = Inr ss"
  shows "map sample_triple ss = List.map_filter triple_of (filter (\<lambda>r. r \<noteq> []) lines)"
proof -
  define rows where "rows = filter (\<lambda>r. r \<noteq> []) lines"
  define n where "n = length (hd rows)"
  note ld = load_csv_InrD [OF assms, folded rows_def, folded n_def]
  then have n3: "3 \<le> n" and bnd: "\<forall>r \<in> set rows. length r \<le> n" and
    notxt: "\<forall>p \<in> set (filter complete (map (take 5 \<circ> pad_row n) rows)).
              \<not> is_txt (p ! 0) \<and> \<not> is_txt (p ! 1) \<and> \<not> is_txt (p ! 2)" and
    ss: "ss = map to_sample (filter complete (map (take 5 \<circ> pad_row n) rows))"
    by blast+
  show ?thesis
    using kept_triples [OF n3 bnd notxt] ss by (simp add: rows_def)
qed

theorem load_csv_rows_witness:
  "load_csv [[Num (-60), Num 53.268, Num (-0.53), Num 50, Num 90],
             [Num (-70), Num 53.2681],
             [],
             [Num (-55), Num 53.2682, Num (-0.5299), Num 50, Num 100]] =
     Inr [\<lparr>rssi = -60, lat = 53.268, lon = -0.53, alt = Some (Num 50), heading = Some (Num 90)\<rparr>,
          \<lparr>rssi = -55, lat = 53.2682, lon = -0.5299, alt = Some (Num 50), heading = Some (Num 100)\<rparr>] \<and>
   map sample_triple
     [\<lparr>rssi = -60, lat = 53.268, lon = -0.53, alt = Some (Num 50), heading = Some (Num 90)\<rparr>,
      \<lparr>rssi = -55, lat = 53.2682, lon = -0.5299, alt = Some (Num 50), heading = Some (Num 100)\<rparr>] =
   [(-60, 53.268, -0.53), (-55, 53.2682, -0.5299)]"
proof -
  have l: "load_csv [[Num (-60), Num 53.268, Num (-0.53), Num 50, Num 90],
             [Num (-70), Num 53.2681],
             [],
             [Num (-55), Num 53.2682, Num (-0.5299), Num 50, Num 100]] =
     Inr [\<lparr>rssi = -60, lat = 53.268, lon = -0.53, alt = Some (Num 50), heading = Some (Num 90)\<rparr>,
          \<lparr>rssi = -55, lat = 53.2682, lon = -0.5299, alt = Some (Num 50), heading = Some (Num 100)\<rparr>]"
    by (auto simp add: load_csv_def read_csv_def pad_row_def complete_def is_txt_def to_sample_def
        cell_val_def Let_def)
  show ?thesis
    using load_csv_rows [OF l] l by (simp add: List.map_filter_simps)
qed

text \<open>
  C29 [load_columns]: Trailing columns map positionally to absent values. In every sample of a
  successful load, \<open>alt\<close> is absent exactly when the file has three columns and
  \<open>heading\<close> exactly when it has at most four (the column count is that of the first
  non-blank line; extra columns past the fifth are dropped).
\<close>

theorem load_csv_columns:
  assumes "load_csv lines = Inr ss"
  shows "\<forall>s \<in> set ss. (alt s = None \<longleftrightarrow> length (hd (filter (\<lambda>r. r \<noteq> []) lines)) = 3) \<and>
                      (heading s = None \<longleftrightarrow> length (hd (filter (\<lambda>r. r \<noteq> []) lines)) \<le> 4)"
proof -
  define rows where "rows = filter (\<lambda>r. r \<noteq> []) lines"
  define n where "n = length (hd rows)"
  note ld = load_csv_InrD [OF assms, folded rows_def, folded n_def]
  then have n3: "3 \<le> n" and bnd: "\<forall>r \<in> set rows. length r \<le> n" and
    ss: "ss = map to_sample (filter complete (map (take 5 \<circ> pad_row n) rows))"
    by blast+
  have "length (take 5 (pad_row n r)) = min 5 n" if "r \<in> set rows" for r
  proof -
    have "length r \<le> n" using bnd that by blast
    then show ?thesis by (simp add: pad_row_def)
  qed
  then have "(alt s = None \<longleftrightarrow> n = 3) \<and> (heading s = None \<longleftrightarrow> n \<le> 4)" if "s \<in> set ss" for s
    using that n3 unfolding ss by (auto simp add: to_sample_def split: if_splits)
  then show ?thesis by (simp add: rows_def [symmetric] n_def [symmetric])
qed

theorem load_csv_columns_witness:
  "load_csv [[Num (-60), Num 53, Num 1, Num 50], [Num (-70), Num 54, Num 2]] =
     Inr [\<lparr>rssi = -60, lat = 53, lon = 1, alt = Some (Num 50), heading = None\<rparr>,
          \<lparr>rssi = -70, lat = 54, lon = 2, alt = Some NA, heading = None\<rparr>] \<and>
   length (hd (filter (\<lambda>r. r \<noteq> []) [[Num (-60), Num 53, Num 1, Num 50], [Num (-70), Num 54, Num 2]])) = 4"
proof -
  have h: "load_csv [[Num (-60), Num 53, Num 1, Num 50], [Num (-70), Num 54, Num 2]] =
     Inr [\<lparr>rssi = -60, lat = 53, lon = 1, alt = Some (Num 50), heading = None\<rparr>,
          \<lparr>rssi = -70, lat = 54, lon = 2, alt = Some NA, heading = None\<rparr>]"
    by (auto simp add: load_csv_def read_csv_def pad_row_def complete_def is_txt_def to_sample_def
        cell_val_def Let_def)
  from h load_csv_columns [OF h] show ?thesis by simp
qed

text \<open>
  C27 [load_text]: A text field in a kept row aborts the load. If a non-blank line has all of
  \<open>rssi\<close>, \<open>lat\<close> and \<open>lon\<close> present and one of them is text, \<open>load_csv\<close>
  raises ValueError (from \<open>astype(float)\<close>): such a row is not dropped.
\<close>

theorem load_csv_text_error:
  assumes rd: "read_csv lines = Inr df" and n3: "3 \<le> length (hd df)"
    and r: "r \<in> set lines" "3 \<le> length r"
    and present: "r ! 0 \<noteq> NA" "r ! 1 \<noteq> NA" "r ! 2 \<noteq> NA"
    and has_text: "is_txt (r ! 0) \<or> is_txt (r ! 1) \<or> is_txt (r ! 2)"
  shows "load_csv lines = Inl ValueError"
proof -
  define rows where "rows = filter (\<lambda>r. r \<noteq> []) lines"
  note facts = read_csv_InrD [OF rd, folded rows_def]
  define n where "n = length (hd rows)"
  have rr: "r \<in> set rows" using r by (auto simp add: rows_def)
  have ln: "length r \<le> n" using facts rr by (simp add: n_def)
  have "length (hd df) = n" using facts unfolding n_def by blast
  then have n3': "3 \<le> n" using n3 by simp
  define p where "p = take 5 (pad_row n r)"
  have pi: "p ! i = r ! i" if "i < 3" for i
    using padded_cell [OF n3' ln that] that r(2) by (simp add: p_def)
  have pk: "p \<in> set (filter complete (map (take 5) df))"
    using facts rr present pi by (auto simp add: p_def n_def complete_def)
  have "is_txt (p ! 0) \<or> is_txt (p ! 1) \<or> is_txt (p ! 2)" using has_text pi by simp
  then show ?thesis
    using rd n3 pk by (auto simp add: load_csv_def Let_def)
qed

theorem load_csv_text_error_witness:
  "load_csv [[Num (-60), Num 53.268, Num (-0.53)], [Txt ''err'', Num 53.2681, Num (-0.5301)]] =
     Inl ValueError"
proof -
  have rd: "read_csv [[Num (-60), Num 53.268, Num (-0.53)], [Txt ''err'', Num 53.2681, Num (-0.5301)]] =
      Inr [[Num (-60), Num 53.268, Num (-0.53)], [Txt ''err'', Num 53.2681, Num (-0.5301)]]"
    by (simp add: read_csv_def pad_row_def)
  show ?thesis
    by (rule load_csv_text_error [OF rd, of "[Txt ''err'', Num 53.2681, Num (-0.5301)]"])
       (simp_all add: is_txt_def)
qed

text \<open>
  C28 [load_parser]: A line longer than the first aborts the load. \<open>load_csv\<close> raises
  ParserError exactly when some line has more fields than the first non-blank line; in
  particular a malformed short first line makes every full line after it fatal.
\<close>

theorem load_csv_parser_error:
  "load_csv lines = Inl ParserError \<longleftrightarrow>
     (\<exists>r \<in> set lines. length (hd (filter (\<lambda>r. r \<noteq> []) lines)) < length r)"
proof -
  have 1: "load_csv lines = Inl ParserError \<longleftrightarrow> read_csv lines = Inl ParserError"
    by (auto simp add: load_csv_def Let_def split: sum.split)
  have 2: "read_csv lines = Inl ParserError \<longleftrightarrow>
      (\<exists>r \<in> set (filter (\<lambda>r. r \<noteq> []) lines). length (hd (filter (\<lambda>r. r \<noteq> []) lines)) < length r)"
    by (auto simp add: read_csv_def Let_def filter_empty_conv)
  have 3: "(\<exists>r \<in> set (filter (\<lambda>r. r \<noteq> []) lines). length (hd (filter (\<lambda>r. r \<noteq> []) lines)) < length r) \<longleftrightarrow>
        (\<exists>r \<in> set lines. length (hd (filter (\<lambda>r. r \<noteq> []) lines)) < length r)"
    by auto
  show ?thesis using 1 2 3 by simp
qed

theorem load_csv_parser_error_witness:
  "load_csv [[Num (-60), Num 53.268], [Num (-70), Num 53.2681, Num (-0.5301)]] = Inl ParserError"
  using load_csv_parser_error by simp

end
