(* ===== verification/Radial.thy ===== *)
theory Radial
  imports Prelude
begin

text \<open>
  The radial-profile scripts \<^verbatim>\<open>signal-over-line.py\<close> and
  \<^verbatim>\<open>signal-over-compass.py\<close>: the angular distance \<^verbatim>\<open>angle_diff\<close>, the
  normalisation of a bearing into \<open>[0, 360)\<close>, the selection of the samples in an
  angular slice, and the stacked-profile loop of the compass script with its
  Savitzky-Golay window rule (lines 79-110). A sample is given by its bearing and
  distance from the base station (computed by the scripts' \<^verbatim>\<open>bearing\<close> and
  \<^verbatim>\<open>haversine\<close>, modelled in \<open>Geodesy\<close>, which builds these points from the
  loaded rows) and its RSSI. The theorems
  show that \<open>angle_diff\<close> is a distance on the circle of angles (in \<open>[0, 180]\<close>,
  symmetric, invariant under whole turns), that the window rule gives a valid odd window
  for slices of at least five samples, and that a slice of three or four samples makes
  \<open>savgol_filter\<close> raise, so the compass script crashes on such data.
\<close>

section \<open>Angles\<close>

text \<open>\<^verbatim>\<open>angle_diff\<close> (line script lines 66-68, compass script lines 48-50).\<close>

definition angle_diff :: "real \<Rightarrow> real \<Rightarrow> real" where
  "angle_diff a b = (let d = pymod \<bar>a - b\<bar> 360 in min d (360 - d))"

text \<open>Line 43 of the line script, line 46 of the compass script: \<open>(deg + 360) % 360\<close>.\<close>

definition normalize_bearing :: "real \<Rightarrow> real" where
  "normalize_bearing deg = pymod (deg + 360) 360"

section \<open>Slices and the stacked profiles\<close>

record point =
  bearing_deg :: real
  distance_m :: real
  p_rssi :: real

text \<open>
  Line script lines 70-71 and compass script lines 82-84: the samples whose bearing is
  within \<open>half\<close> degrees of the slice centre.
\<close>

definition slice :: "real \<Rightarrow> real \<Rightarrow> point list \<Rightarrow> point list" where
  "slice centre half pts = filter (\<lambda>p. angle_diff (bearing_deg p) centre \<le> half) pts"

text \<open>Compass script lines 101-104, for a slice of \<open>n\<close> samples.\<close>

definition savgol_window :: "nat \<Rightarrow> nat" where
  "savgol_window n =
     (let w = min 11 (n - (n + 1) mod 2); w = max w 5 in if w mod 2 = 0 then w + 1 else w)"

text \<open>
  The argument checks of \<^verbatim>\<open>scipy.signal.savgol_filter(x, window_length, polyorder)\<close>
  in its default mode \<open>'interp'\<close>: the polynomial order must be below the window
  length, and the window must not be longer than \<open>x\<close>; otherwise ValueError.
\<close>

definition savgol_check :: "nat \<Rightarrow> nat \<Rightarrow> nat \<Rightarrow> unit result" where
  "savgol_check len_x window polyorder =
     (if window \<le> polyorder then Inl ValueError
      else if len_x < window then Inl ValueError
      else Inr ())"

text \<open>
  One iteration of the loop of lines 81-110 with the script's settings (\<open>ANGLE_STEP = 5\<close>,
  \<open>USE_SAVGOL = True\<close>, \<open>SAVGOL_POLY = 3\<close>): \<open>None\<close> when the slice has fewer than three
  samples (\<open>continue\<close>), else the size of the plotted profile, or the exception of the
  smoothing.
\<close>

definition profile_step :: "point list \<Rightarrow> real \<Rightarrow> nat option result" where
  "profile_step pts a =
     (let s = slice a (5 / 2) pts in
      if length s < 3 then Inr None
      else case savgol_check (length s) (savgol_window (length s)) 3 of
             Inl e \<Rightarrow> Inl e
           | Inr _ \<Rightarrow> Inr (Some (length s)))"

text \<open>\<open>np.arange(0, 360, ANGLE_STEP)\<close>: the 72 slice centres \<open>0, 5, ..., 355\<close>.\<close>

definition angle_bins :: "real list" where
  "angle_bins = map (\<lambda>i. 5 * real i) [0..<72]"

text \<open>The whole loop: the first exception ends the script.\<close>

fun profiles :: "point list \<Rightarrow> real list \<Rightarrow> (real \<times> nat) list result" where
  "profiles pts [] = Inr []"
| "profiles pts (a # as) =
     (case profile_step pts a of
        Inl e \<Rightarrow> Inl e
      | Inr None \<Rightarrow> profiles pts as
      | Inr (Some n) \<Rightarrow>
          (case profiles pts as of Inl e \<Rightarrow> Inl e | Inr ps \<Rightarrow> Inr ((a, n) # ps)))"

definition compass_profiles :: "point list \<Rightarrow> (real \<times> nat) list result" where
  "compass_profiles pts = profiles pts angle_bins"

section \<open>Lemmas\<close>

text \<open>The distance of a residue to the nearer of \<open>0\<close> and \<open>360\<close>.\<close>

definition circ :: "real \<Rightarrow> real" where
  "circ d = min d (360 - d)"

lemma circ_pymod_uminus: "circ (pymod (- x) 360) = circ (pymod x 360)"
  by (simp add: pymod_uminus circ_def min.commute)

lemma angle_diff_circ: "angle_diff a b = circ (pymod (a - b) 360)"
proof (cases "0 \<le> a - b")
  case True
  then show ?thesis by (simp add: angle_diff_def circ_def Let_def)
next
  case False
  then have "\<bar>a - b\<bar> = - (a - b)" by simp
  then show ?thesis
    using circ_pymod_uminus [of "a - b"] by (simp add: angle_diff_def circ_def Let_def)
qed

lemma savgol_window_small: "savgol_window 3 = 5" "savgol_window 4 = 5"
  by (simp_all add: savgol_window_def)

lemma savgol_window_large:
  assumes "5 \<le> n"
  shows "odd (savgol_window n) \<and> 5 \<le> savgol_window n \<and> savgol_window n \<le> 11 \<and> savgol_window n \<le> n"
proof (cases "even n")
  case True
  then have "(n + 1) mod 2 = 1" by presburger
  then show ?thesis using assms True
    by (simp add: savgol_window_def Let_def min_def max_def; presburger)
next
  case False
  then have "(n + 1) mod 2 = 0" by presburger
  then show ?thesis using assms False
    by (simp add: savgol_window_def Let_def min_def max_def; presburger)
qed

lemma profile_step_error:
  "profile_step pts a = Inl e \<longleftrightarrow>
     e = ValueError \<and> length (slice a (5 / 2) pts) \<in> {3, 4}"
proof -
  define n where "n = length (slice a (5 / 2) pts)"
  consider "n < 3" | "n = 3" | "n = 4" | "5 \<le> n" by linarith
  then show ?thesis
  proof cases
    case 1
    then show ?thesis by (simp add: profile_step_def n_def)
  next
    case 2
    then show ?thesis by (auto simp add: profile_step_def savgol_check_def savgol_window_small n_def)
  next
    case 3
    then show ?thesis by (auto simp add: profile_step_def savgol_check_def savgol_window_small n_def)
  next
    case 4
    then have "savgol_check n (savgol_window n) 3 = Inr ()"
      using savgol_window_large [OF 4] by (simp add: savgol_check_def)
    with 4 show ?thesis by (simp add: profile_step_def n_def [symmetric] Let_def)
  qed
qed

lemma profiles_error:
  "profiles pts as = Inl e \<longleftrightarrow>
     e = ValueError \<and> (\<exists>a \<in> set as. length (slice a (5 / 2) pts) \<in> {3, 4})"
proof (induction as)
  case Nil
  then show ?case by simp
next
  case (Cons a as)
  show ?case
  proof (cases "profile_step pts a")
    case (Inl e')
    then show ?thesis using profile_step_error [of pts a e'] by auto
  next
    case (Inr r)
    then have "\<not> length (slice a (5 / 2) pts) \<in> {3, 4}"
      using profile_step_error [of pts a ValueError] by auto
    with Inr Cons.IH show ?thesis by (cases r) (auto split: sum.split)
  qed
qed

lemma circ_pymod_le_iff:
  assumes h: "0 \<le> h"
  shows "circ (pymod x 360) \<le> h \<longleftrightarrow> (\<exists>k::int. \<bar>x - 360 * of_int k\<bar> \<le> h)"
proof
  define r where "r = pymod x 360"
  have r0: "0 \<le> r" and r1: "r < 360" by (simp_all add: r_def pymod_nonneg pymod_less)
  have xr: "x - 360 * of_int \<lfloor>x / 360\<rfloor> = r" by (simp add: r_def pymod_def)
  assume le0: "circ (pymod x 360) \<le> h"
  then have le: "circ r \<le> h" by (simp add: r_def)
  show "\<exists>k::int. \<bar>x - 360 * of_int k\<bar> \<le> h"
  proof (cases "r \<le> 360 - r")
    case True
    then show ?thesis using le xr r0 by (intro exI [of _ "\<lfloor>x / 360\<rfloor>"]) (simp add: circ_def)
  next
    case False
    then have "\<bar>x - 360 * of_int (\<lfloor>x / 360\<rfloor> + 1)\<bar> = 360 - r" using xr r1 by (simp add: algebra_simps)
    then show ?thesis using le False by (intro exI [of _ "\<lfloor>x / 360\<rfloor> + 1"]) (simp add: circ_def)
  qed
next
  assume "\<exists>k::int. \<bar>x - 360 * of_int k\<bar> \<le> h"
  then obtain k :: int where k: "\<bar>x - 360 * of_int k\<bar> \<le> h" by blast
  define y where "y = x - 360 * of_int k"
  have py: "pymod x 360 = pymod y 360"
    using pymod_shift_int [of 360 y k] by (simp add: y_def algebra_simps)
  have c180: "circ (pymod x 360) \<le> 180"
    using pymod_nonneg [of 360 x] pymod_less [of 360 x] by (simp add: circ_def)
  show "circ (pymod x 360) \<le> h"
  proof (cases "180 \<le> h")
    case True
    then show ?thesis using c180 by simp
  next
    case False
    then have yb: "\<bar>y\<bar> < 180" using k by (simp add: y_def)
    show ?thesis
    proof (cases "0 \<le> y")
      case True
      then have "pymod y 360 = y" using yb by (simp add: pymod_eq_self)
      then show ?thesis using py k True by (simp add: circ_def y_def)
    next
      case False
      then have "pymod y 360 = y + 360"
        using yb pymod_add_period [of 360 y] pymod_eq_self [of "y + 360" 360] by simp
      then show ?thesis using py k False by (simp add: circ_def y_def)
    qed
  qed
qed

section \<open>Properties\<close>

text \<open>
  \<open>angle_diff\<close> is an angle between 0 and 180 degrees, for any two
  inputs.
\<close>

theorem angle_diff_bounds: "0 \<le> angle_diff a b \<and> angle_diff a b \<le> 180"
  using pymod_nonneg [of 360 "a - b"] pymod_less [of 360 "a - b"]
  by (simp add: angle_diff_circ circ_def)

text \<open>
  \<open>angle_diff\<close> is symmetric and depends on its arguments only modulo a
  whole turn.
\<close>

theorem angle_diff_sym_turn:
  "angle_diff a b = angle_diff b a \<and> angle_diff (a + 360) b = angle_diff a b"
proof -
  have s: "circ (pymod (b - a) 360) = circ (pymod (a - b) 360)"
    using circ_pymod_uminus [of "a - b"] by simp
  have t: "pymod (a + 360 - b) 360 = pymod (a - b) 360"
    using pymod_add_period [of 360 "a - b"] by (simp add: algebra_simps)
  show ?thesis by (simp add: angle_diff_circ s t)
qed

text \<open>
  A slice is the set of samples within the half-width of its centre on the
  circle. A sample is in \<open>slice centre half pts\<close> exactly when it is in \<open>pts\<close> and its
  bearing is within \<open>half\<close> degrees of \<open>centre + 360 k\<close> for some whole number of turns
  \<open>k\<close>.
\<close>

theorem slice_circular:
  assumes "0 \<le> half"
  shows "p \<in> set (slice centre half pts) \<longleftrightarrow>
           p \<in> set pts \<and> (\<exists>k::int. \<bar>bearing_deg p - centre - 360 * of_int k\<bar> \<le> half)"
  using circ_pymod_le_iff [OF assms, of "bearing_deg p - centre"]
  by (auto simp add: slice_def angle_diff_circ)

theorem slice_circular_witness:
  "\<lparr>bearing_deg = 358, distance_m = 12, p_rssi = -61\<rparr> \<in>
     set (slice 0 (5 / 2) [\<lparr>bearing_deg = 358, distance_m = 12, p_rssi = -61\<rparr>])"
proof -
  have ex: "\<exists>k::int. \<bar>(358::real) - 0 - 360 * of_int k\<bar> \<le> 5 / 2"
    by (rule exI [of _ 1]) simp
  show ?thesis
    using slice_circular [of "5 / 2" "\<lparr>bearing_deg = 358, distance_m = 12, p_rssi = -61\<rparr>" 0
        "[\<lparr>bearing_deg = 358, distance_m = 12, p_rssi = -61\<rparr>]"] ex
    by simp
qed

text \<open>
  Bearing normalisation lands in \<open>[0, 360)\<close>. \<open>(deg + 360) % 360\<close>
  is in \<open>[0, 360)\<close> for any input; it leaves a bearing of \<open>[0, 360)\<close> unchanged and
  adds a turn to one of \<open>[-360, 0)\<close>, such as \<open>atan2\<close>'s negative results.
\<close>

theorem normalize_bearing_range:
  "0 \<le> normalize_bearing d \<and> normalize_bearing d < 360 \<and>
   (0 \<le> d \<and> d < 360 \<longrightarrow> normalize_bearing d = d) \<and>
   (-360 \<le> d \<and> d < 0 \<longrightarrow> normalize_bearing d = d + 360)"
  using pymod_nonneg [of 360 "d + 360"] pymod_less [of 360 "d + 360"]
    pymod_add_period [of 360 d] pymod_eq_self [of d 360] pymod_eq_self [of "d + 360" 360]
  by (auto simp add: normalize_bearing_def)

theorem normalize_bearing_range_witness:
  "normalize_bearing (-90) = 270 \<and> normalize_bearing 45 = 45"
  using normalize_bearing_range [of "-90"] normalize_bearing_range [of 45] by simp

text \<open>
  The window rule is valid for slices of five or more samples: the window
  is odd, between 5 and 11, no longer than the slice, and above the polynomial order 3,
  so \<open>savgol_filter\<close> accepts it.
\<close>

theorem savgol_window_valid:
  assumes "5 \<le> n"
  shows "odd (savgol_window n) \<and> 5 \<le> savgol_window n \<and> savgol_window n \<le> 11 \<and>
         savgol_window n \<le> n \<and> savgol_check n (savgol_window n) 3 = Inr ()"
  using savgol_window_large [OF assms] by (simp add: savgol_check_def)

theorem savgol_window_valid_witness:
  "savgol_window 8 = 7 \<and> savgol_check 8 7 3 = Inr ()"
proof -
  have w: "savgol_window 8 = 7" by (simp add: savgol_window_def)
  show ?thesis using savgol_window_valid [of 8] w by simp
qed

text \<open>
  The compass script crashes on a slice of three or four samples. The
  stacked-profile loop raises (ValueError from \<open>savgol_filter\<close>, whose window of 5
  exceeds the slice) exactly when some 5-degree slice holds three or four samples; the
  guard \<open>len(slice_df) < 3\<close> lets such slices through.
\<close>

theorem compass_profiles_error:
  "compass_profiles pts = Inl e \<longleftrightarrow>
     e = ValueError \<and> (\<exists>a \<in> set angle_bins. length (slice a (5 / 2) pts) \<in> {3, 4})"
  by (simp add: compass_profiles_def profiles_error)

theorem compass_profiles_error_witness:
  "compass_profiles (replicate 3 \<lparr>bearing_deg = 0, distance_m = 20, p_rssi = -70\<rparr>) = Inl ValueError"
proof -
  have a: "(0::real) \<in> set angle_bins"
    by (simp add: angle_bins_def image_iff)
  have "length (slice 0 (5 / 2) (replicate 3 \<lparr>bearing_deg = 0, distance_m = 20, p_rssi = -70\<rparr>)) = 3"
    by (simp add: slice_def angle_diff_def pymod_def)
  with a show ?thesis using compass_profiles_error by blast
qed

end
