(* ===== verification/Binning.thy ===== *)
theory Binning
  imports Prelude "HOL-Library.Product_Lexorder"
begin

text \<open>
  The grid-averaging heatmap of \<^verbatim>\<open>heatmap_generator-2.py\<close> (lines 29-64): each
  projected sample gets the integer cell index \<open>((x - min_x) // cell, (y - min_y) // cell)\<close>,
  the samples are grouped by cell (pandas \<open>groupby\<close>, keys in sorted order) into the mean
  RSSI, the count and the mean position of the cell, cells with fewer than two readings
  are dropped, and the weight is the mean RSSI plus 100. The theorems show that cell
  indices are non-negative and that each cell's mean position lies inside that cell, that
  the groups are the occupied cells, in sorted order and without repetition, with counts
  that add up to the number of samples, and that the mean RSSI of a cell lies between
  the weakest and the strongest reading in it.
\<close>

section \<open>Definitions\<close>

record proj_sample =
  px :: real
  py :: real
  prssi :: real

definition cell_size_m :: real where
  "cell_size_m = 5"

text \<open>Lines 36-37: Python's float floor division, then \<open>astype(int)\<close>.\<close>

definition cell_key :: "real \<Rightarrow> real \<Rightarrow> real \<Rightarrow> proj_sample \<Rightarrow> int \<times> int" where
  "cell_key min_x min_y c p = (\<lfloor>(px p - min_x) / c\<rfloor>, \<lfloor>(py p - min_y) / c\<rfloor>)"

definition mean :: "real list \<Rightarrow> real" where
  "mean xs = sum_list xs / real (length xs)"

record cell_agg =
  gkey :: "int \<times> int"
  mean_rssi :: real
  cnt :: nat
  x_center :: real
  y_center :: real

text \<open>Lines 42-47: \<open>groupby(["gx", "gy"]).agg(...)\<close>, one row per occupied cell, sorted by key.\<close>

definition aggregate :: "real \<Rightarrow> proj_sample list \<Rightarrow> cell_agg list" where
  "aggregate c pts =
     (if pts = [] then []
      else
        let min_x = Min (set (map px pts)); min_y = Min (set (map py pts));
            k = cell_key min_x min_y c
        in map (\<lambda>key. let g = filter (\<lambda>p. k p = key) pts in
                  \<lparr>gkey = key, mean_rssi = mean (map prssi g), cnt = length g,
                   x_center = mean (map px g), y_center = mean (map py g)\<rparr>)
             (sort (remdups (map k pts))))"

text \<open>Line 50: \<open>agg[agg["count"] >= 2]\<close>; line 64: the weight.\<close>

definition binned_cells :: "proj_sample list \<Rightarrow> cell_agg list" where
  "binned_cells pts = filter (\<lambda>a. 2 \<le> cnt a) (aggregate cell_size_m pts)"

definition bin_weight :: "cell_agg \<Rightarrow> real" where
  "bin_weight a = mean_rssi a + 100"

section \<open>Lemmas\<close>

lemma mean_bounds:
  assumes "xs \<noteq> []" and "\<forall>x \<in> set xs. lo \<le> x \<and> x < hi"
  shows "lo \<le> mean xs \<and> mean xs < hi"
proof -
  have "real (length xs) * lo \<le> sum_list xs \<and> sum_list xs < real (length xs) * hi"
    using assms
  proof (induction xs)
    case Nil
    then show ?case by simp
  next
    case (Cons x xs)
    then show ?case by (cases "xs = []") (auto simp add: algebra_simps)
  qed
  moreover have "0 < real (length xs)" using assms(1) by simp
  ultimately show ?thesis by (simp add: mean_def pos_le_divide_eq pos_divide_less_eq mult.commute)
qed

lemma mean_bounds_closed:
  assumes "xs \<noteq> []"
  shows "Min (set xs) \<le> mean xs \<and> mean xs \<le> Max (set xs)"
proof -
  have "real (length xs) * Min (set xs) \<le> sum_list xs \<and> sum_list xs \<le> real (length xs) * Max (set xs)"
  proof -
    have "sum_list (map (\<lambda>_. Min (set xs)) xs) \<le> sum_list (map (\<lambda>x. x) xs)"
      by (rule sum_list_mono) simp
    moreover have "sum_list (map (\<lambda>x. x) xs) \<le> sum_list (map (\<lambda>_. Max (set xs)) xs)"
      by (rule sum_list_mono) simp
    ultimately show ?thesis by (simp add: sum_list_triv)
  qed
  moreover have "0 < real (length xs)" using assms by simp
  ultimately show ?thesis by (simp add: mean_def pos_le_divide_eq pos_divide_le_eq mult.commute)
qed

lemma floor_cell_bounds:
  assumes c: "0 < c" and k: "\<lfloor>(v - m) / c\<rfloor> = i"
  shows "m + of_int i * c \<le> v \<and> v < m + (of_int i + 1) * c"
  using floor_divide_lower [OF c, of "v - m"] floor_divide_upper [OF c, of "v - m"] k
  by simp

lemma aggregate_member:
  assumes "a \<in> set (aggregate c pts)"
  defines "k \<equiv> cell_key (Min (set (map px pts))) (Min (set (map py pts))) c"
  shows "pts \<noteq> [] \<and> (\<exists>p \<in> set pts. k p = gkey a) \<and>
         a = (let g = filter (\<lambda>p. k p = gkey a) pts in
                \<lparr>gkey = gkey a, mean_rssi = mean (map prssi g), cnt = length g,
                 x_center = mean (map px g), y_center = mean (map py g)\<rparr>)"
  using assms by (auto simp add: aggregate_def Let_def split: if_splits)

lemma length_filter_key:
  "length (filter (\<lambda>p. f p = key) xs) = count_list (map f xs) key"
  by (induction xs) auto

lemma sum_group_sizes:
  "sum_list (map (\<lambda>key. length (filter (\<lambda>p. f p = key) xs)) (sort (remdups (map f xs)))) = length xs"
proof -
  have "sum_list (map (\<lambda>key. length (filter (\<lambda>p. f p = key) xs)) (sort (remdups (map f xs)))) =
        (\<Sum>key \<in> set (map f xs). count_list (map f xs) key)"
    by (simp add: sum_list_distinct_conv_sum_set length_filter_key)
  also have "\<dots> = length (map f xs)" by (rule sum_count_set) simp_all
  finally show ?thesis by simp
qed

section \<open>Properties\<close>

text \<open>
  Each cell's mean position lies in its cell. With a positive cell size,
  every aggregated cell has non-negative indices \<open>(i, j)\<close>, and its mean position lies in
  \<open>[min_x + i c, min_x + (i + 1) c) \<times> [min_y + j c, min_y + (j + 1) c)\<close>, where
  \<open>min_x\<close> and \<open>min_y\<close> are the data's minima.
\<close>

theorem aggregate_center_in_cell:
  assumes c: "0 < c" and a: "a \<in> set (aggregate c pts)"
  defines "mx \<equiv> Min (set (map px pts))" and "my \<equiv> Min (set (map py pts))"
  shows "0 \<le> fst (gkey a) \<and> 0 \<le> snd (gkey a) \<and>
         mx + of_int (fst (gkey a)) * c \<le> x_center a \<and> x_center a < mx + (of_int (fst (gkey a)) + 1) * c \<and>
         my + of_int (snd (gkey a)) * c \<le> y_center a \<and> y_center a < my + (of_int (snd (gkey a)) + 1) * c"
proof -
  define k where "k = cell_key mx my c"
  obtain i j where ij: "gkey a = (i, j)" by (cases "gkey a")
  define g where "g = filter (\<lambda>p. k p = (i, j)) pts"
  have m: "pts \<noteq> [] \<and> (\<exists>p \<in> set pts. k p = (i, j)) \<and>
       a = \<lparr>gkey = (i, j), mean_rssi = mean (map prssi g), cnt = length g,
            x_center = mean (map px g), y_center = mean (map py g)\<rparr>"
    using aggregate_member [OF a] ij by (simp add: k_def mx_def my_def g_def Let_def)
  then obtain p0 where p0: "p0 \<in> set pts" "k p0 = (i, j)" by blast
  have gne: "g \<noteq> []" using p0 by (auto simp add: g_def filter_empty_conv)
  have inx: "\<forall>p \<in> set g. mx + of_int i * c \<le> px p \<and> px p < mx + (of_int i + 1) * c"
    using floor_cell_bounds [OF c] by (auto simp add: g_def k_def cell_key_def)
  have iny: "\<forall>p \<in> set g. my + of_int j * c \<le> py p \<and> py p < my + (of_int j + 1) * c"
    using floor_cell_bounds [OF c] by (auto simp add: g_def k_def cell_key_def)
  have "mx \<le> px p0" "my \<le> py p0" using p0(1) by (auto simp add: mx_def my_def)
  then have "0 \<le> (px p0 - mx) / c" "0 \<le> (py p0 - my) / c" using c by simp_all
  then have "0 \<le> i" "0 \<le> j" using p0(2) by (auto simp add: k_def cell_key_def)
  moreover have "mx + of_int i * c \<le> mean (map px g) \<and> mean (map px g) < mx + (of_int i + 1) * c"
    using mean_bounds [of "map px g"] gne inx by auto
  moreover have "my + of_int j * c \<le> mean (map py g) \<and> mean (map py g) < my + (of_int j + 1) * c"
    using mean_bounds [of "map py g"] gne iny by auto
  ultimately show ?thesis using m ij by simp
qed

theorem aggregate_center_in_cell_witness:
  "aggregate 5 [\<lparr>px = 0, py = 0, prssi = -60\<rparr>, \<lparr>px = 3, py = 4, prssi = -70\<rparr>, \<lparr>px = 7, py = 1, prssi = -80\<rparr>] =
     [\<lparr>gkey = (0, 0), mean_rssi = -65, cnt = 2, x_center = 3 / 2, y_center = 2\<rparr>,
      \<lparr>gkey = (1, 0), mean_rssi = -80, cnt = 1, x_center = 7, y_center = 1\<rparr>] \<and>
   (0::real) + of_int 1 * 5 \<le> 7 \<and> (7::real) < 0 + (of_int 1 + 1) * 5"
proof -
  have ag: "aggregate 5 [\<lparr>px = 0, py = 0, prssi = -60\<rparr>, \<lparr>px = 3, py = 4, prssi = -70\<rparr>, \<lparr>px = 7, py = 1, prssi = -80\<rparr>] =
     [\<lparr>gkey = (0, 0), mean_rssi = -65, cnt = 2, x_center = 3 / 2, y_center = 2\<rparr>,
      \<lparr>gkey = (1, 0), mean_rssi = -80, cnt = 1, x_center = 7, y_center = 1\<rparr>]"
    by (simp add: aggregate_def cell_key_def mean_def Let_def)
  have "\<lparr>gkey = (1, 0), mean_rssi = -80, cnt = 1, x_center = 7, y_center = 1\<rparr> \<in>
      set (aggregate 5 [\<lparr>px = 0, py = 0, prssi = -60\<rparr>, \<lparr>px = 3, py = 4, prssi = -70\<rparr>, \<lparr>px = 7, py = 1, prssi = -80\<rparr>])"
    using ag by simp
  from aggregate_center_in_cell [OF _ this] show ?thesis using ag by simp
qed

text \<open>
  The groups are the occupied cells, once each, in sorted order, and no
  sample is lost. The keys of \<open>aggregate\<close> are strictly increasing (pandas' sorted
  \<open>groupby\<close>), they are exactly the cell indices of the samples, and the counts add up
  to the number of samples.
\<close>

theorem aggregate_groups:
  "sorted_wrt (<) (map gkey (aggregate c pts)) \<and>
   set (map gkey (aggregate c pts)) =
     set (map (cell_key (Min (set (map px pts))) (Min (set (map py pts))) c) pts) \<and>
   sum_list (map cnt (aggregate c pts)) = length pts"
proof (cases "pts = []")
  case True
  then show ?thesis by (simp add: aggregate_def)
next
  case False
  define k where "k = cell_key (Min (set (map px pts))) (Min (set (map py pts))) c"
  have keys: "map gkey (aggregate c pts) = sort (remdups (map k pts))"
    using False by (simp add: aggregate_def k_def Let_def comp_def)
  have cnts: "map cnt (aggregate c pts) =
      map (\<lambda>key. length (filter (\<lambda>p. k p = key) pts)) (sort (remdups (map k pts)))"
    using False by (simp add: aggregate_def k_def Let_def comp_def)
  have "sorted_wrt (<) (sort (remdups (map k pts)))"
    by (simp add: strict_sorted_iff)
  then show ?thesis using keys cnts sum_group_sizes [of k pts] by (simp add: k_def)
qed

text \<open>
  A cell's mean RSSI lies between its weakest and strongest reading, so its
  weight \<open>mean + 100\<close> lies between theirs; every cell kept for rendering holds at least
  two readings.
\<close>

theorem binned_cell_mean:
  assumes a: "a \<in> set (binned_cells pts)"
  defines "g \<equiv> filter (\<lambda>p. cell_key (Min (set (map px pts))) (Min (set (map py pts))) cell_size_m p = gkey a) pts"
  shows "2 \<le> cnt a \<and> cnt a = length g \<and>
         Min (set (map prssi g)) + 100 \<le> bin_weight a \<and> bin_weight a \<le> Max (set (map prssi g)) + 100"
proof -
  have a2: "2 \<le> cnt a" and ag: "a \<in> set (aggregate cell_size_m pts)"
    using a by (simp_all add: binned_cells_def)
  note m = aggregate_member [OF ag]
  have ca: "cnt a = length g" and ma: "mean_rssi a = mean (map prssi g)"
    using m by (simp_all add: g_def Let_def) (metis cell_agg.select_convs(3), metis cell_agg.select_convs(2))
  have "g \<noteq> []" using a2 ca by auto
  then have "Min (set (map prssi g)) \<le> mean (map prssi g) \<and> mean (map prssi g) \<le> Max (set (map prssi g))"
    using mean_bounds_closed [of "map prssi g"] by simp
  then show ?thesis using a2 ca ma by (simp add: bin_weight_def)
qed

theorem binned_cell_mean_witness:
  "binned_cells [\<lparr>px = 0, py = 0, prssi = -60\<rparr>, \<lparr>px = 3, py = 4, prssi = -70\<rparr>, \<lparr>px = 7, py = 1, prssi = -80\<rparr>] =
     [\<lparr>gkey = (0, 0), mean_rssi = -65, cnt = 2, x_center = 3 / 2, y_center = 2\<rparr>] \<and>
   bin_weight \<lparr>gkey = (0, 0), mean_rssi = -65, cnt = 2, x_center = 3 / 2, y_center = 2\<rparr> = 35 \<and>
   (2::nat) \<le> 2"
proof -
  have b: "binned_cells [\<lparr>px = 0, py = 0, prssi = -60\<rparr>, \<lparr>px = 3, py = 4, prssi = -70\<rparr>, \<lparr>px = 7, py = 1, prssi = -80\<rparr>] =
     [\<lparr>gkey = (0, 0), mean_rssi = -65, cnt = 2, x_center = 3 / 2, y_center = 2\<rparr>]"
    by (simp add: binned_cells_def aggregate_def cell_key_def mean_def cell_size_m_def Let_def)
  have "\<lparr>gkey = (0, 0), mean_rssi = -65, cnt = 2, x_center = 3 / 2, y_center = 2\<rparr> \<in>
      set (binned_cells [\<lparr>px = 0, py = 0, prssi = -60\<rparr>, \<lparr>px = 3, py = 4, prssi = -70\<rparr>, \<lparr>px = 7, py = 1, prssi = -80\<rparr>])"
    using b by simp
  from binned_cell_mean [OF this] show ?thesis using b by (simp add: bin_weight_def)
qed

end
