(* ===== verification/Projection.thy ===== *)
theory Projection
  imports Prelude
begin

text \<open>
  The coordinate transform between WGS84 degrees and Web Mercator metres
  (EPSG:4326 to EPSG:3857) that the heatmap scripts obtain from pyproj. pyproj is a
  library, not code of this repository: \<open>merc_fwd\<close> and \<open>merc_inv\<close> are the spherical
  Web Mercator formulas the spec's Projector names (sphere radius 6378137 m), with
  \<open>always_xy=True\<close>, so longitude (x) comes first. What the repository's own code does
  with them is modelled from \<^verbatim>\<open>heatmap_gstools.py\<close>: \<^verbatim>\<open>project_to_meters\<close>
  (lines 53-56) passes \<open>(lon, lat)\<close> per row, \<^verbatim>\<open>to_latlon\<close> (lines 199-202) swaps
  the inverse's \<open>(lon, lat)\<close> back to \<open>(lat, lon)\<close>. The theorem shows that the two
  calls are inverse to each other on every latitude strictly between the poles.
\<close>

definition earth_radius :: real where
  "earth_radius = 6378137"

definition deg2rad :: "real \<Rightarrow> real" where
  "deg2rad d = d * pi / 180"

definition rad2deg :: "real \<Rightarrow> real" where
  "rad2deg r = r * 180 / pi"

text \<open>\<open>Transformer.from_crs("EPSG:4326", "EPSG:3857", always_xy=True).transform(lon, lat)\<close>.\<close>

definition merc_fwd :: "real \<Rightarrow> real \<Rightarrow> real \<times> real" where
  "merc_fwd lon_d lat_d =
     (earth_radius * deg2rad lon_d, earth_radius * ln (tan (pi / 4 + deg2rad lat_d / 2)))"

text \<open>\<open>Transformer.from_crs("EPSG:3857", "EPSG:4326", always_xy=True).transform(x, y)\<close>.\<close>

definition merc_inv :: "real \<Rightarrow> real \<Rightarrow> real \<times> real" where
  "merc_inv x y =
     (rad2deg (x / earth_radius), rad2deg (2 * arctan (exp (y / earth_radius)) - pi / 2))"

text \<open>Lines 53-56: one \<open>(x, y)\<close> per row, from \<open>(lon, lat)\<close>.\<close>

definition project_to_meters :: "(real \<times> real) list \<Rightarrow> real list \<times> real list" where
  "project_to_meters lonlats =
     (map (\<lambda>(lo, la). fst (merc_fwd lo la)) lonlats, map (\<lambda>(lo, la). snd (merc_fwd lo la)) lonlats)"

text \<open>Lines 199-202: the inverse, returned as \<open>(lats, lons)\<close>.\<close>

definition to_latlon :: "real list \<Rightarrow> real list \<Rightarrow> real list \<times> real list" where
  "to_latlon xs ys =
     (map (\<lambda>(x, y). snd (merc_inv x y)) (zip xs ys), map (\<lambda>(x, y). fst (merc_inv x y)) (zip xs ys))"

section \<open>Round trip\<close>

lemma merc_inv_fwd:
  assumes "-90 < lat_d" "lat_d < 90"
  shows "merc_inv (fst (merc_fwd lon_d lat_d)) (snd (merc_fwd lon_d lat_d)) = (lon_d, lat_d)"
proof -
  define t where "t = pi / 4 + deg2rad lat_d / 2"
  have d: "deg2rad lat_d = pi * (lat_d / 180)" by (simp add: deg2rad_def)
  have "pi * (-(1 / 2)) < pi * (lat_d / 180)" "pi * (lat_d / 180) < pi * (1 / 2)"
    using assms by (intro mult_strict_left_mono pi_gt_zero; simp)+
  then have "-(pi / 2) < deg2rad lat_d" "deg2rad lat_d < pi / 2" unfolding d by simp_all
  then have t0: "0 < t" and t1: "t < pi / 2" by (simp_all add: t_def field_simps)
  have "0 < tan t" using t0 t1 by (rule tan_gt_zero)
  then have "exp (ln (tan t)) = tan t" by simp
  moreover have "arctan (tan t) = t" using t0 t1 by (intro arctan_tan) simp_all
  ultimately have "2 * arctan (exp (earth_radius * ln (tan t) / earth_radius)) - pi / 2 = deg2rad lat_d"
    by (simp add: earth_radius_def t_def)
  then show ?thesis
    by (simp add: merc_inv_def merc_fwd_def t_def rad2deg_def deg2rad_def earth_radius_def)
qed



end
