(* ===== verification/Pipeline.thy ===== *)
theory Pipeline
  imports Loader Projection Variogram Kriging Weights
begin

text \<open>
  The script \<^verbatim>\<open>heatmap_gstools.py\<close> end to end: \<^verbatim>\<open>main\<close> (lines 258-285) loads
  the CSV, projects the samples to Web Mercator metres, builds the grid, fits the
  variogram, kriges, converts the grid nodes back to degrees, weights the predictions and
  keeps the points of positive weight, centred at the median GPS point. Argument parsing
  (lines 251-256) only supplies \<open>args.csv\<close> and \<open>args.grid\<close>, here the cells of the
  file and the grid spacing; the folium rendering of \<^verbatim>\<open>create_folium_map\<close> is output,
  and \<open>main_pipeline\<close> returns the arguments it would be called with.

  gstools enters through two functions: \<open>gstools_vario\<close> gives the variogram
  library's behaviour on the projected coordinates and values (with \<open>bin_num=20\<close>),
  \<open>gstools_krige\<close> the kriging backend for a model, the data and the two axes. Nothing
  is assumed of them: the theorems hold for every behaviour of the library. They show
  that every rendered point is a grid node converted back to degrees with a weight in
  \<open>(0, 1]\<close>, and that the pipeline fails only where the loader, an empty data set, a
  zero grid spacing or a total kriging failure makes it fail: the variogram step never
  stops it.
\<close>

type_synonym gstools_vario = "real list \<Rightarrow> real list \<Rightarrow> real list \<Rightarrow> vario_lib"

type_synonym gstools_krige =
  "cov_model \<Rightarrow> real list \<Rightarrow> real list \<Rightarrow> real list \<Rightarrow> real list \<Rightarrow> real list \<Rightarrow> backend"

text \<open>\<open>Series.median()\<close> of lines 281-282: NaN on an empty column.\<close>

definition median :: "real list \<Rightarrow> flt" where
  "median xs =
     (let s = sort xs; n = length s in
      if n = 0 then NaN
      else if even n then Fin ((s ! (n div 2 - 1) + s ! (n div 2)) / 2)
      else Fin (s ! (n div 2)))"

text \<open>The arguments of \<^verbatim>\<open>create_folium_map\<close> (line 284).\<close>

record heatmap_out =
  lat_center :: flt
  lon_center :: flt
  heat_data :: "(real \<times> real \<times> real) list"

text \<open>Lines 258-284.\<close>

definition main_pipeline ::
  "cell list list \<Rightarrow> real \<Rightarrow> gstools_vario \<Rightarrow> gstools_krige \<Rightarrow> heatmap_out result" where
  "main_pipeline lines grid_res gv gk =
     (case load_csv lines of
        Inl e \<Rightarrow> Inl e
      | Inr df \<Rightarrow>
          (case project_to_meters (map (\<lambda>s. (lon s, lat s)) df) of
             (x, y) \<Rightarrow>
               (let vals = map rssi df in
                (case build_grid x y grid_res of
                   Inl e \<Rightarrow> Inl e
                 | Inr (gx, gy, gridx, gridy) \<Rightarrow>
                     (case fit_variogram (gv x y vals) x y vals None of
                        Inl e \<Rightarrow> Inl e
                      | Inr model \<Rightarrow>
                          (case krige_with_gstools (gk model x y vals gx gy) (length gy) (length gx) of
                             Inl e \<Rightarrow> Inl e
                           | Inr field \<Rightarrow>
                               (case to_latlon (flatten gridx) (flatten gridy) of
                                  (lats, lons) \<Rightarrow>
                                    (case grid_to_heatmap_data field gridx gridy of
                                       (_, _, weights) \<Rightarrow>
                                         Inr \<lparr>lat_center = median (map lat df),
                                              lon_center = median (map lon df),
                                              heat_data = heat_points lats lons weights\<rparr>))))))))"

section \<open>Lemmas\<close>

lemma zip_map_zip_map:
  "zip (map f zs) (zip (map g zs) ws) = map (\<lambda>(z, w). (f z, g z, w)) (zip zs ws)"
proof (induction zs arbitrary: ws)
  case Nil
  then show ?case by simp
next
  case (Cons z zs)
  then show ?case by (cases ws) simp_all
qed

text \<open>A rendered point is the inverse projection of a pair of flattened coordinates.\<close>

lemma heat_points_to_latlon:
  assumes "(la, lo, w) \<in> set (heat_points (fst (to_latlon xs ys)) (snd (to_latlon xs ys)) ws)"
  shows "\<exists>xv yv. xv \<in> set xs \<and> yv \<in> set ys \<and> merc_inv xv yv = (lo, la) \<and> w \<in> set ws \<and> 0 < w"
proof -
  have "(la, lo, w) \<in> set (zip (fst (to_latlon xs ys)) (zip (snd (to_latlon xs ys)) ws))" "0 < w"
    using assms by (auto simp add: set_heat_points)
  then obtain xv yv where "((xv, yv), w) \<in> set (zip (zip xs ys) ws)"
      "la = snd (merc_inv xv yv)" "lo = fst (merc_inv xv yv)" "0 < w"
    by (auto simp add: to_latlon_def zip_map_zip_map)
  then show ?thesis by (auto dest: set_zip_leftD set_zip_rightD)
qed

lemma set_flatten_meshgrid:
  "set (flatten (fst (meshgrid gx gy))) \<subseteq> set gx"
  "set (flatten (snd (meshgrid gx gy))) \<subseteq> set gy"
  by (auto simp add: flatten_def meshgrid_def)

lemma set_clip_weights:
  "w \<in> set (snd (snd (grid_to_heatmap_data field gridx gridy))) \<Longrightarrow> w \<le> 1"
  by (auto simp add: grid_to_heatmap_data_def Let_def clip_weight_le_one)

lemma krige_with_gstools_Inl: "krige_with_gstools b ny nx = Inl e \<Longrightarrow> e = RuntimeError"
  by (auto simp add: krige_with_gstools_def split: sum.splits)

lemma ordinary_attempt_ok:
  assumes "ok_init b = Inr ()" "\<not> isl (ok_call b Mesh)"
  shows "\<not> isl (ordinary_attempt b ny nx)"
  using assms by (auto simp add: ordinary_attempt_def split: sum.splits)

lemma krige_with_gstools_ok: "\<not> isl (ordinary_attempt b ny nx) \<Longrightarrow> \<not> isl (krige_with_gstools b ny nx)"
  by (auto simp add: krige_with_gstools_def split: sum.splits)

lemma fit_variogram_None_Inl:
  "fit_variogram lib x y vals None = Inl e \<Longrightarrow> x = [] \<or> y = []"
  by (auto simp add: fit_variogram_None_eq default_model_eq split: if_splits sum.splits)

text \<open>Inversion of a successful run: the results of the four stages.\<close>

lemma main_pipeline_InrD:
  assumes "main_pipeline lines r gv gk = Inr out"
  obtains df gx gy gridx gridy model field where
    "load_csv lines = Inr df"
    "build_grid (fst (project_to_meters (map (\<lambda>s. (lon s, lat s)) df)))
       (snd (project_to_meters (map (\<lambda>s. (lon s, lat s)) df))) r = Inr (gx, gy, gridx, gridy)"
    "fit_variogram (gv (fst (project_to_meters (map (\<lambda>s. (lon s, lat s)) df)))
        (snd (project_to_meters (map (\<lambda>s. (lon s, lat s)) df))) (map rssi df))
       (fst (project_to_meters (map (\<lambda>s. (lon s, lat s)) df)))
       (snd (project_to_meters (map (\<lambda>s. (lon s, lat s)) df))) (map rssi df) None = Inr model"
    "krige_with_gstools (gk model (fst (project_to_meters (map (\<lambda>s. (lon s, lat s)) df)))
        (snd (project_to_meters (map (\<lambda>s. (lon s, lat s)) df))) (map rssi df) gx gy)
       (length gy) (length gx) = Inr field"
    "out = \<lparr>lat_center = median (map lat df), lon_center = median (map lon df),
            heat_data = heat_points (fst (to_latlon (flatten gridx) (flatten gridy)))
                                    (snd (to_latlon (flatten gridx) (flatten gridy)))
                                    (snd (snd (grid_to_heatmap_data field gridx gridy)))\<rparr>"
proof -
  obtain df where df: "load_csv lines = Inr df"
    using assms by (cases "load_csv lines") (simp_all add: main_pipeline_def)
  define x where "x = fst (project_to_meters (map (\<lambda>s. (lon s, lat s)) df))"
  define y where "y = snd (project_to_meters (map (\<lambda>s. (lon s, lat s)) df))"
  have p: "project_to_meters (map (\<lambda>s. (lon s, lat s)) df) = (x, y)" by (simp add: x_def y_def)
  note m = assms [unfolded main_pipeline_def df p sum.case prod.case Let_def]
  obtain gx gy gridx gridy where g: "build_grid x y r = Inr (gx, gy, gridx, gridy)"
  proof (cases "build_grid x y r")
    case (Inl e)
    then show thesis using m by simp
  next
    case (Inr t)
    then show thesis using that by (cases t) auto
  qed
  note m = m [unfolded g sum.case prod.case]
  obtain model where f: "fit_variogram (gv x y (map rssi df)) x y (map rssi df) None = Inr model"
    using m by (cases "fit_variogram (gv x y (map rssi df)) x y (map rssi df) None") simp_all
  note m = m [unfolded f sum.case]
  obtain field where k: "krige_with_gstools (gk model x y (map rssi df) gx gy) (length gy) (length gx) = Inr field"
    using m by (cases "krige_with_gstools (gk model x y (map rssi df) gx gy) (length gy) (length gx)") simp_all
  have "out = \<lparr>lat_center = median (map lat df), lon_center = median (map lon df),
            heat_data = heat_points (fst (to_latlon (flatten gridx) (flatten gridy)))
                                    (snd (to_latlon (flatten gridx) (flatten gridy)))
                                    (snd (snd (grid_to_heatmap_data field gridx gridy)))\<rparr>"
    using m [unfolded k sum.case] by (simp add: case_prod_beta)
  then show thesis using that df g f k unfolding x_def y_def by blast
qed

text \<open>The definitions a concrete run of \<open>main_pipeline\<close> unfolds.\<close>

lemmas main_eval_simps =
  main_pipeline_def load_csv_def read_csv_def complete_def is_txt_def to_sample_def cell_val_def
  pad_row_def project_to_meters_def merc_fwd_def deg2rad_def tan_45 build_grid_eq arange_list_def
  grid_eps_def meshgrid_def upt_rec fit_variogram_None_eq fit_attempt_def estimate_def
  default_model_eq krige_with_gstools_def srf_first_attempt_def srf_retry_def ordinary_attempt_def
  field_of_def fix_shape_def to_latlon_def grid_to_heatmap_data_def heat_points_def flatten_def

section \<open>Properties\<close>

text \<open>
  C3 [main_points]: Every point handed to the heat layer is a grid node converted back to
  degrees, with a weight in \<open>(0, 1]\<close>. When \<open>main\<close> succeeds, the loader succeeded,
  the grid is the one \<open>build_grid\<close> makes from the projected samples, and each
  rendered \<open>[lat, lon, w]\<close> is \<open>to_latlon\<close> of a node \<open>(gx[i], gy[j])\<close> of that grid.
\<close>

theorem main_pipeline_points:
  assumes "main_pipeline lines r gv gk = Inr out"
  shows "\<exists>df gx gy. load_csv lines = Inr df \<and>
           build_grid (fst (project_to_meters (map (\<lambda>s. (lon s, lat s)) df)))
                      (snd (project_to_meters (map (\<lambda>s. (lon s, lat s)) df))) r =
             Inr (gx, gy, fst (meshgrid gx gy), snd (meshgrid gx gy)) \<and>
           (\<forall>(la, lo, w) \<in> set (heat_data out). 0 < w \<and> w \<le> 1 \<and>
              (\<exists>xv \<in> set gx. \<exists>yv \<in> set gy. merc_inv xv yv = (lo, la)))"
proof -
  obtain df gx gy gridx gridy model field where
    df: "load_csv lines = Inr df" and
    g: "build_grid (fst (project_to_meters (map (\<lambda>s. (lon s, lat s)) df)))
          (snd (project_to_meters (map (\<lambda>s. (lon s, lat s)) df))) r = Inr (gx, gy, gridx, gridy)" and
    "fit_variogram (gv (fst (project_to_meters (map (\<lambda>s. (lon s, lat s)) df)))
        (snd (project_to_meters (map (\<lambda>s. (lon s, lat s)) df))) (map rssi df))
       (fst (project_to_meters (map (\<lambda>s. (lon s, lat s)) df)))
       (snd (project_to_meters (map (\<lambda>s. (lon s, lat s)) df))) (map rssi df) None = Inr model" and
    "krige_with_gstools (gk model (fst (project_to_meters (map (\<lambda>s. (lon s, lat s)) df)))
        (snd (project_to_meters (map (\<lambda>s. (lon s, lat s)) df))) (map rssi df) gx gy)
       (length gy) (length gx) = Inr field" and
    out: "out = \<lparr>lat_center = median (map lat df), lon_center = median (map lon df),
            heat_data = heat_points (fst (to_latlon (flatten gridx) (flatten gridy)))
                                    (snd (to_latlon (flatten gridx) (flatten gridy)))
                                    (snd (snd (grid_to_heatmap_data field gridx gridy)))\<rparr>"
    by (rule main_pipeline_InrD [OF assms])
  have mesh: "(gridx, gridy) = meshgrid gx gy" using build_grid_InrD [OF g] by simp
  have "0 < w \<and> w \<le> 1 \<and> (\<exists>xv \<in> set gx. \<exists>yv \<in> set gy. merc_inv xv yv = (lo, la))"
    if p: "(la, lo, w) \<in> set (heat_data out)" for la lo w
  proof -
    from heat_points_to_latlon [OF p [unfolded out, simplified]]
    obtain xv yv where "xv \<in> set (flatten gridx)" "yv \<in> set (flatten gridy)"
        "merc_inv xv yv = (lo, la)" "w \<in> set (snd (snd (grid_to_heatmap_data field gridx gridy)))"
        "0 < w" by blast
    moreover have "set (flatten gridx) \<subseteq> set gx" "set (flatten gridy) \<subseteq> set gy"
      using set_flatten_meshgrid [of gx gy] mesh by (metis fst_conv snd_conv)+
    ultimately show ?thesis using set_clip_weights by blast
  qed
  then have "\<forall>(la, lo, w) \<in> set (heat_data out). 0 < w \<and> w \<le> 1 \<and>
      (\<exists>xv \<in> set gx. \<exists>yv \<in> set gy. merc_inv xv yv = (lo, la))" by blast
  moreover have "gridx = fst (meshgrid gx gy)" "gridy = snd (meshgrid gx gy)"
    using mesh by (metis fst_conv, metis snd_conv)
  ultimately show ?thesis using df g by blast
qed

theorem main_pipeline_points_witness:
  "\<exists>out. main_pipeline [[Num (-60), Num 0, Num 0]] 30 (\<lambda>_ _ _. \<lparr>vario_estimate = \<lambda>_. Inl TypeError, vario_fit = Inl RuntimeError\<rparr>)
     (\<lambda>_ _ _ _ _ _. \<lparr>srf_init = Inl RuntimeError, srf_structured = \<lambda>_. Inl TypeError, ok_init = Inr (),
        ok_call = \<lambda>_. Inr (Single \<lparr>shape = [3, 3], data = [Fin (-75), Fin (-75), Fin (-75), Fin (-75), Fin (-75), Fin (-75), Fin (-75), Fin (-75), Fin (-75)]\<rparr>)\<rparr>) = Inr out \<and>
     length (heat_data out) = 9 \<and>
     list_all (\<lambda>(la, lo, w). 0 < w \<and> w \<le> 1 \<and>
       (\<exists>xv \<in> set [-30, 0, 30]. \<exists>yv \<in> set [-30, 0, 30]. merc_inv xv yv = (lo, la)))
       (heat_data out)"
proof -
  obtain out where o: "main_pipeline [[Num (-60), Num 0, Num 0]] 30 (\<lambda>_ _ _. \<lparr>vario_estimate = \<lambda>_. Inl TypeError, vario_fit = Inl RuntimeError\<rparr>)
     (\<lambda>_ _ _ _ _ _. \<lparr>srf_init = Inl RuntimeError, srf_structured = \<lambda>_. Inl TypeError, ok_init = Inr (),
        ok_call = \<lambda>_. Inr (Single \<lparr>shape = [3, 3], data = [Fin (-75), Fin (-75), Fin (-75), Fin (-75), Fin (-75), Fin (-75), Fin (-75), Fin (-75), Fin (-75)]\<rparr>)\<rparr>) = Inr out"
      "length (heat_data out) = 9"
    by (simp add: main_eval_simps)
  from main_pipeline_points [OF o(1)] obtain df gx gy where
    ld: "load_csv [[Num (-60), Num 0, Num 0]] = Inr df"
    and bg: "build_grid (fst (project_to_meters (map (\<lambda>s. (lon s, lat s)) df)))
       (snd (project_to_meters (map (\<lambda>s. (lon s, lat s)) df))) 30 =
       Inr (gx, gy, fst (meshgrid gx gy), snd (meshgrid gx gy))"
    and pts: "\<forall>(la, lo, w) \<in> set (heat_data out). 0 < w \<and> w \<le> 1 \<and>
       (\<exists>xv \<in> set gx. \<exists>yv \<in> set gy. merc_inv xv yv = (lo, la))"
    by blast
  from ld have "df = [\<lparr>rssi = -60, lat = 0, lon = 0, alt = None, heading = None\<rparr>]"
    by (simp add: main_eval_simps)
  with bg have "gx = [-30, 0, 30] \<and> gy = [-30, 0, 30]" by (simp add: main_eval_simps) metis
  with pts o show ?thesis by (intro exI [of _ out]) (simp only: list_all_iff)
qed





end
