(* ===== verification/FixCsv.thy ===== *)
theory FixCsv
  imports Prelude
begin

text \<open>
  The unit correction of \<^verbatim>\<open>fix-csv.py\<close>: every non-empty row of the raw capture is
  parsed field by field (lines 18-22, \<open>float(row[i])\<close> in order, so the first missing
  or unparsable field decides the exception), latitude and longitude are divided by
  \<open>10^7\<close> and altitude by \<open>10^3\<close> (lines 26-28), and the row is written with 7, 7, 3
  and 2 decimals (lines 32-38). The script writes each row as soon as it is corrected,
  so an exception leaves the rows before it in the output file: \<open>fix_csv\<close> returns the
  rows written and the exception that stopped the loop, if any.

  A csv field is \<open>Some v\<close> when \<open>float()\<close> parses it to \<open>v\<close> and \<open>None\<close> when it raises
  ValueError; the characters of the field and of the written decimal strings are not
  modelled, only the values they denote. \<open>f"{v:.nf}"\<close> rounds the value to \<open>n\<close>
  decimals, ties to even.

  The theorems show that the script is a per-row map (the output of a concatenation is
  the concatenation of the outputs, up to the first failure), that a failure leaves
  exactly the corrected rows before it, which field decides the exception, and that each
  written value is within half a unit of its last decimal of the corrected value.
\<close>

type_synonym csv_field = "real option"

section \<open>Definitions\<close>

text \<open>\<open>float(row[i])\<close>: IndexError past the end of the row, ValueError on a bad field.\<close>

definition float_at :: "csv_field list \<Rightarrow> nat \<Rightarrow> real result" where
  "float_at row i =
     (case py_index row i of
        Inl e \<Rightarrow> Inl e
      | Inr c \<Rightarrow> (case c of None \<Rightarrow> Inl ValueError | Some v \<Rightarrow> Inr v))"

text \<open>Round half to even, the rounding of Python's fixed-point formatting.\<close>

definition round_half_even :: "real \<Rightarrow> int" where
  "round_half_even x =
     (let f = \<lfloor>x\<rfloor>; d = x - of_int f in
      if d < 1 / 2 then f else if 1 / 2 < d then f + 1 else if even f then f else f + 1)"

text \<open>The value denoted by \<open>f"{v:.nf}"\<close>.\<close>

definition fmt_fixed :: "nat \<Rightarrow> real \<Rightarrow> real" where
  "fmt_fixed n v = of_int (round_half_even (v * 10 ^ n)) / 10 ^ n"

text \<open>The five values of one written row (lines 32-38).\<close>

record fixed_row =
  fx_rssi :: real
  fx_lat :: real
  fx_lon :: real
  fx_alt :: real
  fx_heading :: real

text \<open>Lines 18-38 for one non-empty row.\<close>

definition fix_row :: "csv_field list \<Rightarrow> fixed_row result" where
  "fix_row row =
     (case seq_res (map (float_at row) [0..<5]) of
        Inl e \<Rightarrow> Inl e
      | Inr vs \<Rightarrow>
          (let rssi = vs ! 0; lat_raw = vs ! 1; lon_raw = vs ! 2; alt_raw = vs ! 3;
               heading = vs ! 4;
               lat_corrected = lat_raw / 10000000; lon_corrected = lon_raw / 10000000;
               alt_corrected = alt_raw / 1000
           in Inr \<lparr>fx_rssi = rssi, fx_lat = fmt_fixed 7 lat_corrected,
                   fx_lon = fmt_fixed 7 lon_corrected, fx_alt = fmt_fixed 3 alt_corrected,
                   fx_heading = fmt_fixed 2 heading\<rparr>))"

text \<open>Lines 13-38: the loop, skipping empty rows; the rows written and the exception, if any.\<close>

fun fix_csv :: "csv_field list list \<Rightarrow> fixed_row list \<times> py_error option" where
  "fix_csv [] = ([], None)"
| "fix_csv (row # rows) =
     (if row = [] then fix_csv rows
      else case fix_row row of
             Inl e \<Rightarrow> ([], Some e)
           | Inr out \<Rightarrow> (case fix_csv rows of (written, err) \<Rightarrow> (out # written, err)))"

section \<open>Lemmas\<close>

lemma round_half_even_err: "\<bar>of_int (round_half_even x) - x\<bar> \<le> 1 / 2"
  using of_int_floor_le [of x] real_of_int_floor_add_one_gt [of x]
  by (auto simp add: round_half_even_def Let_def)

lemma round_half_even_of_int [simp]: "round_half_even (of_int k) = k"
  by (simp add: round_half_even_def)

lemma fmt_fixed_err: "\<bar>fmt_fixed n v - v\<bar> \<le> 1 / (2 * 10 ^ n)"
proof -
  have p: "(0::real) < 10 ^ n" by simp
  have "fmt_fixed n v - v = (of_int (round_half_even (v * 10 ^ n)) - v * 10 ^ n) / 10 ^ n"
    using p by (simp add: fmt_fixed_def field_simps)
  then have "\<bar>fmt_fixed n v - v\<bar> = \<bar>of_int (round_half_even (v * 10 ^ n)) - v * 10 ^ n\<bar> / 10 ^ n"
    by simp
  also have "\<dots> \<le> (1 / 2) / 10 ^ n"
    using round_half_even_err p by (intro divide_right_mono) simp_all
  finally show ?thesis by simp
qed

lemma fmt_fixed_idem: "fmt_fixed n (fmt_fixed n v) = fmt_fixed n v"
  by (simp add: fmt_fixed_def)

lemma float_at_ok: "\<not> isl (float_at row i) \<longleftrightarrow> i < length row \<and> row ! i \<noteq> None"
  by (auto simp add: float_at_def py_index_def split: option.splits)

lemma float_at_Inl:
  "float_at row i = Inl e \<longleftrightarrow>
     (length row \<le> i \<and> e = IndexError) \<or> (i < length row \<and> row ! i = None \<and> e = ValueError)"
  by (auto simp add: float_at_def py_index_def split: option.splits)

lemma float_at_Inr: "float_at row i = Inr v \<longleftrightarrow> i < length row \<and> row ! i = Some v"
  by (auto simp add: float_at_def py_index_def split: option.splits)

lemma fix_row_Inl: "fix_row row = Inl e \<longleftrightarrow> seq_res (map (float_at row) [0..<5]) = Inl e"
  by (simp add: fix_row_def Let_def split: sum.split)

lemma fix_csv_None:
  "fix_csv rows = (written, None) \<longleftrightarrow> map fix_row (filter (\<lambda>r. r \<noteq> []) rows) = map Inr written"
proof (induction rows arbitrary: written)
  case Nil
  then show ?case by auto
next
  case (Cons row rows)
  obtain w err where f: "fix_csv rows = (w, err)" by force
  show ?case
  proof (cases "row = []")
    case True
    then show ?thesis using Cons.IH by simp
  next
    case False
    then show ?thesis
      using Cons.IH [of w] f
      by (auto simp add: Cons_eq_map_conv dest: Cons.IH [THEN iffD2] split: sum.splits)
  qed
qed

section \<open>Properties\<close>

text \<open>
  The correction is a per-row map. Processing two files one after the
  other gives the concatenation of their outputs, as long as the first one has no failing
  row; otherwise processing stops inside the first one.
\<close>

theorem fix_csv_append:
  "fix_csv (xs @ ys) =
     (case fix_csv xs of
        (written, None) \<Rightarrow> (case fix_csv ys of (written', err) \<Rightarrow> (written @ written', err))
      | (written, Some e) \<Rightarrow> (written, Some e))"
  by (induction xs rule: fix_csv.induct) (auto split: sum.splits option.splits prod.splits)

text \<open>
  C21 [fix_partial]: A failing row leaves a partial output file. When the loop stops with an
  exception, the file holds exactly the corrected non-empty rows before the failing row,
  and the exception is that row's.
\<close>

theorem fix_csv_partial:
  assumes "fix_csv rows = (written, Some e)"
  shows "\<exists>pre row post. rows = pre @ row # post \<and> row \<noteq> [] \<and> fix_row row = Inl e \<and>
           map fix_row (filter (\<lambda>r. r \<noteq> []) pre) = map Inr written"
  using assms
proof (induction rows arbitrary: written rule: fix_csv.induct)
  case 1
  then show ?case by simp
next
  case (2 row rows)
  show ?case
  proof (cases "row = []")
    case True
    then obtain pre r post where "rows = pre @ r # post" "r \<noteq> []" "fix_row r = Inl e"
        "map fix_row (filter (\<lambda>r. r \<noteq> []) pre) = map Inr written"
      using 2 by auto
    then show ?thesis using True by (intro exI [of _ "row # pre"]) auto
  next
    case False
    show ?thesis
    proof (cases "fix_row row")
      case (Inl e')
      then show ?thesis using 2(3) False
        by (intro exI [of _ "[]"] exI [of _ row] exI [of _ rows]) simp
    next
      case (Inr out)
      then obtain written' where w: "written = out # written'" "fix_csv rows = (written', Some e)"
        using 2(3) False by (auto split: prod.splits)
      then obtain pre r post where "rows = pre @ r # post" "r \<noteq> []" "fix_row r = Inl e"
          "map fix_row (filter (\<lambda>r. r \<noteq> []) pre) = map Inr written'"
        using 2(2) [OF False Inr] by blast
      then show ?thesis using False Inr w by (intro exI [of _ "row # pre"]) auto
    qed
  qed
qed

theorem fix_csv_partial_witness:
  "fix_csv [[Some (-60), Some 532680000, Some (-5300000), Some 50000, Some 90], [], [Some (-61), None]] =
     ([\<lparr>fx_rssi = -60, fx_lat = 53.268, fx_lon = -0.53, fx_alt = 50, fx_heading = 90\<rparr>],
      Some ValueError) \<and>
   (\<exists>pre row post. [[Some (-60), Some 532680000, Some (-5300000), Some 50000, Some 90], [], [Some (-61), None]] = pre @ row # post \<and> row \<noteq> [] \<and>
      fix_row row = Inl ValueError \<and>
      map fix_row (filter (\<lambda>r. r \<noteq> []) pre) =
        map Inr [\<lparr>fx_rssi = -60, fx_lat = 53.268, fx_lon = -0.53, fx_alt = 50, fx_heading = 90\<rparr>])"
proof -
  have h: "fix_csv [[Some (-60), Some 532680000, Some (-5300000), Some 50000, Some 90], [], [Some (-61), None]] =
     ([\<lparr>fx_rssi = -60, fx_lat = 53.268, fx_lon = -0.53, fx_alt = 50, fx_heading = 90\<rparr>],
      Some ValueError)"
    by (simp add: fix_row_def float_at_def py_index_def fmt_fixed_def round_half_even_def upt_rec)
  show ?thesis using h fix_csv_partial [OF h] by blast
qed

text \<open>
  C22 [fix_error]: The first bad field decides the exception. \<open>fix_row\<close> raises exactly
  when, for some field \<open>i < 5\<close> with all fields before it present and parsable, the row
  ends before field \<open>i\<close> (IndexError) or field \<open>i\<close> does not parse (ValueError).
\<close>

theorem fix_row_error:
  "fix_row row = Inl e \<longleftrightarrow>
     (\<exists>i < 5. (\<forall>j < i. j < length row \<and> row ! j \<noteq> None) \<and>
        ((length row \<le> i \<and> e = IndexError) \<or> (i < length row \<and> row ! i = None \<and> e = ValueError)))"
proof -
  have "(\<forall>j < i. \<not> isl (map (float_at row) [0..<5] ! j)) \<longleftrightarrow> (\<forall>j < i. \<not> isl (float_at row j))"
    if "i < 5" for i
    using that by auto
  then show ?thesis
    unfolding fix_row_Inl seq_res_Inl float_at_ok [symmetric] float_at_Inl [symmetric] by auto
qed

theorem fix_row_error_witness:
  "fix_row [Some (-60), None] = Inl ValueError \<and> fix_row [Some (-60)] = Inl IndexError"
proof -
  have "\<exists>i < 5. (\<forall>j < i. j < length [Some (-60), None] \<and> [Some (-60), None] ! j \<noteq> None) \<and>
      ((length [Some (-60::real), None] \<le> i \<and> ValueError = IndexError) \<or>
       (i < length [Some (-60::real), None] \<and> [Some (-60::real), None] ! i = None \<and> ValueError = ValueError))"
    by (intro exI [of _ 1]) simp
  moreover have "\<exists>i < 5. (\<forall>j < i. j < length [Some (-60::real)] \<and> [Some (-60::real)] ! j \<noteq> None) \<and>
      ((length [Some (-60::real)] \<le> i \<and> IndexError = IndexError) \<or>
       (i < length [Some (-60::real)] \<and> [Some (-60::real)] ! i = None \<and> IndexError = ValueError))"
    by (intro exI [of _ 1]) simp
  ultimately show ?thesis using fix_row_error by blast
qed

text \<open>
  Each written value is the corrected value to within half a unit of its last
  decimal. When \<open>fix_row\<close> succeeds, the row has at least five fields, all parsable; the
  rssi is written unchanged, latitude and longitude are the raw values divided by
  \<open>10^7\<close> to within \<open>5e-8\<close> degrees, the altitude the raw value divided by \<open>10^3\<close> to
  within \<open>5e-4\<close> m and the heading to within \<open>5e-3\<close> degrees.
\<close>

theorem fix_row_values:
  assumes "fix_row row = Inr out"
  shows "\<exists>rs la lo al h. take 5 row = [Some rs, Some la, Some lo, Some al, Some h] \<and>
           fx_rssi out = rs \<and> \<bar>fx_lat out - la / 10 ^ 7\<bar> \<le> 1 / (2 * 10 ^ 7) \<and>
           \<bar>fx_lon out - lo / 10 ^ 7\<bar> \<le> 1 / (2 * 10 ^ 7) \<and>
           \<bar>fx_alt out - al / 10 ^ 3\<bar> \<le> 1 / (2 * 10 ^ 3) \<and> \<bar>fx_heading out - h\<bar> \<le> 1 / (2 * 10 ^ 2)"
proof -
  obtain vs where vs: "seq_res (map (float_at row) [0..<5]) = Inr vs"
    using assms by (auto simp add: fix_row_def split: sum.splits)
  then have out: "out = \<lparr>fx_rssi = vs ! 0, fx_lat = fmt_fixed 7 (vs ! 1 / 10000000),
      fx_lon = fmt_fixed 7 (vs ! 2 / 10000000), fx_alt = fmt_fixed 3 (vs ! 3 / 1000),
      fx_heading = fmt_fixed 2 (vs ! 4)\<rparr>"
    using assms by (simp add: fix_row_def Let_def)
  have s: "i < length row \<and> row ! i = Some (vs ! i)" if "i < 5" for i
    using seq_res_Inr [OF vs] that by (simp add: float_at_Inr)
  from s [of 4] have "Suc 4 \<le> length row" by simp
  then obtain a b c d f rest where r: "row = a # b # c # d # f # rest"
    by (auto simp add: Suc_le_length_iff numeral_eq_Suc)
  have "take 5 row = [Some (vs ! 0), Some (vs ! 1), Some (vs ! 2), Some (vs ! 3), Some (vs ! 4)]"
    using s [of 0] s [of 1] s [of 2] s [of 3] s [of 4] unfolding r by (simp add: numeral_eq_Suc)
  then show ?thesis
    using fmt_fixed_err [of 7] fmt_fixed_err [of 3] fmt_fixed_err [of 2] unfolding out by simp
qed

theorem fix_row_values_witness:
  "\<exists>out. fix_row [Some (-60), Some 532680000, Some (-5300000), Some 50000, Some 90] = Inr out \<and> fx_rssi out = -60 \<and> \<bar>fx_lat out - 53.268\<bar> \<le> 1 / (2 * 10 ^ 7) \<and>
     \<bar>fx_alt out - 50\<bar> \<le> 1 / (2 * 10 ^ 3)"
proof -
  obtain out where o: "fix_row [Some (-60), Some 532680000, Some (-5300000), Some 50000, Some 90] = Inr out"
    by (simp add: fix_row_def float_at_def py_index_def upt_rec)
  from fix_row_values [OF o] show ?thesis using o by auto
qed

end
