(* ===== verification/PointMap.thy ===== *)
theory PointMap
  imports Prelude "HOL-Library.While_Combinator"
begin

text \<open>
  The point maps of \<^verbatim>\<open>map_generator.py\<close> (lines 42-59) and
  \<^verbatim>\<open>map_generator-2.py\<close> (lines 15-32), which draw one circle marker per sample,
  coloured on a red-to-green gradient: the RSSI is normalised against the column's minimum
  and maximum, \<open>r = int(255 * (1 - norm))\<close>, \<open>g = int(255 * norm)\<close>, and the colour is
  \<open>f"#{r:02x}{g:02x}00"\<close>. The normalisation divides numpy float64 scalars, so
  \<open>0 / 0\<close> is NaN, and \<open>int(NaN)\<close> raises ValueError. The ECEF conversion of
  \<^verbatim>\<open>map_generator.py\<close> is modelled in \<open>Ecef\<close>; the folium calls are not modelled.

  \<open>decode_color\<close> is how a browser reads a \<open>#rrggbb\<close> colour. The theorems show that the
  scripts crash exactly when every sample has the same RSSI (a single sample included),
  and that otherwise every colour is a well-formed \<open>#rrgg00\<close> whose red and green
  components decode to the truncated gradient values, adding up to 254 or 255.
\<close>

section \<open>Definitions\<close>

text \<open>numpy float64 division \<open>a / b\<close>: a zero divisor gives NaN or an infinity.\<close>

definition np_fdiv :: "real \<Rightarrow> real \<Rightarrow> flt" where
  "np_fdiv a b =
     (if b = 0 then (if a = 0 then NaN else if 0 < a then PInf else NInf) else Fin (a / b))"

text \<open>Multiplication of a float by a positive constant.\<close>

fun flt_scale :: "real \<Rightarrow> flt \<Rightarrow> flt" where
  "flt_scale c (Fin a) = Fin (c * a)"
| "flt_scale c v = v"

text \<open>Python's \<open>int(x)\<close> of a float: truncation towards zero.\<close>

fun py_int :: "flt \<Rightarrow> int result" where
  "py_int (Fin x) = Inr (if 0 \<le> x then \<lfloor>x\<rfloor> else \<lceil>x\<rceil>)"
| "py_int NaN = Inl ValueError"
| "py_int _ = Inl OverflowError"

definition hex_alphabet :: string where
  "hex_alphabet = ''0123456789abcdef''"

definition hex_char :: "nat \<Rightarrow> char" where
  "hex_char d = hex_alphabet ! d"

text \<open>The lower-case hexadecimal digits of a natural number, without leading zeros.\<close>

fun hex_digits :: "nat \<Rightarrow> string" where
  "hex_digits n = (if n < 16 then [hex_char n] else hex_digits (n div 16) @ [hex_char (n mod 16)])"

text \<open>
  The digit loop by which integer formatting produces those digits, least significant
  first (\<open>while k: ds.insert(0, digit(k % 16)); k //= 16\<close>), as a reference iteration
  with the library's \<open>while_option\<close>, whose result is None when the loop does not stop.
\<close>

definition hex_loop :: "nat \<Rightarrow> (nat \<times> string) option" where
  "hex_loop n = while_option (\<lambda>(k, ds). k \<noteq> 0) (\<lambda>(k, ds). (k div 16, hex_char (k mod 16) # ds)) (n, [])"

text \<open>\<open>format(k, "02x")\<close>: sign, then zero padding to a total width of two.\<close>

definition fmt_02x :: "int \<Rightarrow> string" where
  "fmt_02x k =
     (let s = hex_digits (nat \<bar>k\<bar>); sg = (if k < 0 then ''-'' else '''') in
      sg @ replicate (2 - length sg - length s) (CHR ''0'') @ s)"

text \<open>Lines 46-50 of \<^verbatim>\<open>map_generator.py\<close> for one row.\<close>

definition marker_color :: "real \<Rightarrow> real \<Rightarrow> real \<Rightarrow> string result" where
  "marker_color rssi_min rssi_max v =
     (let norm_rssi = np_fdiv (v - rssi_min) (rssi_max - rssi_min) in
      case py_int (flt_scale 255 (flt_sub (Fin 1) norm_rssi)) of
        Inl e \<Rightarrow> Inl e
      | Inr r \<Rightarrow>
          (case py_int (flt_scale 255 norm_rssi) of
             Inl e \<Rightarrow> Inl e
           | Inr g \<Rightarrow> Inr (''#'' @ fmt_02x r @ fmt_02x g @ ''00'')))"

text \<open>Lines 43-59: the column's extremes, then the loop; the first exception ends the script.\<close>

definition point_colors :: "real list \<Rightarrow> string list result" where
  "point_colors rssis =
     (if rssis = [] then Inr []
      else let rssi_min = Min (set rssis); rssi_max = Max (set rssis)
           in seq_res (map (marker_color rssi_min rssi_max) rssis))"

text \<open>How a renderer reads the red and green components of \<open>#rrggbb\<close>.\<close>

definition hex_val_char :: "char \<Rightarrow> nat" where
  "hex_val_char c = length (takeWhile (\<lambda>d. d \<noteq> c) hex_alphabet)"

definition hex_val :: "string \<Rightarrow> nat" where
  "hex_val s = foldl (\<lambda>acc c. 16 * acc + hex_val_char c) 0 s"

definition decode_color :: "string \<Rightarrow> nat \<times> nat" where
  "decode_color c = (hex_val (take 2 (drop 1 c)), hex_val (take 2 (drop 3 c)))"

text \<open>The colour of a reading on the gradient, with exact real arithmetic.\<close>

definition gradient_color :: "real \<Rightarrow> real \<Rightarrow> real \<Rightarrow> string" where
  "gradient_color rssi_min rssi_max v =
     (let x = (v - rssi_min) / (rssi_max - rssi_min)
      in ''#'' @ fmt_02x \<lfloor>255 * (1 - x)\<rfloor> @ fmt_02x \<lfloor>255 * x\<rfloor> @ ''00'')"

declare hex_digits.simps [simp del]

section \<open>Lemmas\<close>

lemma hex_val_char_hex_char: "d < 16 \<Longrightarrow> hex_val_char (hex_char d) = d"
  by (auto simp add: hex_val_char_def hex_char_def hex_alphabet_def less_Suc_eq numeral_eq_Suc)

lemma hex_val_char_zero [simp]: "hex_val_char (CHR ''0'') = 0"
  by (simp add: hex_val_char_def hex_alphabet_def)

lemma fmt_02x_byte:
  assumes "0 \<le> k" "k < 256"
  shows "length (fmt_02x k) = 2 \<and> hex_val (fmt_02x k) = nat k"
proof (cases "k < 16")
  case True
  then have "hex_digits (nat k) = [hex_char (nat k)]" by (simp add: hex_digits.simps)
  then show ?thesis
    using True assms by (simp add: fmt_02x_def hex_val_def hex_val_char_hex_char numeral_eq_Suc)
next
  case False
  have "nat k div 16 < 16" using assms by simp
  then have "hex_digits (nat k) = [hex_char (nat k div 16), hex_char (nat k mod 16)]"
    using False by (simp add: hex_digits.simps [of "nat k"] hex_digits.simps [of "nat k div 16"])
  moreover have "16 * (nat k div 16) + nat k mod 16 = nat k" by simp
  ultimately show ?thesis
    using False assms by (simp add: fmt_02x_def hex_val_def hex_val_char_hex_char)
qed

lemma norm_unit:
  fixes mn v mx :: real
  assumes "mn \<le> v" "v \<le> mx" "mn < mx"
  shows "0 \<le> (v - mn) / (mx - mn) \<and> (v - mn) / (mx - mn) \<le> 1"
  using assms by (simp add: field_simps)

lemma marker_color_ok:
  assumes "mn \<le> v" "v \<le> mx" "mn < mx"
  shows "marker_color mn mx v = Inr (gradient_color mn mx v)"
proof -
  define x where "x = (v - mn) / (mx - mn)"
  have "0 \<le> x" "x \<le> 1" using norm_unit [OF assms] by (simp_all add: x_def)
  then have "0 \<le> 255 * (1 - x)" "0 \<le> 255 * x" by simp_all
  then show ?thesis using assms
    by (simp add: marker_color_def gradient_color_def np_fdiv_def x_def [symmetric] Let_def)
qed

lemma marker_color_const: "marker_color v v v = Inl ValueError"
  by (simp add: marker_color_def np_fdiv_def)

lemma floor_gradient:
  fixes x :: real
  assumes "0 \<le> x" "x \<le> 1"
  shows "0 \<le> \<lfloor>255 * (1 - x)\<rfloor> \<and> \<lfloor>255 * (1 - x)\<rfloor> < 256 \<and> 0 \<le> \<lfloor>255 * x\<rfloor> \<and> \<lfloor>255 * x\<rfloor> < 256 \<and>
         254 \<le> \<lfloor>255 * (1 - x)\<rfloor> + \<lfloor>255 * x\<rfloor> \<and> \<lfloor>255 * (1 - x)\<rfloor> + \<lfloor>255 * x\<rfloor> \<le> 255"
proof -
  have "\<lfloor>255 * (1 - x)\<rfloor> = \<lfloor>- (255 * x) + of_int 255\<rfloor>" by (simp add: algebra_simps)
  also have "\<dots> = \<lfloor>- (255 * x)\<rfloor> + 255" by (rule floor_add_int [symmetric])
  also have "\<dots> = 255 - \<lceil>255 * x\<rceil>" by (simp add: ceiling_def)
  finally have e: "\<lfloor>255 * (1 - x)\<rfloor> = 255 - \<lceil>255 * x\<rceil>" .
  have d: "\<lceil>255 * x\<rceil> = \<lfloor>255 * x\<rfloor> \<or> \<lceil>255 * x\<rceil> = \<lfloor>255 * x\<rfloor> + 1"
    by (simp add: ceiling_altdef)
  have z: "0 \<le> \<lfloor>255 * x\<rfloor>" and m: "\<lceil>255 * x\<rceil> \<le> 255" using assms by simp_all
  from d show ?thesis unfolding e
    by (elim disjE) (use z m in \<open>(intro conjI; linarith)\<close>)+
qed

lemma gradient_color_decode:
  assumes "mn \<le> v" "v \<le> mx" "mn < mx"
  defines "x \<equiv> (v - mn) / (mx - mn)"
  shows "length (gradient_color mn mx v) = 7 \<and> take 1 (gradient_color mn mx v) = ''#'' \<and>
         drop 5 (gradient_color mn mx v) = ''00'' \<and>
         decode_color (gradient_color mn mx v) = (nat \<lfloor>255 * (1 - x)\<rfloor>, nat \<lfloor>255 * x\<rfloor>)"
proof -
  have b: "0 \<le> x" "x \<le> 1" using norm_unit [OF assms(1-3)] by (simp_all add: x_def)
  note f = floor_gradient [OF b]
  have r: "length (fmt_02x \<lfloor>255 * (1 - x)\<rfloor>) = 2" "hex_val (fmt_02x \<lfloor>255 * (1 - x)\<rfloor>) = nat \<lfloor>255 * (1 - x)\<rfloor>"
    using fmt_02x_byte f by blast+
  have g: "length (fmt_02x \<lfloor>255 * x\<rfloor>) = 2" "hex_val (fmt_02x \<lfloor>255 * x\<rfloor>) = nat \<lfloor>255 * x\<rfloor>"
    using fmt_02x_byte f by blast+
  show ?thesis
    using r g by (simp add: gradient_color_def decode_color_def x_def [symmetric] Let_def)
qed

lemma point_colors_const:
  assumes "rssis \<noteq> []" "Min (set rssis) = Max (set rssis)"
  shows "point_colors rssis = Inl ValueError"
proof -
  obtain r rs where rr: "rssis = r # rs" using assms(1) by (cases rssis) auto
  have "Min (set rssis) \<le> r" "r \<le> Max (set rssis)" using rr by simp_all
  then have "r = Min (set rssis)" using assms(2) by simp
  then show ?thesis
    using assms marker_color_const [of r] by (simp add: point_colors_def rr)
qed

lemma point_colors_nonconst:
  assumes "rssis \<noteq> []" "Min (set rssis) < Max (set rssis)"
  shows "point_colors rssis = Inr (map (gradient_color (Min (set rssis)) (Max (set rssis))) rssis)"
proof -
  have "map (marker_color (Min (set rssis)) (Max (set rssis))) rssis =
        map (\<lambda>v. Inr (gradient_color (Min (set rssis)) (Max (set rssis)) v)) rssis"
    using assms by (intro map_cong) (simp_all add: marker_color_ok)
  then have "seq_res (map (marker_color (Min (set rssis)) (Max (set rssis))) rssis) =
      Inr (map (gradient_color (Min (set rssis)) (Max (set rssis))) rssis)"
    by (simp only: seq_res_map_Inr)
  then show ?thesis using assms by (simp add: point_colors_def)
qed

lemma hex_loop_from:
  "while_option (\<lambda>(k, ds). k \<noteq> 0) (\<lambda>(k, ds). (k div 16, hex_char (k mod 16) # ds)) (k, ds) =
     Some (0, if k = 0 then ds else hex_digits k @ ds)"
proof (induction k arbitrary: ds rule: less_induct)
  case (less k)
  show ?case
  proof (cases "k = 0")
    case True
    then show ?thesis by (subst while_option_unfold) simp
  next
    case False
    then have "k div 16 < k" by simp
    then show ?thesis
      using False less [of "k div 16" "hex_char (k mod 16) # ds"]
      by (subst while_option_unfold) (simp add: hex_digits.simps [of k] div_eq_0_iff)
  qed
qed

section \<open>Properties\<close>


text \<open>
  C23 [color_crash]: The point maps crash exactly on constant RSSI. The colour loop raises
  (ValueError from \<open>int(NaN)\<close>) exactly when the RSSI column is non-empty and all its
  values are equal, a single sample included; the map is then never saved.
\<close>

theorem point_colors_error:
  "point_colors rssis = Inl e \<longleftrightarrow>
     rssis \<noteq> [] \<and> Min (set rssis) = Max (set rssis) \<and> e = ValueError"
proof (cases "rssis = []")
  case True
  then show ?thesis by (simp add: point_colors_def)
next
  case False
  have "Min (set rssis) \<le> Max (set rssis)" using False by simp
  then consider "Min (set rssis) = Max (set rssis)" | "Min (set rssis) < Max (set rssis)"
    by fastforce
  then show ?thesis
  proof cases
    case 1
    then show ?thesis using False point_colors_const by auto
  next
    case 2
    then show ?thesis using False point_colors_nonconst by simp
  qed
qed

theorem point_colors_error_witness:
  "point_colors [-72] = Inl ValueError \<and> point_colors [-72, -72] = Inl ValueError"
  using point_colors_error [of "[-72]"] point_colors_error [of "[-72, -72]"] by simp

text \<open>
  C24 [color_decode]: Every marker colour is a well-formed \<open>#rrgg00\<close> on the gradient. When
  the loop succeeds there is one colour per sample; each has seven characters, starts
  with \<open>#\<close>, ends with \<open>00\<close>, and its red and green components decode to
  \<open>floor(255 (1 - n))\<close> and \<open>floor(255 n)\<close> for the normalised reading \<open>n\<close>, so
  that they add up to 254 or 255.
\<close>

theorem point_colors_decode:
  assumes "point_colors rssis = Inr cs"
  shows "length cs = length rssis \<and>
    (\<forall>(v, c) \<in> set (zip rssis cs). length c = 7 \<and> take 1 c = ''#'' \<and> drop 5 c = ''00'' \<and>
       decode_color c =
         (nat \<lfloor>255 * (1 - (v - Min (set rssis)) / (Max (set rssis) - Min (set rssis)))\<rfloor>,
          nat \<lfloor>255 * ((v - Min (set rssis)) / (Max (set rssis) - Min (set rssis)))\<rfloor>) \<and>
       254 \<le> fst (decode_color c) + snd (decode_color c) \<and>
       fst (decode_color c) + snd (decode_color c) \<le> 255)"
proof (cases "rssis = []")
  case True
  then show ?thesis using assms by (simp add: point_colors_def)
next
  case False
  define mn where "mn = Min (set rssis)"
  define mx where "mx = Max (set rssis)"
  have "mn \<le> mx" using False by (simp add: mn_def mx_def)
  moreover have "mn \<noteq> mx" using assms False point_colors_const by (auto simp add: mn_def mx_def)
  ultimately have lt: "mn < mx" by simp
  then have cs: "cs = map (gradient_color mn mx) rssis"
    using assms False point_colors_nonconst by (simp add: mn_def mx_def)
  have "length c = 7 \<and> take 1 c = ''#'' \<and> drop 5 c = ''00'' \<and>
       decode_color c = (nat \<lfloor>255 * (1 - (v - mn) / (mx - mn))\<rfloor>, nat \<lfloor>255 * ((v - mn) / (mx - mn))\<rfloor>) \<and>
       254 \<le> fst (decode_color c) + snd (decode_color c) \<and>
       fst (decode_color c) + snd (decode_color c) \<le> 255"
    if vc: "(v, c) \<in> set (zip rssis cs)" for v c
  proof -
    have v: "v \<in> set rssis" and c: "c = gradient_color mn mx v"
      using vc unfolding cs by (auto simp add: zip_map2 zip_same)
    have b: "mn \<le> v" "v \<le> mx" using v by (simp_all add: mn_def mx_def)
    have u: "0 \<le> (v - mn) / (mx - mn)" "(v - mn) / (mx - mn) \<le> 1"
      using norm_unit [OF b lt] by simp_all
    show ?thesis
      using gradient_color_decode [OF b lt] floor_gradient [OF u] unfolding c
      by (simp add: nat_add_distrib [symmetric] le_nat_iff nat_le_iff)
  qed
  then show ?thesis using cs by (auto simp add: mn_def mx_def)
qed

theorem point_colors_decode_witness:
  "point_colors [-60, -80] = Inr [''#00ff00'', ''#ff0000''] \<and>
   decode_color ''#00ff00'' = (0, 255) \<and> decode_color ''#ff0000'' = (255, 0)"
proof -
  have h: "point_colors [-60, -80] = Inr [''#00ff00'', ''#ff0000'']"
    by (simp add: point_colors_def marker_color_def np_fdiv_def fmt_02x_def hex_digits.simps
        hex_char_def hex_alphabet_def)
  from point_colors_decode [OF h] h show ?thesis by simp
qed

end
