(* ===== verification/Gen3.thy ===== *)
theory Gen3
  imports Grid Projection
begin

text \<open>
  The PyKrige heatmap script \<^verbatim>\<open>heatmap-generator-3.py\<close> (lines 24-80), the earlier
  variant of the kriging pipeline: it projects the samples, builds an
  \<open>OrdinaryKriging\<close> model, evaluates it on the grid
  \<open>arange(min, max, 30)\<close> of each axis, converts the nodes back and weights every
  prediction with \<open>sig + 100\<close>, without filtering. PyKrige is an interface record
  (\<open>pykrige\<close>): the constructor may raise, \<open>execute("grid", gx, gy)\<close> returns the
  predicted field or raises. The CSV loading of lines 14-19 is the same pandas call as
  the other scripts; the model starts from the numeric samples.

  The theorems show that this grid is not the padded grid of \<^verbatim>\<open>heatmap_gstools.py\<close>:
  every node lies in \<open>[min, max)\<close> of its axis, so no node reaches the largest
  coordinate, and an axis along which all samples agree (a single sample in particular)
  has no node at all.
\<close>

record pykrige =
  pk_init :: "unit result"
  pk_execute :: "real list \<Rightarrow> real list \<Rightarrow> flt ndarray result"

record gen3_sample =
  g_rssi :: real
  g_lat :: real
  g_lon :: real

text \<open>Line 48.\<close>

definition gen3_grid_res :: real where
  "gen3_grid_res = 30"

text \<open>Lines 50-53: unpadded axes, upper bound excluded.\<close>

definition gen3_grid :: "real list \<Rightarrow> real list \<Rightarrow> grid result" where
  "gen3_grid x y =
     (case np_min x of Inl e \<Rightarrow> Inl e | Inr minx \<Rightarrow>
      (case np_max x of Inl e \<Rightarrow> Inl e | Inr maxx \<Rightarrow>
       (case np_min y of Inl e \<Rightarrow> Inl e | Inr miny \<Rightarrow>
        (case np_max y of Inl e \<Rightarrow> Inl e | Inr maxy \<Rightarrow>
          (case arange minx maxx gen3_grid_res of
             Inl e \<Rightarrow> Inl e
           | Inr grid_x \<Rightarrow>
               (case arange miny maxy gen3_grid_res of
                  Inl e \<Rightarrow> Inl e
                | Inr grid_y \<Rightarrow>
                    (case meshgrid grid_x grid_y of
                       (gridx, gridy) \<Rightarrow> Inr (grid_x, grid_y, gridx, gridy))))))))"

text \<open>Line 79: the weight of one prediction; NaN and infinities stay as they are.\<close>

fun flt_plus :: "flt \<Rightarrow> real \<Rightarrow> flt" where
  "flt_plus (Fin a) c = Fin (a + c)"
| "flt_plus v c = v"

text \<open>Lines 24-80: the heat-map points \<open>[la, lo, sig + 100]\<close> of the script.\<close>

definition gen3_heatmap :: "pykrige \<Rightarrow> gen3_sample list \<Rightarrow> (real \<times> real \<times> flt) list result" where
  "gen3_heatmap pk df =
     (case project_to_meters (map (\<lambda>s. (g_lon s, g_lat s)) df) of
        (x, y) \<Rightarrow>
          (case pk_init pk of
             Inl e \<Rightarrow> Inl e
           | Inr _ \<Rightarrow>
               (case gen3_grid x y of
                  Inl e \<Rightarrow> Inl e
                | Inr (grid_x, grid_y, gridx, gridy) \<Rightarrow>
                    (case pk_execute pk grid_x grid_y of
                       Inl e \<Rightarrow> Inl e
                     | Inr z_pred \<Rightarrow>
                         (case to_latlon (flatten gridx) (flatten gridy) of
                            (flat_lat, flat_lon) \<Rightarrow>
                              Inr (map (\<lambda>(la, lo, sig). (la, lo, flt_plus sig 100))
                                     (zip flat_lat (zip flat_lon (data z_pred)))))))))"

section \<open>Lemmas\<close>

lemma arange_list_elem_bounds:
  assumes "0 < s" "g \<in> set (arange_list a b s)"
  shows "a \<le> g \<and> g < b"
proof -
  obtain i where i: "i < nat \<lceil>(b - a) / s\<rceil>" "g = a + real i * s"
    using assms(2) by (auto simp add: arange_list_def)
  then have "int i < \<lceil>(b - a) / s\<rceil>" by (simp add: zless_nat_eq_int_zless)
  then have "of_int (int i) < (b - a) / s" by (simp only: less_ceiling_iff)
  then have "real i * s < b - a" using assms(1) by (simp add: field_simps)
  then show ?thesis using i assms(1) by simp
qed

lemma arange_list_Nil_iff:
  assumes "0 < s" shows "arange_list a b s = [] \<longleftrightarrow> b \<le> a"
  using assms by (simp add: arange_list_def divide_le_0_iff)

lemma gen3_grid_eq:
  "gen3_grid x y =
     (if x = [] \<or> y = [] then Inl ValueError
      else Inr (arange_list (Min (set x)) (Max (set x)) 30, arange_list (Min (set y)) (Max (set y)) 30,
                fst (meshgrid (arange_list (Min (set x)) (Max (set x)) 30)
                              (arange_list (Min (set y)) (Max (set y)) 30)),
                snd (meshgrid (arange_list (Min (set x)) (Max (set x)) 30)
                              (arange_list (Min (set y)) (Max (set y)) 30))))"
  by (simp add: gen3_grid_def np_min_def np_max_def arange_def gen3_grid_res_def meshgrid_def)

section \<open>Properties\<close>

text \<open>
  C20 [gen3_grid]: The PyKrige script's grid stays inside the data's bounding box and is
  empty along a degenerate axis. Every node of \<open>arange(min, max, 30)\<close> lies in
  \<open>[min, max)\<close> of its axis, so no node reaches the largest coordinate (no padding),
  and an axis is empty exactly when all samples share that coordinate.
\<close>

theorem gen3_grid_inside:
  assumes "gen3_grid x y = Inr (gx, gy, gridx, gridy)"
  shows "(\<forall>g \<in> set gx. Min (set x) \<le> g \<and> g < Max (set x)) \<and>
         (\<forall>g \<in> set gy. Min (set y) \<le> g \<and> g < Max (set y)) \<and>
         (gx = [] \<longleftrightarrow> Min (set x) = Max (set x)) \<and> (gy = [] \<longleftrightarrow> Min (set y) = Max (set y))"
proof -
  have ne: "x \<noteq> []" "y \<noteq> []" and
    g: "gx = arange_list (Min (set x)) (Max (set x)) 30" "gy = arange_list (Min (set y)) (Max (set y)) 30"
    using assms by (auto simp add: gen3_grid_eq split: if_splits)
  have "Min (set x) \<le> Max (set x)" "Min (set y) \<le> Max (set y)" using ne by simp_all
  then show ?thesis
    unfolding g using arange_list_elem_bounds [of 30] arange_list_Nil_iff [of 30] by auto
qed

theorem gen3_grid_inside_witness:
  "gen3_grid [0, 70] [5, 5] = Inr ([0, 30, 60], [], [], []) \<and>
   list_all (\<lambda>g. 0 \<le> g \<and> g < 70) [0, 30, (60::real)]"
proof -
  have h: "gen3_grid [0, 70] [5, 5] = Inr ([0, 30, 60], [], [], [])"
    by (simp add: gen3_grid_eq arange_list_def meshgrid_def upt_rec)
  from gen3_grid_inside [OF h] h show ?thesis by simp
qed

end
