(* ===== verification/Geodesy.thy ===== *)
theory Geodesy
  imports Radial Projection
begin

text \<open>
  The great-circle helpers of the radial scripts: \<^verbatim>\<open>haversine\<close> and
  \<^verbatim>\<open>bearing\<close> (\<^verbatim>\<open>signal-over-compass.py\<close> lines 33-46; the same code is in
  \<^verbatim>\<open>signal-over-line.py\<close> lines 25-44 and, for \<^verbatim>\<open>haversine\<close>,
  \<^verbatim>\<open>signal-over-distance.py\<close> lines 20-27), the per-row distance and bearing
  columns built with \<open>df.apply\<close>, and the radial slice of \<^verbatim>\<open>signal-over-line.py\<close>
  (lines 66-72). \<open>math.sqrt\<close> raises ValueError on a negative argument and
  \<open>math.atan2\<close> is defined by quadrant; both are written out. Reals are exact, so the
  rounding that can push the haversine term just above 1 for antipodal points is not
  modelled.

  The theorems show that the haversine term always lies in \<open>[0, 1]\<close>, so
  \<^verbatim>\<open>haversine\<close> never raises and returns a distance between 0 and half the
  circumference; that it is symmetric and zero at a point itself; and that the slice of
  \<^verbatim>\<open>signal-over-line.py\<close> keeps exactly the samples whose bearing from the base
  lies in \<open>[178, 182]\<close> degrees, each with its distance.
\<close>

section \<open>Definitions\<close>

text \<open>\<open>math.sqrt\<close>.\<close>

definition py_sqrt :: "real \<Rightarrow> real result" where
  "py_sqrt x = (if x < 0 then Inl ValueError else Inr (sqrt x))"

text \<open>\<open>math.atan2(y, x)\<close> by quadrant (zeros taken as \<open>+0.0\<close>).\<close>

definition py_atan2 :: "real \<Rightarrow> real \<Rightarrow> real" where
  "py_atan2 y x =
     (if 0 < x then arctan (y / x)
      else if x < 0 then (if 0 \<le> y then arctan (y / x) + pi else arctan (y / x) - pi)
      else if 0 < y then pi / 2 else if y < 0 then - (pi / 2) else 0)"

text \<open>\<open>R = 6371000\<close>, the mean Earth radius of the scripts.\<close>

definition earth_r :: real where
  "earth_r = 6371000"

text \<open>The haversine term \<open>a\<close> of line 38.\<close>

definition hav_term :: "real \<Rightarrow> real \<Rightarrow> real \<Rightarrow> real \<Rightarrow> real" where
  "hav_term lat1 lon1 lat2 lon2 =
     (let phi1 = deg2rad lat1; phi2 = deg2rad lat2; dphi = deg2rad (lat2 - lat1);
          dlambda = deg2rad (lon2 - lon1)
      in sin (dphi / 2) ^ 2 + cos phi1 * cos phi2 * sin (dlambda / 2) ^ 2)"

text \<open>Compass script lines 33-39; the distance script has the same code at lines 20-27.\<close>

definition haversine :: "real \<Rightarrow> real \<Rightarrow> real \<Rightarrow> real \<Rightarrow> real result" where
  "haversine lat1 lon1 lat2 lon2 =
     (let a = hav_term lat1 lon1 lat2 lon2 in
      case py_sqrt a of
        Inl e \<Rightarrow> Inl e
      | Inr sa \<Rightarrow>
          (case py_sqrt (1 - a) of
             Inl e \<Rightarrow> Inl e
           | Inr sb \<Rightarrow> Inr (2 * earth_r * py_atan2 sa sb)))"

text \<open>Compass script lines 41-46; the line script has the same code at lines 35-44.\<close>

definition bearing :: "real \<Rightarrow> real \<Rightarrow> real \<Rightarrow> real \<Rightarrow> real" where
  "bearing lat1 lon1 lat2 lon2 =
     (let phi1 = deg2rad lat1; phi2 = deg2rad lat2; dlon = deg2rad (lon2 - lon1);
          x = sin dlon * cos phi2;
          y = cos phi1 * sin phi2 - sin phi1 * cos phi2 * cos dlon
      in normalize_bearing (rad2deg (py_atan2 x y)))"

text \<open>The base station of lines 15-16.\<close>

definition base_lat :: real where
  "base_lat = 53.268339893585555"

definition base_lon :: real where
  "base_lon = -0.5298533178776605"

text \<open>A loaded row: \<open>rssi, lat, lon\<close>.\<close>

type_synonym geo_row = "real \<times> real \<times> real"

text \<open>
  \<^verbatim>\<open>signal-over-distance.py\<close> lines 38-39 (and line 55 of the line script, line 66 of
  the compass script): the \<open>distance_m\<close> column; the first exception of \<open>df.apply\<close>
  ends the script.
\<close>

definition distance_column :: "geo_row list \<Rightarrow> real list result" where
  "distance_column rows = seq_res (map (\<lambda>(r, la, lo). haversine base_lat base_lon la lo) rows)"

text \<open>Compass script lines 66-70: the distance column, then the bearing column.\<close>

definition radial_points :: "geo_row list \<Rightarrow> point list result" where
  "radial_points rows =
     (case distance_column rows of
        Inl e \<Rightarrow> Inl e
      | Inr ds \<Rightarrow>
          Inr (map (\<lambda>((r, la, lo), d). \<lparr>bearing_deg = bearing base_lat base_lon la lo,
                                       distance_m = d, p_rssi = r\<rparr>) (zip rows ds)))"

text \<open>\<^verbatim>\<open>signal-over-line.py\<close> lines 17-18 and 70-71: heading 180, tolerance 2.\<close>

definition line_slice :: "geo_row list \<Rightarrow> point list result" where
  "line_slice rows =
     (case radial_points rows of Inl e \<Rightarrow> Inl e | Inr pts \<Rightarrow> Inr (slice 180 2 pts))"

text \<open>The distance \<^verbatim>\<open>haversine\<close> returns, with the square roots taken.\<close>

definition hav_dist :: "real \<Rightarrow> real \<Rightarrow> real \<Rightarrow> real \<Rightarrow> real" where
  "hav_dist lat1 lon1 lat2 lon2 =
     2 * earth_r * py_atan2 (sqrt (hav_term lat1 lon1 lat2 lon2)) (sqrt (1 - hav_term lat1 lon1 lat2 lon2))"

section \<open>Lemmas\<close>

lemma py_atan2_quadrant1:
  assumes "0 \<le> y" "0 \<le> x"
  shows "0 \<le> py_atan2 y x \<and> py_atan2 y x \<le> pi / 2"
  using assms arctan_ubound [of "y / x"] by (auto simp add: py_atan2_def less_imp_le)

lemma py_atan2_zero [simp]: "py_atan2 0 x = (if x < 0 then pi else 0)"
  by (simp add: py_atan2_def)

lemma cos_mult_cos: "cos (x::real) * cos y = (cos (x - y) + cos (x + y)) / 2"
  by (simp add: cos_add cos_diff)

lemma sin_sq_unit: "0 \<le> sin (x::real) ^ 2 \<and> sin x ^ 2 \<le> 1"
proof -
  have "sin x ^ 2 + cos x ^ 2 = 1" "0 \<le> cos x ^ 2" "0 \<le> sin x ^ 2" by simp_all
  then show ?thesis by linarith
qed

text \<open>The haversine term is a convex combination of two values in \<open>[0, 1]\<close>.\<close>

lemma hav_term_unit: "0 \<le> hav_term lat1 lon1 lat2 lon2 \<and> hav_term lat1 lon1 lat2 lon2 \<le> 1"
proof -
  define p1 where "p1 = deg2rad lat1"
  define p2 where "p2 = deg2rad lat2"
  define s where "s = sin ((p2 - p1) / 2) ^ 2"
  define t where "t = sin (deg2rad (lon2 - lon1) / 2) ^ 2"
  define u where "u = (1 + cos (p1 + p2)) / 2"
  have dphi: "deg2rad (lat2 - lat1) = p2 - p1" by (simp add: p1_def p2_def deg2rad_def field_simps)
  have "p1 - p2 = - (2 * ((p2 - p1) / 2))" by (simp add: field_simps)
  then have "cos (p1 - p2) = cos (2 * ((p2 - p1) / 2))" by (simp only: cos_minus)
  then have "cos (p1 - p2) = 1 - 2 * s" by (simp only: cos_double_sin s_def)
  then have c: "cos p1 * cos p2 = u - s" by (simp add: cos_mult_cos u_def)
  have a: "hav_term lat1 lon1 lat2 lon2 = (1 - t) * s + t * u"
    unfolding hav_term_def Let_def dphi by (simp add: p1_def [symmetric] p2_def [symmetric]
      s_def [symmetric] t_def [symmetric] c algebra_simps)
  have s01: "0 \<le> s" "s \<le> 1" using sin_sq_unit by (simp_all add: s_def)
  have t01: "0 \<le> t" "t \<le> 1" using sin_sq_unit by (simp_all add: t_def)
  have "- 1 \<le> cos (p1 + p2)" "cos (p1 + p2) \<le> 1" by simp_all
  then have "0 \<le> 1 + cos (p1 + p2)" "1 + cos (p1 + p2) \<le> 2" by linarith+
  then have u01: "0 \<le> u" "u \<le> 1" by (simp_all add: u_def)
  have "(1 - t) * s \<le> 1 - t" "t * u \<le> t"
    using s01 t01 u01 by (simp_all add: mult_right_le_one_le)
  moreover have "0 \<le> (1 - t) * s" "0 \<le> t * u" using s01 t01 u01 by simp_all
  ultimately show ?thesis unfolding a by linarith
qed

lemma haversine_eq:
  "haversine lat1 lon1 lat2 lon2 =
     Inr (2 * earth_r * py_atan2 (sqrt (hav_term lat1 lon1 lat2 lon2)) (sqrt (1 - hav_term lat1 lon1 lat2 lon2)))"
  using hav_term_unit [of lat1 lon1 lat2 lon2] by (simp add: haversine_def py_sqrt_def Let_def)

lemma hav_term_sym: "hav_term lat1 lon1 lat2 lon2 = hav_term lat2 lon2 lat1 lon1"
proof -
  have "sin (deg2rad (b - a) / 2) ^ 2 = sin (deg2rad (a - b) / 2) ^ 2" for a b
  proof -
    have "deg2rad (b - a) / 2 = - (deg2rad (a - b) / 2)" by (simp add: deg2rad_def field_simps)
    then show ?thesis by (simp only: sin_minus power2_minus)
  qed
  then show ?thesis by (simp add: hav_term_def Let_def mult.commute)
qed

lemma hav_term_self [simp]: "hav_term lat lon lat lon = 0"
  by (simp add: hav_term_def deg2rad_def)

lemma bearing_norm_bounds: "0 \<le> normalize_bearing d \<and> normalize_bearing d < 360"
  by (simp add: normalize_bearing_def model_simps)

text \<open>Within \<open>[0, 360)\<close>, the angular distance to 180 is the plain distance.\<close>

lemma angle_diff_180:
  assumes "0 \<le> b" "b < 360"
  shows "angle_diff b 180 = \<bar>b - 180\<bar>"
proof -
  have "pymod \<bar>b - 180\<bar> 360 = \<bar>b - 180\<bar>" using assms by (intro pymod_eq_self) simp_all
  moreover have "\<bar>b - 180\<bar> \<le> 180" using assms by simp
  ultimately show ?thesis by (simp add: angle_diff_def Let_def)
qed

lemma hav_dist_range: "0 \<le> hav_dist lat1 lon1 lat2 lon2 \<and> hav_dist lat1 lon1 lat2 lon2 \<le> pi * earth_r"
proof -
  have "0 \<le> py_atan2 (sqrt (hav_term lat1 lon1 lat2 lon2)) (sqrt (1 - hav_term lat1 lon1 lat2 lon2)) \<and>
        py_atan2 (sqrt (hav_term lat1 lon1 lat2 lon2)) (sqrt (1 - hav_term lat1 lon1 lat2 lon2)) \<le> pi / 2"
    using hav_term_unit [of lat1 lon1 lat2 lon2] by (intro py_atan2_quadrant1) simp_all
  then show ?thesis by (simp add: hav_dist_def earth_r_def)
qed

lemma radial_points_eq:
  "radial_points rows =
     Inr (map (\<lambda>(r, la, lo). \<lparr>bearing_deg = bearing base_lat base_lon la lo,
                             distance_m = hav_dist base_lat base_lon la lo, p_rssi = r\<rparr>) rows)"
proof -
  have "map (\<lambda>(r, la, lo). haversine base_lat base_lon la lo) rows =
        map (\<lambda>x. Inr ((\<lambda>(r, la, lo). hav_dist base_lat base_lon la lo) x)) rows"
    by (simp add: haversine_eq hav_dist_def case_prod_beta)
  then have "distance_column rows = Inr (map (\<lambda>(r, la, lo). hav_dist base_lat base_lon la lo) rows)"
    by (simp only: distance_column_def seq_res_map_Inr)
  moreover have "zip rows (map f rows) = map (\<lambda>x. (x, f x)) rows" for f :: "geo_row \<Rightarrow> real"
    by (induction rows) simp_all
  ultimately show ?thesis by (simp add: radial_points_def case_prod_beta)
qed

section \<open>Properties\<close>

text \<open>
  \<^verbatim>\<open>haversine\<close> never raises and gives a distance between 0 and half the
  circumference. The haversine term lies in \<open>[0, 1]\<close> for all coordinates (it is a
  convex combination of two values in \<open>[0, 1]\<close>), so neither \<open>math.sqrt\<close> raises, and
  \<open>atan2\<close> of two non-negative values is in \<open>[0, pi/2]\<close>.
\<close>

theorem haversine_range:
  "\<exists>d. haversine lat1 lon1 lat2 lon2 = Inr d \<and> 0 \<le> d \<and> d \<le> pi * earth_r"
  using hav_dist_range [of lat1 lon1 lat2 lon2] by (simp add: haversine_eq hav_dist_def)

text \<open>
  \<^verbatim>\<open>haversine\<close> is symmetric in its two points and zero from a point to itself.
\<close>

theorem haversine_sym_self:
  "haversine lat1 lon1 lat2 lon2 = haversine lat2 lon2 lat1 lon1 \<and> haversine lat lon lat lon = Inr 0"
  by (simp add: haversine_eq hav_term_sym [of lat1 lon1 lat2 lon2])

text \<open>
  The radial slice of \<^verbatim>\<open>signal-over-line.py\<close> is the bearing band
  \<open>[178, 182]\<close>. For any samples, the distance and bearing columns are computed
  without exception, one point per sample with its RSSI and a distance in
  \<open>[0, pi R]\<close>, and the slice \<open>angle_diff(b, 180) <= 2\<close> keeps exactly the points whose
  bearing lies in \<open>[178, 182]\<close>, in order.
\<close>

theorem line_slice_band:
  "\<exists>pts. radial_points rows = Inr pts \<and> map p_rssi pts = map fst rows \<and>
     list_all (\<lambda>p. 0 \<le> distance_m p \<and> distance_m p \<le> pi * earth_r) pts \<and>
     line_slice rows = Inr (filter (\<lambda>p. 178 \<le> bearing_deg p \<and> bearing_deg p \<le> 182) pts)"
proof -
  define pts where "pts = map (\<lambda>(r, la, lo). \<lparr>bearing_deg = bearing base_lat base_lon la lo,
                             distance_m = hav_dist base_lat base_lon la lo, p_rssi = r\<rparr>) rows"
  have b: "0 \<le> bearing_deg p \<and> bearing_deg p < 360" if "p \<in> set pts" for p
    using that bearing_norm_bounds by (auto simp add: pts_def bearing_def Let_def)
  have "slice 180 2 pts = filter (\<lambda>p. 178 \<le> bearing_deg p \<and> bearing_deg p \<le> 182) pts"
    unfolding slice_def using b angle_diff_180 by (intro filter_cong) auto
  moreover have "list_all (\<lambda>p. 0 \<le> distance_m p \<and> distance_m p \<le> pi * earth_r) pts"
    using hav_dist_range by (auto simp add: pts_def list_all_iff)
  moreover have "map p_rssi pts = map fst rows" by (simp add: pts_def case_prod_beta)
  ultimately show ?thesis
    by (simp add: line_slice_def radial_points_eq pts_def [symmetric])
qed

end
