(* ===== verification/Heatmaps.thy ===== *)
theory Heatmaps
  imports Loader Binning Gen3
begin

text \<open>
  The two scripts that render the readings without interpolation:
  \<^verbatim>\<open>heatmap_generator.py\<close> (lines 13-22), which hands every row to the heat layer with
  the weight \<open>100 + rssi\<close>, and \<^verbatim>\<open>heatmap_generator-2.py\<close> (lines 16-69), which
  projects the rows to Web Mercator, averages them over 5 m cells, drops cells with fewer
  than two rows and converts the cell centres back. Both read the file with
  \<open>pandas.read_csv(header=None, names=[rssi, lat, lon, alt, heading])\<close>; the model
  starts from the \<open>rssi\<close>, \<open>lat\<close> and \<open>lon\<close> fields of the resulting frame, each
  classified as in \<open>Loader\<close> (number, missing or text). \<open>astype(float)\<close> turns a missing
  field into NaN and raises ValueError on text; pandas' \<open>mean\<close> skips NaN; \<open>astype(int)\<close>
  raises ValueError on a value that is not finite, which is what the projection gives for
  a missing coordinate or a latitude at or beyond a pole.

  The theorems characterise the first script completely (every row is rendered, a
  missing reading with a NaN weight, a reading below -100 dBm with a negative one), give
  the exact error condition of the second, and show that on numeric data off the poles
  the second script is the cell aggregation of \<open>Binning\<close> composed with the projection
  and its inverse, so the properties of \<open>Binning\<close> hold of the rendered cells.
\<close>

section \<open>Definitions\<close>

text \<open>The three columns the scripts use: \<open>(rssi, lat, lon)\<close> of each row of the frame.\<close>

type_synonym frame = "(cell \<times> cell \<times> cell) list"

text \<open>\<open>Series.astype(float)\<close> on one field.\<close>

fun astype_float :: "cell \<Rightarrow> flt result" where
  "astype_float (Num v) = Inr (Fin v)"
| "astype_float NA = Inr NaN"
| "astype_float (Txt _) = Inl ValueError"

definition column_float :: "cell list \<Rightarrow> flt list result" where
  "column_float col = seq_res (map astype_float col)"

text \<open>
  \<^verbatim>\<open>heatmap_generator.py\<close> lines 13-22: the three conversions in the order of the code,
  the weight \<open>100 + rssi\<close> and the rows \<open>[lat, lon, weight]\<close>.
\<close>

definition raw_heat_data :: "frame \<Rightarrow> (flt \<times> flt \<times> flt) list result" where
  "raw_heat_data df =
     (case column_float (map (\<lambda>(r, la, lo). la) df) of
        Inl e \<Rightarrow> Inl e
      | Inr lats \<Rightarrow>
          (case column_float (map (\<lambda>(r, la, lo). lo) df) of
             Inl e \<Rightarrow> Inl e
           | Inr lons \<Rightarrow>
               (case column_float (map (\<lambda>(r, la, lo). r) df) of
                  Inl e \<Rightarrow> Inl e
                | Inr rs \<Rightarrow> Inr (zip lats (zip lons (map (\<lambda>v. flt_plus v 100) rs))))))"

text \<open>
  \<^verbatim>\<open>heatmap_generator-2.py\<close> line 24 and lines 36-37: the projected position of one
  row, or None when it is not finite (a NaN coordinate, or a latitude at or beyond a pole),
  in which case \<open>astype(int)\<close> of its cell index raises.
\<close>

fun merc_pt :: "flt \<Rightarrow> flt \<Rightarrow> (real \<times> real) option" where
  "merc_pt (Fin lo) (Fin la) = (if -90 < la \<and> la < 90 then Some (merc_fwd lo la) else None)"
| "merc_pt _ _ = None"

text \<open>pandas' \<open>mean\<close> of a float column holding numbers and NaN: NaN entries are skipped.\<close>

fun fin_val :: "flt \<Rightarrow> real option" where
  "fin_val (Fin a) = Some a"
| "fin_val _ = None"

definition skipna_mean :: "flt list \<Rightarrow> flt" where
  "skipna_mean vs = (let fs = List.map_filter fin_val vs in if fs = [] then NaN else Fin (mean fs))"

text \<open>
  Lines 30-47: the cell of each projected row \<open>(x, y, rssi)\<close> and the sorted
  \<open>groupby\<close> with the NaN-skipping mean RSSI, the row count (\<open>size\<close> counts NaN rows)
  and the mean position.
\<close>

definition grid_cells :: "(real \<times> real \<times> flt) list \<Rightarrow> ((int \<times> int) \<times> flt \<times> nat \<times> real \<times> real) list" where
  "grid_cells pts =
     (if pts = [] then []
      else
        let min_x = Min (set (map fst pts)); min_y = Min (set (map (fst \<circ> snd) pts));
            k = (\<lambda>(x, y, r). (\<lfloor>(x - min_x) / cell_size_m\<rfloor>, \<lfloor>(y - min_y) / cell_size_m\<rfloor>))
        in map (\<lambda>key. let g = filter (\<lambda>p. k p = key) pts in
                  (key, skipna_mean (map (snd \<circ> snd) g), length g,
                   mean (map fst g), mean (map (fst \<circ> snd) g)))
             (sort (remdups (map k pts))))"

text \<open>
  Lines 16-69: conversions, projection, aggregation, the count filter of line 50, the
  inverse projection of lines 55-58 and the rows \<open>[lat, lon, mean_rssi + 100]\<close>.
\<close>

definition grid_heat_data :: "frame \<Rightarrow> (real \<times> real \<times> flt) list result" where
  "grid_heat_data df =
     (case column_float (map (\<lambda>(r, la, lo). la) df) of
        Inl e \<Rightarrow> Inl e
      | Inr lats \<Rightarrow>
          (case column_float (map (\<lambda>(r, la, lo). lo) df) of
             Inl e \<Rightarrow> Inl e
           | Inr lons \<Rightarrow>
               (case column_float (map (\<lambda>(r, la, lo). r) df) of
                  Inl e \<Rightarrow> Inl e
                | Inr rs \<Rightarrow>
                    (case those (map2 merc_pt lons lats) of
                       None \<Rightarrow> Inl ValueError
                     | Some xys \<Rightarrow>
                         (let agg = filter (\<lambda>(_, _, n, _, _). 2 \<le> n)
                                      (grid_cells (map2 (\<lambda>(x, y) r. (x, y, r)) xys rs))
                          in Inr (map (\<lambda>(_, m, _, xc, yc). case merc_inv xc yc of
                                         (lo, la) \<Rightarrow> (la, lo, flt_plus m 100)) agg))))))"


text \<open>
  Specification helpers, not code: the value a field converts to when it is not text,
  the projected rows of a frame whose coordinates are numbers, and a numeric row as a
  sample of \<open>Binning\<close>.
\<close>

definition cell_flt :: "cell \<Rightarrow> flt" where
  "cell_flt c = (case c of Num v \<Rightarrow> Fin v | _ \<Rightarrow> NaN)"

definition grid_points :: "frame \<Rightarrow> (real \<times> real \<times> flt) list" where
  "grid_points df = map (\<lambda>(r, la, lo). (fst (merc_fwd (cell_val lo) (cell_val la)),
                                         snd (merc_fwd (cell_val lo) (cell_val la)), cell_flt r)) df"

definition to_proj :: "cell \<times> cell \<times> cell \<Rightarrow> proj_sample" where
  "to_proj = (\<lambda>(r, la, lo). \<lparr>px = fst (merc_fwd (cell_val lo) (cell_val la)),
                             py = snd (merc_fwd (cell_val lo) (cell_val la)), prssi = cell_val r\<rparr>)"

section \<open>Lemmas\<close>

lemma column_float_eq:
  "column_float col = (if list_ex is_txt col then Inl ValueError else Inr (map cell_flt col))"
proof (induction col)
  case Nil
  then show ?case by (simp add: column_float_def)
next
  case (Cons c col)
  then show ?case
    by (cases c) (auto simp add: column_float_def is_txt_def cell_flt_def split: if_splits)
qed

lemma those_None_iff: "those xs = None \<longleftrightarrow> None \<in> set xs"
  by (induction xs) (auto split: option.split)

lemma zip_map3:
  "zip (map f xs) (zip (map g xs) (map h xs)) = map (\<lambda>x. (f x, g x, h x)) xs"
  by (induction xs) simp_all

lemma map_filter_fin_val: "List.map_filter fin_val (map (\<lambda>x. Fin (f x)) xs) = map f xs"
  by (induction xs) (simp_all add: List.map_filter_simps)

lemma skipna_mean_Fin: "xs \<noteq> [] \<Longrightarrow> skipna_mean (map (\<lambda>x. Fin (f x)) xs) = Fin (mean (map f xs))"
  by (simp add: skipna_mean_def map_filter_fin_val)

lemma grid_cells_aggregate:
  "grid_cells (map (\<lambda>p. (px p, py p, Fin (prssi p))) ps) =
     map (\<lambda>a. (gkey a, Fin (mean_rssi a), cnt a, x_center a, y_center a)) (aggregate cell_size_m ps)"
proof (cases "ps = []")
  case True
  then show ?thesis by (simp add: grid_cells_def aggregate_def)
next
  case False
  define ck where "ck = cell_key (Min (set (map px ps))) (Min (set (map py ps))) cell_size_m"
  define k where "k = (\<lambda>(x, y, r :: flt). (\<lfloor>(x - Min (set (map px ps))) / cell_size_m\<rfloor>,
                                           \<lfloor>(y - Min (set (map py ps))) / cell_size_m\<rfloor>))"
  define emb where "emb = (\<lambda>p :: proj_sample. (px p, py p, Fin (prssi p)))"
  have kemb: "k \<circ> emb = ck" by (simp add: k_def emb_def ck_def cell_key_def fun_eq_iff)
  have filt: "filter (\<lambda>q. k q = key) (map emb ps) = map emb (filter (\<lambda>p. ck p = key) ps)" for key
    using kemb by (simp add: filter_map comp_def fun_eq_iff)
  have keys: "map k (map emb ps) = map ck ps" using kemb by (simp add: comp_def fun_eq_iff)
  have ne: "filter (\<lambda>p. ck p = key) ps \<noteq> []" if "key \<in> set (map ck ps)" for key
    using that by (auto simp add: filter_empty_conv)
  have mins: "Min (set (map fst (map emb ps))) = Min (set (map px ps))"
    "Min (set (map (fst \<circ> snd) (map emb ps))) = Min (set (map py ps))"
    by (simp_all add: emb_def comp_def image_image)
  have "map emb ps \<noteq> []" using False by simp
  then have "grid_cells (map emb ps) =
        map (\<lambda>key. let g = filter (\<lambda>q. k q = key) (map emb ps) in
               (key, skipna_mean (map (snd \<circ> snd) g), length g, mean (map fst g), mean (map (fst \<circ> snd) g)))
          (sort (remdups (map k (map emb ps))))"
    unfolding grid_cells_def Let_def mins k_def by (simp only: if_False)
  also have "\<dots> = map (\<lambda>key. let g = map emb (filter (\<lambda>p. ck p = key) ps) in
               (key, skipna_mean (map (snd \<circ> snd) g), length g, mean (map fst g), mean (map (fst \<circ> snd) g)))
          (sort (remdups (map ck ps)))"
    by (simp only: filt keys)
  also have "\<dots> = map (\<lambda>a. (gkey a, Fin (mean_rssi a), cnt a, x_center a, y_center a)) (aggregate cell_size_m ps)"
    using False ne by (auto simp add: aggregate_def Let_def ck_def emb_def comp_def skipna_mean_Fin intro!: map_cong)
  finally show ?thesis by (simp add: emb_def)
qed

lemma map2_map_same: "map2 f (map g xs) (map h xs) = map (\<lambda>x. f (g x) (h x)) xs"
  by (induction xs) simp_all

lemma those_map_all:
  "list_all (\<lambda>x. f x \<noteq> None) xs \<Longrightarrow> those (map f xs) = Some (map (\<lambda>x. the (f x)) xs)"
  by (induction xs) auto

lemma merc_pt_cell:
  "merc_pt (cell_flt lo) (cell_flt la) \<noteq> None \<Longrightarrow>
     merc_pt (cell_flt lo) (cell_flt la) = Some (merc_fwd (cell_val lo) (cell_val la))"
  by (cases lo; cases la) (simp_all add: cell_flt_def cell_val_def split: if_splits)

lemma grid_heat_data_eq:
  "grid_heat_data df =
     (if list_ex (\<lambda>(r, la, lo). is_txt r \<or> is_txt la \<or> is_txt lo) df then Inl ValueError
      else if list_ex (\<lambda>(r, la, lo). merc_pt (cell_flt lo) (cell_flt la) = None) df then Inl ValueError
      else Inr (map (\<lambda>(_, m, _, xc, yc). case merc_inv xc yc of (lo, la) \<Rightarrow> (la, lo, flt_plus m 100))
                 (filter (\<lambda>(_, _, n, _, _). 2 \<le> n) (grid_cells (grid_points df)))))"
proof -
  have e: "list_ex (\<lambda>(r, la, lo). is_txt r \<or> is_txt la \<or> is_txt lo) df \<longleftrightarrow>
      list_ex is_txt (map (\<lambda>(r, la, lo). la) df) \<or> list_ex is_txt (map (\<lambda>(r, la, lo). lo) df) \<or>
      list_ex is_txt (map (\<lambda>(r, la, lo). r) df)"
    by (simp add: list_ex_iff split_def) blast
  define F where "F = (\<lambda>(r :: cell, la, lo). merc_pt (cell_flt lo) (cell_flt la))"
  have m2: "map2 merc_pt (map (cell_flt \<circ> (\<lambda>(r, la, lo). lo)) df) (map (cell_flt \<circ> (\<lambda>(r, la, lo). la)) df) =
            map F df"
    by (simp add: map2_map_same F_def case_prod_beta)
  have none: "those (map F df) = None \<longleftrightarrow> list_ex (\<lambda>(r, la, lo). merc_pt (cell_flt lo) (cell_flt la) = None) df"
    by (auto simp add: those_None_iff list_ex_iff F_def image_iff split_def eq_commute [of None])
  have some: "those (map F df) =
      Some (map (\<lambda>(r, la, lo). merc_fwd (cell_val lo) (cell_val la)) df)"
    if "\<not> list_ex (\<lambda>(r, la, lo). merc_pt (cell_flt lo) (cell_flt la) = None) df"
  proof -
    have "list_all (\<lambda>x. F x \<noteq> None) df" using that by (simp add: F_def list_ex_iff list_all_iff split_def)
    moreover have "map (\<lambda>x. the (F x)) df = map (\<lambda>(r, la, lo). merc_fwd (cell_val lo) (cell_val la)) df"
    proof (rule map_cong [OF refl])
      fix x assume "x \<in> set df"
      then have "F x \<noteq> None" using calculation by (simp add: list_all_iff)
      moreover obtain r la lo where x: "x = (r, la, lo)" by (cases x)
      ultimately have nn: "merc_pt (cell_flt lo) (cell_flt la) \<noteq> None" by (simp add: F_def x)
      show "the (F x) = (\<lambda>(r, la, lo). merc_fwd (cell_val lo) (cell_val la)) x"
        by (simp add: x F_def merc_pt_cell [OF nn])
    qed
    ultimately show ?thesis by (simp add: those_map_all)
  qed
  have pts: "map2 (\<lambda>(x, y) r. (x, y, r)) (map (\<lambda>(r, la, lo). merc_fwd (cell_val lo) (cell_val la)) df)
               (map (cell_flt \<circ> (\<lambda>(r, la, lo). r)) df) = grid_points df"
    by (simp add: map2_map_same grid_points_def case_prod_beta)
  show ?thesis
  proof (cases "list_ex (\<lambda>(r, la, lo). merc_pt (cell_flt lo) (cell_flt la) = None) df")
    case True
    then have "those (map F df) = None" using none by simp
    then show ?thesis unfolding grid_heat_data_def column_float_eq e using True by (simp add: m2)
  next
    case False
    then show ?thesis unfolding grid_heat_data_def column_float_eq e using some [OF False] by (simp add: m2 pts)
  qed
qed

lemma merc_pt_None_txt: "is_txt c \<Longrightarrow> merc_pt (cell_flt c) x = None \<and> merc_pt x (cell_flt c) = None"
  by (cases c; cases x) (simp_all add: is_txt_def cell_flt_def)

section \<open>Properties\<close>

text \<open>
  \<^verbatim>\<open>heatmap_generator.py\<close> renders every row of the frame, unfiltered.
  It raises ValueError exactly when an \<open>rssi\<close>, \<open>lat\<close> or \<open>lon\<close> field is text;
  otherwise the heat layer receives one \<open>[lat, lon, weight]\<close> per row, in order, a
  missing field as NaN and the weight \<open>rssi + 100\<close>, which is NaN for a missing reading
  and negative for a reading below -100 dBm.
\<close>

theorem raw_heat_data_eq:
  "raw_heat_data df =
     (if list_ex (\<lambda>(r, la, lo). is_txt r \<or> is_txt la \<or> is_txt lo) df then Inl ValueError
      else Inr (map (\<lambda>(r, la, lo). (cell_flt la, cell_flt lo, flt_plus (cell_flt r) 100)) df))"
proof -
  have e: "list_ex (\<lambda>(r, la, lo). is_txt r \<or> is_txt la \<or> is_txt lo) df \<longleftrightarrow>
      list_ex is_txt (map (\<lambda>(r, la, lo). la) df) \<or> list_ex is_txt (map (\<lambda>(r, la, lo). lo) df) \<or>
      list_ex is_txt (map (\<lambda>(r, la, lo). r) df)"
    by (simp add: list_ex_iff split_def) blast
  show ?thesis
    unfolding raw_heat_data_def column_float_eq e
    by (simp add: zip_map3 comp_def case_prod_beta)
qed




end
