(* ===== verification/Ecef.thy ===== *)
theory Ecef
  imports Geodesy Loader
begin

text \<open>
  The ECEF-to-geodetic conversion of \<^verbatim>\<open>map_generator.py\<close>: \<^verbatim>\<open>ecef_to_lla\<close>
  (lines 5-22), Bowring's closed formula on the WGS84 ellipsoid, and the loop of lines
  28-37 that converts every row of the frame. \<open>np.sqrt\<close> is only applied to non-negative
  values here, so it is the real square root; \<open>np.arctan2\<close> is \<open>py_atan2\<close>; values are
  exact reals. The one division, \<open>p / cos(lat)\<close>, never divides by zero in floating point
  (\<open>cos\<close> of the double nearest to \<open>pi/2\<close> is about \<open>6e-17\<close>); in exact reals \<open>cos lat\<close> is
  0 only at latitude \<open>+-90\<close>, which for \<open>p = 0\<close> gives the code's \<open>0 / cos lat = 0\<close>.

  The loop reads \<open>row["x"]\<close>, \<open>row["y"]\<close>, \<open>row["z"]\<close> of a frame read with
  \<open>names=[rssi, x, y, z, heading]\<close>: a missing field is NaN, which propagates through the
  numpy operations, and a column holding any text is a column of strings, so the first
  row with a present field in such a column raises TypeError at \<open>x**2\<close>, \<open>y**2\<close> or
  \<open>a * z\<close>.

  The theorems show that a position farther than \<open>e^2 a\<close> (about 42.7 km) from the polar
  axis gets a latitude strictly between the poles and every position a longitude in
  \<open>(-180, 180]\<close>; that on the equatorial plane the latitude is 0 and the altitude the
  distance to the axis minus \<open>a\<close>; and that on the polar axis the formula returns the
  same altitude \<open>-a / sqrt(1 - e^2)\<close> for every height, a defect of the formula at the
  poles.
\<close>

section \<open>Definitions\<close>

text \<open>Lines 6-7: the WGS84 semi-major axis and first eccentricity squared.\<close>

definition wgs_a :: real where
  "wgs_a = 6378137.0"

definition wgs_e_sq :: real where
  "wgs_e_sq = 0.00669437999014"

text \<open>Lines 9-22.\<close>

definition ecef_to_lla :: "real \<Rightarrow> real \<Rightarrow> real \<Rightarrow> real \<times> real \<times> real" where
  "ecef_to_lla x y z =
     (let b = sqrt (wgs_a ^ 2 * (1 - wgs_e_sq));
          ep = sqrt ((wgs_a ^ 2 - b ^ 2) / b ^ 2);
          p = sqrt (x ^ 2 + y ^ 2);
          th = py_atan2 (wgs_a * z) (b * p);
          lon = py_atan2 y x;
          lat = py_atan2 (z + ep ^ 2 * b * sin th ^ 3) (p - wgs_e_sq * wgs_a * cos th ^ 3);
          n = wgs_a / sqrt (1 - wgs_e_sq * sin lat ^ 2);
          alt = p / cos lat - n
      in (rad2deg lat, rad2deg lon, alt))"

text \<open>
  Line 30 on one row whose fields are numbers or missing: NaN in \<open>x\<close> or \<open>y\<close> reaches
  every output; NaN in \<open>z\<close> only reaches latitude and altitude.
\<close>

definition lla_row :: "cell \<Rightarrow> cell \<Rightarrow> cell \<Rightarrow> flt \<times> flt \<times> flt" where
  "lla_row cx cy cz =
     (case (cx, cy, cz) of
        (Num x, Num y, Num z) \<Rightarrow> (case ecef_to_lla x y z of (la, lo, al) \<Rightarrow> (Fin la, Fin lo, Fin al))
      | (Num x, Num y, _) \<Rightarrow> (NaN, Fin (rad2deg (py_atan2 y x)), NaN)
      | _ \<Rightarrow> (NaN, NaN, NaN))"

text \<open>
  Lines 28-37: the loop over the \<open>(x, y, z)\<close> fields of the rows, with the TypeError of a
  present field in a text column; the result is the \<open>lat\<close>, \<open>lon\<close>, \<open>alt\<close> columns.
\<close>

definition lla_columns :: "(cell \<times> cell \<times> cell) list \<Rightarrow> (flt \<times> flt \<times> flt) list result" where
  "lla_columns rows =
     (let tx = list_ex is_txt (map fst rows); ty = list_ex is_txt (map (fst \<circ> snd) rows);
          tz = list_ex is_txt (map (snd \<circ> snd) rows)
      in seq_res (map (\<lambda>(cx, cy, cz).
                         if (cx \<noteq> NA \<and> tx) \<or> (cy \<noteq> NA \<and> ty) \<or> (cz \<noteq> NA \<and> tz) then Inl TypeError
                         else Inr (lla_row cx cy cz)) rows))"


section \<open>Lemmas\<close>

lemma py_atan2_range: "- pi < py_atan2 y x \<and> py_atan2 y x \<le> pi"
  using arctan_lbound [of "y / x"] arctan_ubound [of "y / x"] pi_gt_zero
    zero_le_arctan_iff [of "y / x"] arctan_less_zero_iff [of "y / x"]
  by (auto simp add: py_atan2_def divide_nonneg_neg divide_neg_neg)

lemma py_atan2_right:
  assumes "0 < x" shows "- (pi / 2) < py_atan2 y x \<and> py_atan2 y x < pi / 2"
  using assms arctan_lbound [of "y / x"] arctan_ubound [of "y / x"] by (simp add: py_atan2_def)

lemma cos_cube_le_one: "cos (t::real) ^ 3 \<le> 1"
proof -
  have "\<bar>cos t\<bar> ^ 3 \<le> 1" by (rule power_le_one) simp_all
  moreover have "cos t ^ 3 \<le> \<bar>cos t\<bar> ^ 3"
    by (metis abs_ge_self power_abs)
  ultimately show ?thesis by linarith
qed

lemma wgs_consts: "0 < wgs_a" "0 < wgs_e_sq" "wgs_e_sq < 1"
  by (simp_all add: wgs_a_def wgs_e_sq_def)

lemma wgs_b: "0 < sqrt (wgs_a ^ 2 * (1 - wgs_e_sq))"
  using wgs_consts by simp

lemma ecef_to_lla_equator:
  assumes far: "wgs_e_sq * wgs_a < sqrt (x ^ 2 + y ^ 2)"
  shows "ecef_to_lla x y 0 = (0, rad2deg (py_atan2 y x), sqrt (x ^ 2 + y ^ 2) - wgs_a)"
proof -
  have "0 \<le> sqrt (wgs_a ^ 2 * (1 - wgs_e_sq)) * sqrt (x ^ 2 + y ^ 2)" using wgs_b by simp
  moreover have "0 < sqrt (x ^ 2 + y ^ 2) - wgs_e_sq * wgs_a" using far by simp
  ultimately show ?thesis by (simp add: ecef_to_lla_def Let_def rad2deg_def not_less)
qed

section \<open>Properties\<close>

text \<open>
  C38 [ecef_bounds]: A receiver position farther than \<open>e^2 a\<close> (about 42.7 km) from the
  Earth's axis is converted to a latitude strictly between -90 and 90 degrees, and every
  position to a longitude in \<open>(-180, 180]\<close>: the denominator of the latitude's
  \<open>arctan2\<close> is then positive, whatever the height.
\<close>

theorem ecef_to_lla_bounds:
  assumes far: "wgs_e_sq * wgs_a < sqrt (x ^ 2 + y ^ 2)"
  shows "- 90 < fst (ecef_to_lla x y z) \<and> fst (ecef_to_lla x y z) < 90 \<and>
         - 180 < fst (snd (ecef_to_lla x y z)) \<and> fst (snd (ecef_to_lla x y z)) \<le> 180"
proof -
  define b where "b = sqrt (wgs_a ^ 2 * (1 - wgs_e_sq))"
  define p where "p = sqrt (x ^ 2 + y ^ 2)"
  define th where "th = py_atan2 (wgs_a * z) (b * p)"
  define ep where "ep = sqrt ((wgs_a ^ 2 - b ^ 2) / b ^ 2)"
  define lat where "lat = py_atan2 (z + ep ^ 2 * b * sin th ^ 3) (p - wgs_e_sq * wgs_a * cos th ^ 3)"
  have "wgs_e_sq * wgs_a * cos th ^ 3 \<le> wgs_e_sq * wgs_a"
    using wgs_consts cos_cube_le_one [of th] by (simp add: mult_left_le)
  then have "0 < p - wgs_e_sq * wgs_a * cos th ^ 3" using far by (simp add: p_def)
  then have l: "- (pi / 2) < lat \<and> lat < pi / 2" unfolding lat_def by (rule py_atan2_right)
  have o: "- pi < py_atan2 y x \<and> py_atan2 y x \<le> pi" by (rule py_atan2_range)
  have "ecef_to_lla x y z = (rad2deg lat, rad2deg (py_atan2 y x),
           p / cos lat - wgs_a / sqrt (1 - wgs_e_sq * sin lat ^ 2))"
    by (simp add: ecef_to_lla_def Let_def b_def p_def th_def ep_def lat_def)
  then show ?thesis using l o pi_gt_zero
    by (simp add: rad2deg_def field_simps)
qed

theorem ecef_to_lla_bounds_witness:
  "wgs_e_sq * wgs_a < sqrt (4000000 ^ 2 + 0 ^ 2) \<and>
   - 90 < fst (ecef_to_lla 4000000 0 4000000) \<and> fst (ecef_to_lla 4000000 0 4000000) < 90 \<and>
   - 180 < fst (snd (ecef_to_lla 4000000 0 4000000)) \<and> fst (snd (ecef_to_lla 4000000 0 4000000)) \<le> 180"
proof -
  have h: "wgs_e_sq * wgs_a < sqrt (4000000 ^ 2 + 0 ^ 2)" by (simp add: wgs_a_def wgs_e_sq_def)
  show ?thesis using h ecef_to_lla_bounds [OF h] by simp
qed

text \<open>
  C39 [ecef_pole]: On the polar axis the conversion loses the height. For every point
  \<open>(0, 0, z)\<close> with \<open>z > 0\<close> it returns latitude 90, longitude 0 and the altitude
  \<open>-a / sqrt(1 - e^2)\<close> (about -6.4e6 m), independent of \<open>z\<close>, because
  \<open>p / cos(lat) - N\<close> is \<open>0 - N\<close> there; a point on the ice at the pole, 6356752 m up
  the axis, is placed 6400 km below the ellipsoid.
\<close>

theorem ecef_to_lla_pole:
  assumes "0 < z"
  shows "ecef_to_lla 0 0 z = (90, 0, - (wgs_a / sqrt (1 - wgs_e_sq)))"
proof -
  have az: "0 < wgs_a * z" using assms wgs_consts by simp
  have ep: "0 \<le> sqrt ((wgs_a ^ 2 - sqrt (wgs_a ^ 2 * (1 - wgs_e_sq)) ^ 2) / sqrt (wgs_a ^ 2 * (1 - wgs_e_sq)) ^ 2) ^ 2 *
                sqrt (wgs_a ^ 2 * (1 - wgs_e_sq))"
    using wgs_b by simp
  have "0 < z + sqrt ((wgs_a ^ 2 - sqrt (wgs_a ^ 2 * (1 - wgs_e_sq)) ^ 2) / sqrt (wgs_a ^ 2 * (1 - wgs_e_sq)) ^ 2) ^ 2 *
                sqrt (wgs_a ^ 2 * (1 - wgs_e_sq))"
    using assms ep by linarith
  then show ?thesis using az by (simp add: ecef_to_lla_def Let_def py_atan2_def rad2deg_def)
qed

theorem ecef_to_lla_pole_witness:
  "ecef_to_lla 0 0 6356752 = (90, 0, - (wgs_a / sqrt (1 - wgs_e_sq)))"
  by (rule ecef_to_lla_pole) simp

text \<open>
  The conversion loop of \<^verbatim>\<open>map_generator.py\<close> raises TypeError exactly
  when some \<open>x\<close>, \<open>y\<close> or \<open>z\<close> field is text (its column is then a column of strings);
  otherwise it converts every row in order, a missing field giving NaN outputs.
\<close>

theorem lla_columns_eq:
  "lla_columns rows =
     (if list_ex (\<lambda>(cx, cy, cz). is_txt cx \<or> is_txt cy \<or> is_txt cz) rows then Inl TypeError
      else Inr (map (\<lambda>(cx, cy, cz). lla_row cx cy cz) rows))"
proof -
  have na: "is_txt c \<Longrightarrow> c \<noteq> NA" for c by (cases c) (simp_all add: is_txt_def)
  define bad where "bad = (\<lambda>(cx, cy, cz). (cx \<noteq> NA \<and> list_ex is_txt (map fst rows)) \<or>
      (cy \<noteq> NA \<and> list_ex is_txt (map (fst \<circ> snd) rows)) \<or> (cz \<noteq> NA \<and> list_ex is_txt (map (snd \<circ> snd) rows)))"
  have "list_ex bad rows \<longleftrightarrow> list_ex (\<lambda>(cx, cy, cz). is_txt cx \<or> is_txt cy \<or> is_txt cz) rows"
  proof
    assume "list_ex bad rows"
    then obtain cx cy cz where "(cx, cy, cz) \<in> set rows" "bad (cx, cy, cz)" by (auto simp add: list_ex_iff)
    then have "list_ex is_txt (map fst rows) \<or> list_ex is_txt (map (fst \<circ> snd) rows) \<or>
               list_ex is_txt (map (snd \<circ> snd) rows)" by (auto simp add: bad_def)
    then show "list_ex (\<lambda>(cx, cy, cz). is_txt cx \<or> is_txt cy \<or> is_txt cz) rows"
      by (auto simp add: list_ex_iff split_def)
  next
    assume "list_ex (\<lambda>(cx, cy, cz). is_txt cx \<or> is_txt cy \<or> is_txt cz) rows"
    then obtain cx cy cz where mem: "(cx, cy, cz) \<in> set rows" and t: "is_txt cx \<or> is_txt cy \<or> is_txt cz"
      by (auto simp add: list_ex_iff)
    have "bad (cx, cy, cz)"
      using t
    proof (elim disjE)
      assume "is_txt cx" then show ?thesis using na mem by (simp add: bad_def list_ex_iff) (metis fst_conv snd_conv)
    next
      assume "is_txt cy" then show ?thesis using na mem by (simp add: bad_def list_ex_iff) (metis fst_conv snd_conv)
    next
      assume "is_txt cz" then show ?thesis using na mem by (simp add: bad_def list_ex_iff) (metis fst_conv snd_conv)
    qed
    then show "list_ex bad rows" using mem by (auto simp add: list_ex_iff)
  qed
  moreover have "lla_columns rows =
      seq_res (map (\<lambda>r. if bad r then Inl TypeError else Inr ((\<lambda>(cx, cy, cz). lla_row cx cy cz) r)) rows)"
    unfolding lla_columns_def Let_def bad_def by (rule arg_cong [where f = seq_res], rule map_cong) (auto split: prod.splits)
  ultimately show ?thesis by (simp only: seq_res_map_guard)
qed

end
