(* ===== verification/Folium.thy ===== *)
theory Folium
  imports Prelude
begin

text \<open>
  The part of the folium library the scripts use, as a value model of the map document:
  a \<open>folium.Map\<close> is a record of its centre, zoom, base tiles and the list of child
  layers added to it with \<open>add_to\<close>, in order; a layer is a tile layer, a heat layer,
  a feature group with its own children, a circle marker or a layer control; and
  \<open>m.save(path)\<close> writes the document to a file, modelled as the pair of the path and
  the map. folium is not code of this repository; the document structure follows the
  spec's description of the output (a base tile layer, an optional satellite layer, a
  heat-density layer and a layer-control toggle), and the two checks folium makes on its
  input are written out: \<open>validate_location\<close> raises ValueError on a NaN coordinate
  (\<open>folium.Map\<close>, \<open>CircleMarker\<close>, and every row of \<open>HeatMap\<close>), and \<open>HeatMap\<close>
  raises ValueError when its data contains a NaN. Infinities pass both checks.
\<close>

section \<open>Definitions\<close>

datatype layer =
    TileLayer string
  | HeatLayer "(flt \<times> flt \<times> flt) list" int nat real nat
  | FeatureGroup string "layer list"
  | CircleMarker "flt \<times> flt" string
  | LayerControl

record fmap =
  location :: "flt \<times> flt"
  zoom_start :: nat
  tiles :: string
  children :: "layer list"

text \<open>The file written by \<open>m.save(path)\<close>.\<close>

type_synonym html_file = "string \<times> fmap"

fun is_nan :: "flt \<Rightarrow> bool" where
  "is_nan NaN = True"
| "is_nan _ = False"

text \<open>\<open>folium.utilities.validate_location\<close> on a pair of floats.\<close>

definition validate_location :: "flt \<times> flt \<Rightarrow> (flt \<times> flt) result" where
  "validate_location loc = (if is_nan (fst loc) \<or> is_nan (snd loc) then Inl ValueError else Inr loc)"

text \<open>\<open>folium.Map(location=..., zoom_start=..., tiles=...)\<close>: a map with no children.\<close>

definition folium_map :: "flt \<times> flt \<Rightarrow> nat \<Rightarrow> string \<Rightarrow> fmap result" where
  "folium_map loc z t =
     (case validate_location loc of
        Inl e \<Rightarrow> Inl e
      | Inr l \<Rightarrow> Inr \<lparr>location = l, zoom_start = z, tiles = t, children = []\<rparr>)"

text \<open>\<open>layer.add_to(m)\<close>.\<close>

definition add_to :: "layer \<Rightarrow> fmap \<Rightarrow> fmap" where
  "add_to l m = m\<lparr>children := children m @ [l]\<rparr>"

text \<open>
  \<open>HeatMap(data, radius, blur, min_opacity, max_zoom)\<close>: every row's location is
  validated in order, then the whole data is checked for NaN.
\<close>

definition heat_map :: "(flt \<times> flt \<times> flt) list \<Rightarrow> int \<Rightarrow> nat \<Rightarrow> real \<Rightarrow> nat \<Rightarrow> layer result" where
  "heat_map pts radius blur min_opacity max_zoom =
     (case seq_res (map (\<lambda>(la, lo, w). case validate_location (la, lo) of
                                          Inl e \<Rightarrow> Inl e
                                        | Inr _ \<Rightarrow> Inr (la, lo, w)) pts) of
        Inl e \<Rightarrow> Inl e
      | Inr rows \<Rightarrow>
          if list_ex (\<lambda>(la, lo, w). is_nan w) rows then Inl ValueError
          else Inr (HeatLayer rows radius blur min_opacity max_zoom))"

text \<open>\<open>folium.CircleMarker(location=..., color=...)\<close>.\<close>

definition circle_marker :: "flt \<times> flt \<Rightarrow> string \<Rightarrow> layer result" where
  "circle_marker loc color =
     (case validate_location loc of Inl e \<Rightarrow> Inl e | Inr l \<Rightarrow> Inr (CircleMarker l color))"

section \<open>Lemmas\<close>

text \<open>A heat layer is built exactly from NaN-free data.\<close>

lemma heat_map_eq:
  "heat_map pts radius blur mo mz =
     (if list_ex (\<lambda>(la, lo, w). is_nan la \<or> is_nan lo \<or> is_nan w) pts then Inl ValueError
      else Inr (HeatLayer pts radius blur mo mz))"
proof (induction pts)
  case Nil
  then show ?case by (simp add: heat_map_def)
next
  case (Cons r pts)
  obtain la lo w where r: "r = (la, lo, w)" by (cases r)
  show ?case
    using Cons.IH
    by (auto simp add: heat_map_def r validate_location_def split: sum.splits if_splits)
qed

lemma folium_map_eq:
  "folium_map loc z t =
     (if is_nan (fst loc) \<or> is_nan (snd loc) then Inl ValueError
      else Inr \<lparr>location = loc, zoom_start = z, tiles = t, children = []\<rparr>)"
  by (simp add: folium_map_def validate_location_def)

lemma circle_marker_eq:
  "circle_marker loc c =
     (if is_nan (fst loc) \<or> is_nan (snd loc) then Inl ValueError else Inr (CircleMarker loc c))"
  by (simp add: circle_marker_def validate_location_def)

lemma children_add_to [simp]: "children (add_to l m) = children m @ [l]"
  by (simp add: add_to_def)

lemma location_add_to [simp]: "location (add_to l m) = location m"
  by (simp add: add_to_def)

lemma fmap_fields_add_to [simp]:
  "zoom_start (add_to l m) = zoom_start m" "tiles (add_to l m) = tiles m"
  by (simp_all add: add_to_def)

end
