(* ===== verification/Render.thy ===== *)
theory Render
  imports Pipeline Heatmaps Ecef PointMap Folium
begin

text \<open>
  The output stage of every script that draws a map, over the folium model of
  \<open>Folium\<close>: \<^verbatim>\<open>create_folium_map\<close> of \<^verbatim>\<open>heatmap_gstools.py\<close> (lines 222-242)
  and its call at the end of \<^verbatim>\<open>main\<close> (line 284), the map and heat layer of
  \<^verbatim>\<open>heatmap_generator.py\<close> (lines 24-40), \<^verbatim>\<open>heatmap_generator-2.py\<close> (lines
  74-85) and \<^verbatim>\<open>heatmap-generator-3.py\<close> (lines 87-99), and the circle-marker maps
  of \<^verbatim>\<open>map_generator.py\<close> (lines 39-61) and \<^verbatim>\<open>map_generator-2.py\<close> (lines 12-34).
  Each script is the composition of its data stage (modelled in the other theories) with
  its output stage, so its result is the file it writes or the exception that stops it.

  The theorems show that \<^verbatim>\<open>create_folium_map\<close> builds the document the spec
  describes and fails only on a NaN centre or heat row; that whenever \<^verbatim>\<open>main\<close>
  computes its heat-map data the map is written, with exactly that data; that the
  scripts without a filter stop with ValueError on any missing reading or coordinate,
  because folium rejects NaN; and that the point maps draw one marker per row in file
  order, coloured by the gradient.
\<close>

section \<open>Definitions\<close>

text \<open>\<^verbatim>\<open>heatmap_gstools.py\<close> lines 222-242.\<close>

definition create_folium_map ::
  "flt \<Rightarrow> flt \<Rightarrow> (flt \<times> flt \<times> flt) list \<Rightarrow> string \<Rightarrow> int \<Rightarrow> nat \<Rightarrow> bool \<Rightarrow> html_file result" where
  "create_folium_map lat_c lon_c hm out_html radius blur satellite =
     (case folium_map (lat_c, lon_c) 15 ''OpenStreetMap'' of
        Inl e \<Rightarrow> Inl e
      | Inr m \<Rightarrow>
          (let m1 = (if satellite then add_to (TileLayer ''Esri.WorldImagery'') m else m) in
           case heat_map hm radius blur 0.25 20 of
             Inl e \<Rightarrow> Inl e
           | Inr h \<Rightarrow>
               Inr (out_html, add_to LayerControl (add_to (FeatureGroup ''Kriged RSSI Heatmap'' [h]) m1))))"

text \<open>
  The rows \<open>[float(lat), float(lon), float(w)]\<close> of line 277 as the floats folium
  receives.
\<close>

definition flt_rows :: "(real \<times> real \<times> real) list \<Rightarrow> (flt \<times> flt \<times> flt) list" where
  "flt_rows rows = map (\<lambda>(la, lo, w). (Fin la, Fin lo, Fin w)) rows"

text \<open>
  \<^verbatim>\<open>main\<close> of \<^verbatim>\<open>heatmap_gstools.py\<close> with its output (line 284): the parsed options are
  the file's lines, the grid spacing, the heat-map radius, the satellite flag and the
  output path; the blur is the default 12.
\<close>

definition gstools_main ::
  "cell list list \<Rightarrow> real \<Rightarrow> int \<Rightarrow> bool \<Rightarrow> string \<Rightarrow> gstools_vario \<Rightarrow> gstools_krige \<Rightarrow> html_file result" where
  "gstools_main lines grid radius satellite out_html gv gk =
     (case main_pipeline lines grid gv gk of
        Inl e \<Rightarrow> Inl e
      | Inr res \<Rightarrow> create_folium_map (lat_center res) (lon_center res) (flt_rows (heat_data res)) out_html radius 12 satellite)"

text \<open>The hard-coded centre of the other heat maps.\<close>

definition fixed_center :: "flt \<times> flt" where
  "fixed_center = (Fin 53.26831, Fin (-0.52984))"

text \<open>\<^verbatim>\<open>heatmap_generator.py\<close> lines 13-40.\<close>

definition raw_heatmap_script :: "frame \<Rightarrow> html_file result" where
  "raw_heatmap_script df =
     (case raw_heat_data df of
        Inl e \<Rightarrow> Inl e
      | Inr hm \<Rightarrow>
          (case folium_map fixed_center 15 ''OpenStreetMap'' of
             Inl e \<Rightarrow> Inl e
           | Inr m \<Rightarrow>
               (case heat_map hm 20 18 0.3 17 of
                  Inl e \<Rightarrow> Inl e
                | Inr h \<Rightarrow> Inr (''gps_heatmap-all.html'', add_to h m))))"

text \<open>\<^verbatim>\<open>heatmap_generator-2.py\<close> lines 16-85.\<close>

definition grid_heatmap_script :: "frame \<Rightarrow> html_file result" where
  "grid_heatmap_script df =
     (case grid_heat_data df of
        Inl e \<Rightarrow> Inl e
      | Inr hm \<Rightarrow>
          (case folium_map fixed_center 15 ''OpenStreetMap'' of
             Inl e \<Rightarrow> Inl e
           | Inr m \<Rightarrow>
               (case heat_map (map (\<lambda>(la, lo, w). (Fin la, Fin lo, w)) hm) 25 20 0.4 20 of
                  Inl e \<Rightarrow> Inl e
                | Inr h \<Rightarrow> Inr (''gps_heatmap-RIH-all-5m-averaged.html'', add_to h m))))"

text \<open>\<^verbatim>\<open>heatmap-generator-3.py\<close> lines 24-99.\<close>

definition gen3_script :: "pykrige \<Rightarrow> gen3_sample list \<Rightarrow> html_file result" where
  "gen3_script pk df =
     (case gen3_heatmap pk df of
        Inl e \<Rightarrow> Inl e
      | Inr hm \<Rightarrow>
          (case folium_map fixed_center 15 ''OpenStreetMap'' of
             Inl e \<Rightarrow> Inl e
           | Inr m \<Rightarrow>
               (case heat_map (map (\<lambda>(la, lo, w). (Fin la, Fin lo, w)) hm) 20 15 0.35 20 of
                  Inl e \<Rightarrow> Inl e
                | Inr h \<Rightarrow> Inr (''gps_heatmap_30m_spherical_kriging.html'', add_to h m))))"

text \<open>
  \<open>df["rssi"].min(), df["rssi"].max()\<close> (\<^verbatim>\<open>map_generator.py\<close> line 43): NaN skipped,
  NaN for a column with no number; a column holding text is a column of strings, and
  the script raises TypeError at the latest when it subtracts the minimum on line 46.
\<close>

definition col_extremes :: "cell list \<Rightarrow> (flt \<times> flt) result" where
  "col_extremes col =
     (if list_ex is_txt col then Inl TypeError
      else let vs = List.map_filter (\<lambda>c. case c of Num v \<Rightarrow> Some v | _ \<Rightarrow> None) col in
        if vs = [] then Inr (NaN, NaN) else Inr (Fin (Min (set vs)), Fin (Max (set vs))))"

text \<open>Lines 46-50 on the float fields: a NaN anywhere makes \<open>int(NaN)\<close> raise.\<close>

definition marker_color_flt :: "flt \<Rightarrow> flt \<Rightarrow> cell \<Rightarrow> string result" where
  "marker_color_flt mn mx c =
     (case (mn, mx, c) of (Fin a, Fin b, Num v) \<Rightarrow> marker_color a b v | _ \<Rightarrow> Inl ValueError)"

text \<open>
  \<^verbatim>\<open>map_generator.py\<close> lines 28-61 on the \<open>(rssi, x, y, z)\<close> fields of the rows: the
  ECEF conversion loop, the map centred at the column means, the RSSI extremes, and one
  circle marker per row, its colour computed before its location is validated.
\<close>

definition point_map_script :: "(cell \<times> cell \<times> cell \<times> cell) list \<Rightarrow> html_file result" where
  "point_map_script rows =
     (case lla_columns (map snd rows) of
        Inl e \<Rightarrow> Inl e
      | Inr llas \<Rightarrow>
          (case folium_map (skipna_mean (map fst llas), skipna_mean (map (fst \<circ> snd) llas)) 17 ''OpenStreetMap'' of
             Inl e \<Rightarrow> Inl e
           | Inr m \<Rightarrow>
               (case col_extremes (map fst rows) of
                  Inl e \<Rightarrow> Inl e
                | Inr (mn, mx) \<Rightarrow>
                    (case seq_res (map (\<lambda>(c, la, lo, al).
                                           case marker_color_flt mn mx c of
                                             Inl e \<Rightarrow> Inl e
                                           | Inr col \<Rightarrow> circle_marker (la, lo) col)
                                    (zip (map fst rows) llas)) of
                       Inl e \<Rightarrow> Inl e
                     | Inr ms \<Rightarrow> Inr (''gps_signal_map.html'', foldl (\<lambda>m' l. add_to l m') m ms)))))"

text \<open>
  pandas' \<open>Series.mean()\<close> of a column read by \<open>read_csv\<close>: TypeError on a column
  holding text, otherwise the mean of its numbers (NaN skipped).
\<close>

definition col_mean :: "cell list \<Rightarrow> flt result" where
  "col_mean col = (if list_ex is_txt col then Inl TypeError else Inr (skipna_mean (map cell_flt col)))"

text \<open>
  \<^verbatim>\<open>map_generator-2.py\<close> lines 5-34 on the \<open>(rssi, lat, lon, alt, heading)\<close> fields:
  the columns are used as read, the map is centred at their means, and each marker's
  popup formats \<open>alt\<close> with \<open>:.2f\<close>, which raises ValueError on a string (any present
  field of an \<open>alt\<close> column holding text).
\<close>

definition point_map2_script :: "(cell \<times> cell \<times> cell \<times> cell \<times> cell) list \<Rightarrow> html_file result" where
  "point_map2_script rows =
     (let ta = list_ex is_txt (map (fst \<circ> snd \<circ> snd \<circ> snd) rows) in
      case col_mean (map (fst \<circ> snd) rows) of
        Inl e \<Rightarrow> Inl e
      | Inr mla \<Rightarrow>
          (case col_mean (map (fst \<circ> snd \<circ> snd) rows) of
             Inl e \<Rightarrow> Inl e
           | Inr mlo \<Rightarrow>
               (case folium_map (mla, mlo) 17 ''OpenStreetMap'' of
                  Inl e \<Rightarrow> Inl e
                | Inr m \<Rightarrow>
                    (case col_extremes (map fst rows) of
                       Inl e \<Rightarrow> Inl e
                     | Inr (mn, mx) \<Rightarrow>
                         (case seq_res (map (\<lambda>(r, la, lo, al, hdg).
                                                case marker_color_flt mn mx r of
                                                  Inl e \<Rightarrow> Inl e
                                                | Inr col \<Rightarrow>
                                                    if ta \<and> al \<noteq> NA then Inl ValueError
                                                    else circle_marker (cell_flt la, cell_flt lo) col) rows) of
                            Inl e \<Rightarrow> Inl e
                          | Inr ms \<Rightarrow> Inr (''gps_signal_map-RIH-all-20251121.html'',
                                          foldl (\<lambda>m' l. add_to l m') m ms))))))"


text \<open>
  Specification helpers, not code: the document the spec describes for the kriged heat
  map (base tiles, the optional satellite layer, the heat layer in a toggleable group,
  the layer control), a heat row holding a NaN, and a field holding a number.
\<close>

definition kriged_doc :: "flt \<times> flt \<Rightarrow> (flt \<times> flt \<times> flt) list \<Rightarrow> int \<Rightarrow> nat \<Rightarrow> bool \<Rightarrow> fmap" where
  "kriged_doc c hm radius blur satellite =
     \<lparr>location = c, zoom_start = 15, tiles = ''OpenStreetMap'',
      children = (if satellite then [TileLayer ''Esri.WorldImagery''] else []) @
                 [FeatureGroup ''Kriged RSSI Heatmap'' [HeatLayer hm radius blur 0.25 20], LayerControl]\<rparr>"

definition nan_row :: "flt \<times> flt \<times> flt \<Rightarrow> bool" where
  "nan_row = (\<lambda>(la, lo, w). is_nan la \<or> is_nan lo \<or> is_nan w)"

definition is_num :: "cell \<Rightarrow> bool" where
  "is_num c = (case c of Num _ \<Rightarrow> True | _ \<Rightarrow> False)"

section \<open>Lemmas\<close>

lemma foldl_add_to: "foldl (\<lambda>m' l. add_to l m') m ls = m\<lparr>children := children m @ ls\<rparr>"
  by (induction ls arbitrary: m) (simp_all add: add_to_def)

lemma median_not_nan:
  assumes "xs \<noteq> []" shows "\<not> is_nan (median xs)"
proof -
  have "sort xs \<noteq> []" using assms by (metis length_0_conv length_sort)
  then show ?thesis by (simp add: median_def Let_def)
qed

lemma main_pipeline_centre:
  assumes "main_pipeline lines r gv gk = Inr res"
  shows "\<not> is_nan (lat_center res) \<and> \<not> is_nan (lon_center res)"
  using assms
  by (elim main_pipeline_InrD) (auto simp add: build_grid_eq project_to_meters_def median_not_nan split: if_splits)

lemma flt_rows_no_nan: "\<not> list_ex nan_row (flt_rows rs)"
  by (simp add: flt_rows_def list_ex_iff nan_row_def split_def)

lemma create_folium_map_ok:
  assumes "\<not> is_nan la" "\<not> is_nan lo" "\<not> list_ex nan_row hm"
  shows "create_folium_map la lo hm out_html radius blur sat = Inr (out_html, kriged_doc (la, lo) hm radius blur sat)"
  using assms
  by (simp add: create_folium_map_def folium_map_eq heat_map_eq nan_row_def kriged_doc_def add_to_def
      case_prod_beta Let_def)

lemma gstools_main_Inr:
  assumes "main_pipeline lines grid gv gk = Inr res"
  shows "gstools_main lines grid radius sat out_html gv gk =
           Inr (out_html, kriged_doc (lat_center res, lon_center res) (flt_rows (heat_data res)) radius 12 sat)"
  using main_pipeline_centre [OF assms] create_folium_map_ok flt_rows_no_nan assms
  by (simp add: gstools_main_def)

lemma is_num_iff: "is_num c \<longleftrightarrow> \<not> is_txt c \<and> c \<noteq> NA"
  by (cases c) (simp_all add: is_num_def is_txt_def)

lemma cell_flt_num: "is_num c \<Longrightarrow> cell_flt c = Fin (cell_val c)"
  by (cases c) (simp_all add: is_num_def cell_flt_def cell_val_def)

lemma is_nan_cell_flt: "is_nan (cell_flt c) \<longleftrightarrow> \<not> is_num c"
  by (cases c) (simp_all add: is_num_def cell_flt_def)

lemma is_nan_flt_plus: "is_nan (flt_plus v c) \<longleftrightarrow> is_nan v"
  by (cases v) simp_all

lemma lla_row_num:
  "is_num cx \<Longrightarrow> is_num cy \<Longrightarrow> is_num cz \<Longrightarrow>
   lla_row cx cy cz =
     (\<lambda>(la, lo, al). (Fin la, Fin lo, Fin al)) (ecef_to_lla (cell_val cx) (cell_val cy) (cell_val cz))"
  by (cases cx; cases cy; cases cz) (simp_all add: is_num_def lla_row_def cell_val_def split: prod.split)

lemma map_filter_num:
  "list_all is_num cs \<Longrightarrow> List.map_filter (\<lambda>c. case c of Num v \<Rightarrow> Some v | _ \<Rightarrow> None) cs = map cell_val cs"
  by (induction cs) (auto simp add: List.map_filter_simps is_num_def cell_val_def split: cell.splits)

lemma map2_zip_snd:
  "length xs = length ys \<Longrightarrow> map2 (\<lambda>(a, b) c. h b c) (zip xs ys) zs = map2 h ys zs"
proof (induction xs ys arbitrary: zs rule: list_induct2)
  case Nil
  then show ?case by simp
next
  case (Cons x xs y ys)
  then show ?case by (cases zs) simp_all
qed

text \<open>The output stage shared by the heat maps with a hard-coded centre.\<close>

lemma fixed_heat_stage:
  "(case folium_map fixed_center 15 ''OpenStreetMap'' of
      Inl e \<Rightarrow> Inl e
    | Inr m \<Rightarrow> (case heat_map (map (\<lambda>(la, lo, w). (Fin la, Fin lo, w)) hm) r b mo mz of
                 Inl e \<Rightarrow> Inl e
               | Inr h \<Rightarrow> Inr (f, add_to h m))) =
   (if list_ex (\<lambda>(la, lo, w). is_nan w) hm then Inl ValueError
    else Inr (f, \<lparr>location = fixed_center, zoom_start = 15, tiles = ''OpenStreetMap'',
                  children = [HeatLayer (map (\<lambda>(la, lo, w). (Fin la, Fin lo, w)) hm) r b mo mz]\<rparr>))"
proof -
  have "list_ex (\<lambda>(la, lo, w). is_nan la \<or> is_nan lo \<or> is_nan w) (map (\<lambda>(la, lo, w). (Fin la, Fin lo, w)) hm) \<longleftrightarrow>
        list_ex (\<lambda>(la, lo, w). is_nan w) hm"
    by (simp add: list_ex_iff split_def)
  then show ?thesis by (simp add: folium_map_eq heat_map_eq fixed_center_def add_to_def)
qed

text \<open>
  \<^verbatim>\<open>heatmap_generator-2.py\<close> stops with ValueError when a rendered cell's mean reading is
  NaN (a cell of at least two rows whose readings are all missing): folium rejects it.
\<close>

lemma grid_heatmap_script_eq:
  "grid_heatmap_script df =
     (case grid_heat_data df of
        Inl e \<Rightarrow> Inl e
      | Inr hm \<Rightarrow>
          if list_ex (\<lambda>(la, lo, w). is_nan w) hm then Inl ValueError
          else Inr (''gps_heatmap-RIH-all-5m-averaged.html'',
                    \<lparr>location = fixed_center, zoom_start = 15, tiles = ''OpenStreetMap'',
                     children = [HeatLayer (map (\<lambda>(la, lo, w). (Fin la, Fin lo, w)) hm) 25 20 0.4 20]\<rparr>))"
  by (simp add: grid_heatmap_script_def fixed_heat_stage split: sum.split)

lemma gen3_script_eq:
  "gen3_script pk df =
     (case gen3_heatmap pk df of
        Inl e \<Rightarrow> Inl e
      | Inr hm \<Rightarrow>
          if list_ex (\<lambda>(la, lo, w). is_nan w) hm then Inl ValueError
          else Inr (''gps_heatmap_30m_spherical_kriging.html'',
                    \<lparr>location = fixed_center, zoom_start = 15, tiles = ''OpenStreetMap'',
                     children = [HeatLayer (map (\<lambda>(la, lo, w). (Fin la, Fin lo, w)) hm) 20 15 0.35 20]\<rparr>))"
  by (simp add: gen3_script_def fixed_heat_stage split: sum.split)

section \<open>Properties\<close>



text \<open>
  C36 [raw_script]: \<^verbatim>\<open>heatmap_generator.py\<close> writes its map exactly when every
  \<open>rssi\<close>, \<open>lat\<close> and \<open>lon\<close> field is a number, and then with one heat row
  \<open>[lat, lon, rssi + 100]\<close> per row, in order, unfiltered, so readings below -100 dBm
  get negative weights. A single missing or text field stops the script with ValueError:
  text in \<open>astype(float)\<close>, a missing field in folium's NaN check of the heat data.
\<close>

theorem raw_heatmap_script_eq:
  "raw_heatmap_script df =
     (if list_all (\<lambda>(r, la, lo). is_num r \<and> is_num la \<and> is_num lo) df
      then Inr (''gps_heatmap-all.html'',
                \<lparr>location = fixed_center, zoom_start = 15, tiles = ''OpenStreetMap'',
                 children = [HeatLayer (map (\<lambda>(r, la, lo). (Fin (cell_val la), Fin (cell_val lo),
                                                             Fin (cell_val r + 100))) df) 20 18 0.3 17]\<rparr>)
      else Inl ValueError)"
proof (cases "list_ex (\<lambda>(r, la, lo). is_txt r \<or> is_txt la \<or> is_txt lo) df")
  case True
  then have "\<not> list_all (\<lambda>(r, la, lo). is_num r \<and> is_num la \<and> is_num lo) df"
    unfolding list_ex_iff list_all_iff split_def is_num_iff by blast
  then show ?thesis using True by (simp add: raw_heatmap_script_def raw_heat_data_eq)
next
  case False
  have nan: "list_ex (\<lambda>(la, lo, w). is_nan la \<or> is_nan lo \<or> is_nan w)
               (map (\<lambda>(r, la, lo). (cell_flt la, cell_flt lo, flt_plus (cell_flt r) 100)) df) \<longleftrightarrow>
             \<not> list_all (\<lambda>(r, la, lo). is_num r \<and> is_num la \<and> is_num lo) df"
    by (simp add: list_ex_iff list_all_iff split_def is_nan_cell_flt is_nan_flt_plus; blast)
  have vals: "list_all (\<lambda>(r, la, lo). is_num r \<and> is_num la \<and> is_num lo) df \<Longrightarrow>
      map (\<lambda>(r, la, lo). (cell_flt la, cell_flt lo, flt_plus (cell_flt r) 100)) df =
      map (\<lambda>(r, la, lo). (Fin (cell_val la), Fin (cell_val lo), Fin (cell_val r + 100))) df"
    by (auto simp add: list_all_iff cell_flt_num intro!: map_cong)
  show ?thesis
    using False nan vals
    by (simp add: raw_heatmap_script_def raw_heat_data_eq folium_map_eq heat_map_eq fixed_center_def add_to_def)
qed

text \<open>
  C40 [point_map]: On numeric rows, \<^verbatim>\<open>map_generator.py\<close> draws one circle marker per row,
  in file order, at the row's converted position and with the gradient colour
  \<open>point_colors\<close> gives its reading, on a map centred at the mean converted
  position; it fails exactly when \<open>point_colors\<close> does, that is on a constant RSSI
  column.
\<close>

theorem point_map_script_numeric:
  assumes num: "list_all (\<lambda>(r, x, y, z). is_num r \<and> is_num x \<and> is_num y \<and> is_num z) rows"
    and ne: "rows \<noteq> []"
  shows "point_map_script rows =
     (let L = map (\<lambda>(r, x, y, z). ecef_to_lla (cell_val x) (cell_val y) (cell_val z)) rows in
      case point_colors (map (\<lambda>(r, _). cell_val r) rows) of
        Inl e \<Rightarrow> Inl e
      | Inr cs \<Rightarrow> Inr (''gps_signal_map.html'',
           \<lparr>location = (Fin (mean (map fst L)), Fin (mean (map (fst \<circ> snd) L))), zoom_start = 17,
            tiles = ''OpenStreetMap'', children = map2 (\<lambda>(la, lo, al) c. CircleMarker (Fin la, Fin lo) c) L cs\<rparr>))"
proof -
  define L where "L = map (\<lambda>(r, x, y, z). ecef_to_lla (cell_val x) (cell_val y) (cell_val z)) rows"
  define LF where "LF = map (\<lambda>(la, lo, al). (Fin la, Fin lo, Fin al)) L"
  define rs where "rs = map (\<lambda>(r, _). cell_val r) rows"
  have lenL: "length LF = length rows" "L \<noteq> []" using ne by (simp_all add: LF_def L_def)
  have "\<not> list_ex (\<lambda>(cx, cy, cz). is_txt cx \<or> is_txt cy \<or> is_txt cz) (map snd rows)"
    using num by (auto simp add: list_ex_iff list_all_iff is_num_iff)
  moreover have "map (\<lambda>(cx, cy, cz). lla_row cx cy cz) (map snd rows) = LF"
    using num by (auto simp add: LF_def L_def list_all_iff lla_row_num intro!: map_cong)
  ultimately have lla: "lla_columns (map snd rows) = Inr LF" by (simp add: lla_columns_eq)
  have cen: "skipna_mean (map fst LF) = Fin (mean (map fst L))"
            "skipna_mean (map (fst \<circ> snd) LF) = Fin (mean (map (fst \<circ> snd) L))"
    using lenL(2) skipna_mean_Fin [of L fst] skipna_mean_Fin [of L "fst \<circ> snd"]
    by (simp_all add: LF_def comp_def case_prod_beta)
  have rsne: "rs \<noteq> []" using ne by (simp add: rs_def)
  have "List.map_filter (\<lambda>c. case c of Num v \<Rightarrow> Some v | _ \<Rightarrow> None) (map fst rows) = rs"
    using num map_filter_num [of "map fst rows"] by (simp add: rs_def list_all_iff case_prod_beta comp_def)
  then have ext: "col_extremes (map fst rows) = Inr (Fin (Min (set rs)), Fin (Max (set rs)))"
    using num rsne by (auto simp add: col_extremes_def list_ex_iff list_all_iff is_num_iff)
  define f where "f = (\<lambda>(c :: cell, q :: flt \<times> flt \<times> flt). marker_color (Min (set rs)) (Max (set rs)) (cell_val c))"
  define g where "g = (\<lambda>(c :: cell, (la :: flt, lo :: flt, al :: flt)) col. CircleMarker (la, lo) col)"
  have body: "map (\<lambda>(c, la, lo, al). case marker_color_flt (Fin (Min (set rs))) (Fin (Max (set rs))) c of
                                        Inl e \<Rightarrow> Inl e | Inr col \<Rightarrow> circle_marker (la, lo) col)
                  (zip (map fst rows) LF) =
              map (\<lambda>x. case f x of Inl e \<Rightarrow> Inl e | Inr v \<Rightarrow> Inr (g x v)) (zip (map fst rows) LF)"
  proof (rule map_cong [OF refl])
    fix x assume "x \<in> set (zip (map fst rows) LF)"
    then obtain c la lo al where x: "x = (c, la, lo, al)" "c \<in> set (map fst rows)" "(la, lo, al) \<in> set LF"
      by (metis prod.exhaust set_zip_leftD set_zip_rightD)
    then have "is_num c" using num by (auto simp add: list_all_iff)
    moreover have "\<not> is_nan la \<and> \<not> is_nan lo" using x(3) by (auto simp add: LF_def)
    ultimately show "(\<lambda>(c, la, lo, al). case marker_color_flt (Fin (Min (set rs))) (Fin (Max (set rs))) c of
                                        Inl e \<Rightarrow> Inl e | Inr col \<Rightarrow> circle_marker (la, lo) col) x =
                     (case f x of Inl e \<Rightarrow> Inl e | Inr v \<Rightarrow> Inr (g x v))"
      by (cases c) (simp_all add: x f_def g_def marker_color_flt_def circle_marker_eq is_num_def cell_val_def
          split: sum.split)
  qed
  have fmap: "map f (zip (map fst rows) LF) = map (marker_color (Min (set rs)) (Max (set rs))) rs"
  proof -
    have "map f (zip (map fst rows) LF) = map (\<lambda>c. marker_color (Min (set rs)) (Max (set rs)) (cell_val c))
           (map fst (zip (map fst rows) LF))"
      by (simp add: f_def case_prod_beta comp_def)
    then show ?thesis using lenL by (simp add: rs_def comp_def case_prod_beta)
  qed
  have gmap: "map2 g (zip (map fst rows) LF) cs = map2 (\<lambda>(la, lo, al) c. CircleMarker (Fin la, Fin lo) c) L cs" for cs
  proof -
    have "map2 g (zip (map fst rows) LF) cs = map2 (\<lambda>(la, lo, al) col. CircleMarker (la, lo) col) LF cs"
      unfolding g_def using lenL map2_zip_snd [of "map fst rows" LF "\<lambda>(la, lo, al) col. CircleMarker (la, lo) col"]
      by (simp add: case_prod_beta)
    also have "\<dots> = map2 (\<lambda>(la, lo, al) c. CircleMarker (Fin la, Fin lo) c) L cs"
      unfolding LF_def by (simp add: zip_map1 case_prod_beta comp_def)
    finally show ?thesis .
  qed
  have pc: "point_colors rs = seq_res (map (marker_color (Min (set rs)) (Max (set rs))) rs)"
    using rsne by (simp add: point_colors_def Let_def)
  show ?thesis
    unfolding point_map_script_def lla sum.case cen folium_map_eq ext
    by (simp add: body seq_res_map_bind fmap gmap pc [symmetric] foldl_add_to L_def [symmetric] rs_def [symmetric]
        split: sum.split)
qed

theorem point_map_script_numeric_witness:
  "point_map_script [(Num (-60), Num 6378137, Num 0, Num 0), (Num (-80), Num 6378137, Num 0, Num 0)] =
     Inr (''gps_signal_map.html'',
          \<lparr>location = (Fin 0, Fin 0), zoom_start = 17, tiles = ''OpenStreetMap'',
           children = [CircleMarker (Fin 0, Fin 0) ''#00ff00'', CircleMarker (Fin 0, Fin 0) ''#ff0000'']\<rparr>)"
proof -
  have e: "ecef_to_lla 6378137 0 0 = (0, 0, 0)"
    using ecef_to_lla_equator [of 6378137 0] by (simp add: wgs_a_def wgs_e_sq_def rad2deg_def)
  have c: "point_colors [-60, -80] = Inr [''#00ff00'', ''#ff0000'']"
    by (simp add: point_colors_def marker_color_def np_fdiv_def fmt_02x_def hex_digits.simps
        hex_char_def hex_alphabet_def)
  show ?thesis
    using point_map_script_numeric [of "[(Num (-60), Num 6378137, Num 0, Num 0), (Num (-80), Num 6378137, Num 0, Num 0)]"]
    by (simp add: is_num_def cell_val_def e c mean_def)
qed

end
