(* ===== verification/RadialScripts.thy ===== *)
theory RadialScripts
  imports Geodesy Heatmaps
begin

text \<open>
  The scripts \<^verbatim>\<open>signal-over-distance.py\<close> and \<^verbatim>\<open>signal-over-line.py\<close> from the
  frame to the data they plot: the \<open>distance_m\<close> and \<open>bearing_deg\<close> columns built with
  \<open>df.apply\<close> over every row, the radial slice of the line script and the count it
  prints. The rows are the \<open>(rssi, lat, lon)\<close> fields of the frame, classified as in
  \<open>Loader\<close>. A text coordinate makes \<open>math.radians\<close> (or the subtraction before it)
  raise TypeError; a missing coordinate is NaN, which \<open>math.sin\<close>, \<open>math.sqrt\<close> and
  \<open>math.atan2\<close> propagate without raising, so that row gets a NaN distance and
  bearing, and a NaN bearing fails the slice's comparison. matplotlib itself is not
  modelled: the model's result is what the scripts hand to \<open>plt.scatter\<close>.

  The theorems give both scripts completely: they fail with TypeError exactly when
  some coordinate is text; otherwise the distance script plots every row, at its
  haversine distance or at NaN when a coordinate is missing, and the line script plots
  and counts exactly the rows with both coordinates whose bearing from the base lies in
  \<open>[178, 182]\<close> degrees, in file order.
\<close>

section \<open>Definitions\<close>

text \<open>
  One coordinate field as \<open>math.radians\<close> receives it: a number, NaN for a missing
  field, and TypeError on text.
\<close>

fun geo_coord :: "cell \<Rightarrow> real option result" where
  "geo_coord (Num v) = Inr (Some v)"
| "geo_coord NA = Inr None"
| "geo_coord (Txt _) = Inl TypeError"

text \<open>
  The arguments \<open>row["lat"], row["lon"]\<close> of \<^verbatim>\<open>haversine\<close> and \<^verbatim>\<open>bearing\<close>:
  \<open>radians(lat2)\<close> is taken first, then \<open>radians(lon2 - lon1)\<close>; None when one of them
  is NaN.
\<close>

definition row_coords :: "cell \<times> cell \<times> cell \<Rightarrow> (real \<times> real) option result" where
  "row_coords row =
     (case row of (r, la, lo) \<Rightarrow>
        (case geo_coord la of
           Inl e \<Rightarrow> Inl e
         | Inr a \<Rightarrow>
             (case geo_coord lo of
                Inl e \<Rightarrow> Inl e
              | Inr b \<Rightarrow> Inr (case (a, b) of (Some x, Some y) \<Rightarrow> Some (x, y) | _ \<Rightarrow> None))))"

text \<open>
  \<^verbatim>\<open>signal-over-distance.py\<close> lines 38-39 (and line 56 of the line script) on one row:
  \<open>haversine(BASE_LAT, BASE_LON, lat, lon)\<close>, NaN on a missing coordinate.
\<close>

definition row_distance :: "cell \<times> cell \<times> cell \<Rightarrow> flt result" where
  "row_distance row =
     (case row_coords row of
        Inl e \<Rightarrow> Inl e
      | Inr None \<Rightarrow> Inr NaN
      | Inr (Some (la, lo)) \<Rightarrow>
          (case haversine base_lat base_lon la lo of Inl e \<Rightarrow> Inl e | Inr d \<Rightarrow> Inr (Fin d)))"

text \<open>\<^verbatim>\<open>signal-over-line.py\<close> lines 59-60 on one row.\<close>

definition row_bearing :: "cell \<times> cell \<times> cell \<Rightarrow> flt result" where
  "row_bearing row =
     (case row_coords row of
        Inl e \<Rightarrow> Inl e
      | Inr None \<Rightarrow> Inr NaN
      | Inr (Some (la, lo)) \<Rightarrow> Inr (Fin (bearing base_lat base_lon la lo)))"

text \<open>
  \<^verbatim>\<open>signal-over-distance.py\<close> lines 33-45: the distance column, then the points
  \<open>(distance_m, rssi)\<close> of the scatter plot, one per row.
\<close>

definition distance_script :: "frame \<Rightarrow> (flt \<times> cell) list result" where
  "distance_script df =
     (case seq_res (map row_distance df) of
        Inl e \<Rightarrow> Inl e
      | Inr ds \<Rightarrow> Inr (zip ds (map fst df)))"

text \<open>
  The slice test of lines 70-71, \<open>angle_diff(b, 180) <= 2\<close>, on a column value: a
  comparison with NaN is False.
\<close>

fun in_line_slice :: "flt \<Rightarrow> bool" where
  "in_line_slice (Fin b) = (angle_diff b 180 \<le> 2)"
| "in_line_slice _ = False"

text \<open>
  \<^verbatim>\<open>signal-over-line.py\<close> lines 50-86: the distance column, the bearing column, the
  rows of the slice, whose points \<open>(distance_m, rssi)\<close> are plotted, and the number of
  points printed at the end.
\<close>

definition line_script :: "frame \<Rightarrow> ((flt \<times> cell) list \<times> nat) result" where
  "line_script df =
     (case seq_res (map row_distance df) of
        Inl e \<Rightarrow> Inl e
      | Inr ds \<Rightarrow>
          (case seq_res (map row_bearing df) of
             Inl e \<Rightarrow> Inl e
           | Inr bs \<Rightarrow>
               (let sl = map fst (filter (\<lambda>(p, b). in_line_slice b) (zip (zip ds (map fst df)) bs))
                in Inr (sl, length sl))))"

section \<open>Lemmas\<close>

text \<open>A row raises exactly when one of its coordinates is text.\<close>

definition txt_coord :: "cell \<times> cell \<times> cell \<Rightarrow> bool" where
  "txt_coord row = (case row of (r, la, lo) \<Rightarrow> is_txt la \<or> is_txt lo)"

fun num_coords :: "cell \<times> cell \<times> cell \<Rightarrow> (real \<times> real) option" where
  "num_coords (r, Num a, Num b) = Some (a, b)"
| "num_coords _ = None"

lemma row_coords_eq: "row_coords row = (if txt_coord row then Inl TypeError else Inr (num_coords row))"
proof -
  obtain r la lo where row: "row = (r, la, lo)" by (cases row)
  show ?thesis by (cases la; cases lo) (simp_all add: row row_coords_def txt_coord_def is_txt_def)
qed

lemma row_distance_eq:
  "row_distance row =
     (if txt_coord row then Inl TypeError
      else Inr (case num_coords row of None \<Rightarrow> NaN | Some (a, b) \<Rightarrow> Fin (hav_dist base_lat base_lon a b)))"
  by (simp add: row_distance_def row_coords_eq haversine_eq hav_dist_def split: option.split)

lemma row_bearing_eq:
  "row_bearing row =
     (if txt_coord row then Inl TypeError
      else Inr (case num_coords row of None \<Rightarrow> NaN | Some (a, b) \<Rightarrow> Fin (bearing base_lat base_lon a b)))"
  by (simp add: row_bearing_def row_coords_eq split: option.split)

lemma map_row_distance:
  "seq_res (map row_distance df) =
     (if list_ex txt_coord df then Inl TypeError
      else Inr (map (\<lambda>row. case num_coords row of None \<Rightarrow> NaN
                                | Some (a, b) \<Rightarrow> Fin (hav_dist base_lat base_lon a b)) df))"
  unfolding row_distance_eq by (rule seq_res_map_guard)

lemma map_row_bearing:
  "seq_res (map row_bearing df) =
     (if list_ex txt_coord df then Inl TypeError
      else Inr (map (\<lambda>row. case num_coords row of None \<Rightarrow> NaN
                                | Some (a, b) \<Rightarrow> Fin (bearing base_lat base_lon a b)) df))"
  unfolding row_bearing_eq by (rule seq_res_map_guard)

lemma bearing_range: "0 \<le> bearing lat1 lon1 lat2 lon2 \<and> bearing lat1 lon1 lat2 lon2 < 360"
  using bearing_norm_bounds by (simp add: bearing_def Let_def)

lemma angle_diff_bearing:
  "angle_diff (bearing base_lat base_lon a b) 180 \<le> 2 \<longleftrightarrow>
     178 \<le> bearing base_lat base_lon a b \<and> bearing base_lat base_lon a b \<le> 182"
  using bearing_range [of base_lat base_lon a b] angle_diff_180 by auto

lemma line_rows:
  assumes "\<not> list_ex txt_coord df"
  shows "map fst (filter (\<lambda>(p, b). in_line_slice b)
           (zip (zip (map (\<lambda>row. case num_coords row of None \<Rightarrow> NaN
                                     | Some (a, b) \<Rightarrow> Fin (hav_dist base_lat base_lon a b)) df) (map fst df))
                (map (\<lambda>row. case num_coords row of None \<Rightarrow> NaN
                                | Some (a, b) \<Rightarrow> Fin (bearing base_lat base_lon a b)) df))) =
         [(Fin (hav_dist base_lat base_lon a b), r). (r, Num a, Num b) \<leftarrow> df,
            178 \<le> bearing base_lat base_lon a b \<and> bearing base_lat base_lon a b \<le> 182]"
  using assms
proof (induction df)
  case Nil
  then show ?case by simp
next
  case (Cons row df)
  obtain r la lo where row: "row = (r, la, lo)" by (cases row)
  show ?case
    using Cons by (cases la; cases lo) (simp_all add: row angle_diff_bearing txt_coord_def is_txt_def)
qed

section \<open>Properties\<close>

text \<open>
  \<^verbatim>\<open>signal-over-distance.py\<close> fails with TypeError exactly when some
  row has a text \<open>lat\<close> or \<open>lon\<close>; otherwise it plots one point per row, in file
  order, with the row's RSSI field and, as distance, the haversine distance from the
  base station when both coordinates are numbers and NaN when one is missing.
\<close>

theorem distance_script_eq:
  "distance_script df =
     (if list_ex (\<lambda>(r, la, lo). is_txt la \<or> is_txt lo) df then Inl TypeError
      else Inr (map (\<lambda>(r, la, lo). (case (la, lo) of
                                        (Num a, Num b) \<Rightarrow> Fin (hav_dist base_lat base_lon a b)
                                      | _ \<Rightarrow> NaN, r)) df))"
proof -
  have "(\<lambda>(r, la, lo). is_txt la \<or> is_txt lo) = txt_coord" by (auto simp add: txt_coord_def)
  moreover have "zip (map (\<lambda>row. case num_coords row of None \<Rightarrow> NaN
                                 | Some (a, b) \<Rightarrow> Fin (hav_dist base_lat base_lon a b)) df) (map fst df) =
                 map (\<lambda>(r, la, lo). (case (la, lo) of
                                        (Num a, Num b) \<Rightarrow> Fin (hav_dist base_lat base_lon a b)
                                      | _ \<Rightarrow> NaN, r)) df"
  proof (induction df)
    case (Cons row df)
    obtain r la lo where row: "row = (r, la, lo)" by (cases row)
    show ?case using Cons by (cases la; cases lo) (simp_all add: row)
  qed simp
  ultimately show ?thesis by (simp add: distance_script_def map_row_distance)
qed

text \<open>
  C37 [line_script]: \<^verbatim>\<open>signal-over-line.py\<close> fails with TypeError exactly when some row
  has a text \<open>lat\<close> or \<open>lon\<close>; otherwise it plots, in file order, exactly the rows with
  both coordinates whose bearing from the base station lies in \<open>[178, 182]\<close> degrees,
  each at its haversine distance, and prints their number. Rows with a missing
  coordinate are dropped without a message.
\<close>

theorem line_script_slice:
  "line_script df =
     (if list_ex (\<lambda>(r, la, lo). is_txt la \<or> is_txt lo) df then Inl TypeError
      else (let sl = [(Fin (hav_dist base_lat base_lon a b), r). (r, Num a, Num b) \<leftarrow> df,
                       178 \<le> bearing base_lat base_lon a b \<and> bearing base_lat base_lon a b \<le> 182]
            in Inr (sl, length sl)))"
proof -
  have "(\<lambda>(r, la, lo). is_txt la \<or> is_txt lo) = txt_coord" by (auto simp add: txt_coord_def)
  then show ?thesis
    by (simp add: line_script_def map_row_distance map_row_bearing line_rows Let_def)
qed

end
