(* ===== verification/Compass.thy ===== *)
theory Compass
  imports RadialScripts
begin

text \<open>
  \<^verbatim>\<open>signal-over-compass.py\<close> from the frame to the profiles it plots (lines 59-110):
  the \<open>distance_m\<close> and \<open>bearing_deg\<close> columns (the same per-row computation as in
  \<open>RadialScripts\<close>: TypeError on a text coordinate, NaN for a missing one), then for each
  5-degree heading the slice of the rows within 2.5 degrees, skipped below three rows,
  sorted by distance with \<open>sort_values\<close>, and smoothed by \<open>savgol_filter\<close>, which
  converts the RSSI values to float64 (ValueError on text) and checks the window. A
  plotted profile is modelled by its heading and its distances in plotting order; the
  smoothed RSSI values are scipy's and are not computed. pandas sorts with quicksort,
  which does not keep the order of equal distances, so the order of the RSSI values
  along a profile is not determined by the code; the distances are.

  The theorems show that the script fails with TypeError exactly on a text coordinate
  and otherwise with ValueError exactly when some slice of at least three rows has
  fewer than five rows or a text reading; that on text-free frames its profiles are
  the stacked profiles of \<open>Radial\<close> over the rows with both coordinates, so the crash
  of three- and four-row slices is the one shown there; and that every plotted profile
  has at least five points at finite, ascending distances within half the Earth's
  circumference.
\<close>

section \<open>Definitions\<close>

text \<open>
  \<open>Series.sort_values()\<close> of a float column, as the values it yields: ascending, with
  NaN last (\<open>na_position='last'\<close>).
\<close>

definition sort_flt :: "flt list \<Rightarrow> flt list" where
  "sort_flt ds =
     filter (\<lambda>d. d = NInf) ds @ map Fin (sort (List.map_filter fin_val ds)) @
     filter (\<lambda>d. d = PInf) ds @ filter (\<lambda>d. d = NaN) ds"

text \<open>The slice test of lines 82-84 on a bearing value: a comparison with NaN is False.\<close>

fun in_compass_slice :: "real \<Rightarrow> flt \<Rightarrow> bool" where
  "in_compass_slice a (Fin b) = (angle_diff b a \<le> 5 / 2)"
| "in_compass_slice a _ = False"

text \<open>
  One iteration of lines 81-110 over the rows \<open>(distance_m, bearing_deg, rssi)\<close>: None
  for a slice of fewer than three rows (\<open>continue\<close>), else the heading and the sorted
  distances of the plotted line, or the exception of \<open>savgol_filter\<close>: the float64
  conversion of the RSSI values first, then the window checks.
\<close>

definition compass_step :: "(flt \<times> flt \<times> cell) list \<Rightarrow> real \<Rightarrow> (real \<times> flt list) option result" where
  "compass_step rows a =
     (let s = filter (\<lambda>(d, b, r). in_compass_slice a b) rows in
      if length s < 3 then Inr None
      else
        (let distances = sort_flt (map fst s) in
         if list_ex (\<lambda>(d, b, r). is_txt r) s then Inl ValueError
         else case savgol_check (length s) (savgol_window (length s)) 3 of
                Inl e \<Rightarrow> Inl e
              | Inr _ \<Rightarrow> Inr (Some (a, distances))))"

text \<open>
  Lines 59-110: the two columns, then the loop over \<open>angle_bins\<close>; the first exception
  ends the script, and the plotted profiles are those of the iterations that did not
  \<open>continue\<close>.
\<close>

definition compass_script :: "frame \<Rightarrow> (real \<times> flt list) list result" where
  "compass_script df =
     (case seq_res (map row_distance df) of
        Inl e \<Rightarrow> Inl e
      | Inr ds \<Rightarrow>
          (case seq_res (map row_bearing df) of
             Inl e \<Rightarrow> Inl e
           | Inr bs \<Rightarrow>
               (case seq_res (map (compass_step (zip ds (zip bs (map fst df)))) angle_bins) of
                  Inl e \<Rightarrow> Inl e
                | Inr ps \<Rightarrow> Inr ([q. Some q \<leftarrow> ps]))))"

text \<open>
  The rows of \<open>Radial\<close>'s profile model: one point per row with both coordinates. The
  profile loop reads only the bearings and distances, so the RSSI field is carried as
  \<open>cell_val\<close>.
\<close>

definition compass_points :: "frame \<Rightarrow> point list" where
  "compass_points df =
     [\<lparr>bearing_deg = bearing base_lat base_lon x y, distance_m = hav_dist base_lat base_lon x y,
       p_rssi = cell_val r\<rparr>. (r, Num x, Num y) \<leftarrow> df]"

section \<open>Lemmas\<close>

text \<open>The compass rows of a frame without text coordinates, as a list comprehension.\<close>

definition frame_rows :: "frame \<Rightarrow> (flt \<times> flt \<times> cell) list" where
  "frame_rows df =
     zip (map (\<lambda>row. case num_coords row of None \<Rightarrow> NaN
                        | Some (a, b) \<Rightarrow> Fin (hav_dist base_lat base_lon a b)) df)
         (zip (map (\<lambda>row. case num_coords row of None \<Rightarrow> NaN
                             | Some (a, b) \<Rightarrow> Fin (bearing base_lat base_lon a b)) df) (map fst df))"

text \<open>The sizes of the plotted profiles, the abstraction under which the script's loop is
  \<open>Radial\<close>'s.\<close>

definition profile_sizes :: "(real \<times> flt list) list result \<Rightarrow> (real \<times> nat) list result" where
  "profile_sizes r = (case r of Inl e \<Rightarrow> Inl e | Inr ps \<Rightarrow> Inr (map (\<lambda>(a, ds). (a, length ds)) ps))"

definition step_sizes :: "(real \<times> flt list) option result \<Rightarrow> (real \<times> nat) option result" where
  "step_sizes r = (case r of Inl e \<Rightarrow> Inl e | Inr None \<Rightarrow> Inr None | Inr (Some (a, ds)) \<Rightarrow> Inr (Some (a, length ds)))"

definition profile_step_at :: "real \<Rightarrow> nat option result \<Rightarrow> (real \<times> nat) option result" where
  "profile_step_at a r = (case r of Inl e \<Rightarrow> Inl e | Inr None \<Rightarrow> Inr None | Inr (Some n) \<Rightarrow> Inr (Some (a, n)))"


lemma sort_flt_Fin [simp]: "sort_flt (map Fin xs) = map Fin (sort xs)"
proof -
  have "List.map_filter fin_val (map Fin xs) = xs" by (induction xs) (simp_all add: List.map_filter_simps)
  then show ?thesis by (simp add: sort_flt_def filter_map o_def)
qed

lemma length_sort_flt [simp]: "length (sort_flt ds) = length ds"
proof (induction ds)
  case Nil
  then show ?case by (simp add: sort_flt_def List.map_filter_simps)
next
  case (Cons d ds)
  then show ?case by (cases d) (simp_all add: sort_flt_def List.map_filter_simps)
qed

lemma compass_script_rows:
  "compass_script df =
     (if list_ex txt_coord df then Inl TypeError
      else case seq_res (map (compass_step (frame_rows df)) angle_bins) of
             Inl e \<Rightarrow> Inl e
           | Inr ps \<Rightarrow> Inr ([q. Some q \<leftarrow> ps]))"
  by (simp add: compass_script_def map_row_distance map_row_bearing frame_rows_def)

lemma slice_frame_rows:
  "filter (\<lambda>(d, b, r). in_compass_slice a b) (frame_rows df) =
     [(Fin (hav_dist base_lat base_lon x y), Fin (bearing base_lat base_lon x y), r).
        (r, Num x, Num y) \<leftarrow> df, angle_diff (bearing base_lat base_lon x y) a \<le> 5 / 2]"
proof (induction df)
  case Nil
  then show ?case by (simp add: frame_rows_def)
next
  case (Cons row df)
  obtain r la lo where row: "row = (r, la, lo)" by (cases row)
  show ?case using Cons by (cases la; cases lo) (simp_all add: row frame_rows_def)
qed

lemma slice_compass_points:
  "slice a (5 / 2) (compass_points df) =
     [\<lparr>bearing_deg = bearing base_lat base_lon x y, distance_m = hav_dist base_lat base_lon x y,
       p_rssi = cell_val r\<rparr>. (r, Num x, Num y) \<leftarrow> df, angle_diff (bearing base_lat base_lon x y) a \<le> 5 / 2]"
proof (induction df)
  case Nil
  then show ?case by (simp add: compass_points_def slice_def)
next
  case (Cons row df)
  obtain r la lo where row: "row = (r, la, lo)" by (cases row)
  show ?case using Cons by (cases la; cases lo) (simp_all add: row compass_points_def slice_def)
qed

lemma length_slice_frame_rows:
  "length (filter (\<lambda>(d, b, r). in_compass_slice a b) (frame_rows df)) =
     length (slice a (5 / 2) (compass_points df))"
proof (induction df)
  case Nil
  then show ?case by (simp add: frame_rows_def compass_points_def slice_def)
next
  case (Cons row df)
  obtain r la lo where row: "row = (r, la, lo)" by (cases row)
  show ?case using Cons
    by (cases la; cases lo) (simp_all add: row frame_rows_def compass_points_def slice_def)
qed

lemma txt_rssi_frame_rows:
  "list_ex (\<lambda>(d, b, r). is_txt r) (filter P (frame_rows df)) \<Longrightarrow> list_ex (\<lambda>(r, la, lo). is_txt r) df"
  by (induction df) (auto simp add: frame_rows_def split: if_splits)

text \<open>The loop of lines 81-110 as a recursion over the headings.\<close>

lemma compass_loop_Cons:
  "(case seq_res (map step (a # as)) of Inl e \<Rightarrow> Inl e | Inr ps \<Rightarrow> Inr ([q. Some q \<leftarrow> ps])) =
     (case step a of
        Inl e \<Rightarrow> Inl e
      | Inr None \<Rightarrow> (case seq_res (map step as) of Inl e \<Rightarrow> Inl e | Inr ps \<Rightarrow> Inr ([q. Some q \<leftarrow> ps]))
      | Inr (Some p) \<Rightarrow>
          (case seq_res (map step as) of Inl e \<Rightarrow> Inl e | Inr ps \<Rightarrow> Inr (p # [q. Some q \<leftarrow> ps])))"
  by (simp add: List.map_filter_simps split: sum.split option.split)

lemma compass_loop_profiles:
  assumes "\<And>a. a \<in> set as \<Longrightarrow> step_sizes (step a) = profile_step_at a (profile_step pts a)"
  shows "profile_sizes (case seq_res (map step as) of Inl e \<Rightarrow> Inl e | Inr ps \<Rightarrow> Inr [q. Some q \<leftarrow> ps]) =
         profiles pts as"
  using assms
proof (induction as)
  case Nil
  then show ?case by (simp add: profile_sizes_def)
next
  case (Cons a as)
  have IH: "profile_sizes (case seq_res (map step as) of Inl e \<Rightarrow> Inl e | Inr ps \<Rightarrow> Inr [q. Some q \<leftarrow> ps]) =
      profiles pts as" using Cons by simp
  have st: "step_sizes (step a) = profile_step_at a (profile_step pts a)" by (rule Cons.prems) simp
  show ?case
    using IH st unfolding compass_loop_Cons
    by (cases "step a"; cases "profile_step pts a")
       (auto simp add: profile_sizes_def step_sizes_def profile_step_at_def split: option.splits sum.splits)
qed

lemma compass_step_profile:
  assumes "\<not> list_ex (\<lambda>(r, la, lo). is_txt r) df"
  shows "step_sizes (compass_step (frame_rows df) a) = profile_step_at a (profile_step (compass_points df) a)"
proof -
  have t: "\<not> list_ex (\<lambda>(d, b, r). is_txt r) (filter (\<lambda>(d, b, r). in_compass_slice a b) (frame_rows df))"
    using assms txt_rssi_frame_rows by blast
  show ?thesis
    using t length_slice_frame_rows [of a df]
    by (simp add: compass_step_def profile_step_def Let_def step_sizes_def profile_step_at_def split: sum.split)
qed

lemma compass_step_Some:
  assumes "compass_step rows a = Inr (Some p)"
  shows "p = (a, sort_flt (map fst (filter (\<lambda>(d, b, r). in_compass_slice a b) rows))) \<and>
         5 \<le> length (filter (\<lambda>(d, b, r). in_compass_slice a b) rows)"
proof -
  define S where "S = filter (\<lambda>(d, b, r). in_compass_slice a b) rows"
  have st: "compass_step rows a =
      (if length S < 3 then Inr None
       else if list_ex (\<lambda>(d, b, r). is_txt r) S then Inl ValueError
       else case savgol_check (length S) (savgol_window (length S)) 3 of
              Inl e \<Rightarrow> Inl e | Inr _ \<Rightarrow> Inr (Some (a, sort_flt (map fst S))))"
    unfolding compass_step_def S_def Let_def by simp
  consider "length S < 3" | "length S = 3" | "length S = 4" | "5 \<le> length S" by linarith
  then show ?thesis
  proof cases
    case 4
    then show ?thesis using assms by (simp add: st S_def [symmetric] split: if_splits sum.splits)
  qed (use assms in \<open>simp_all add: st savgol_check_def savgol_window_small split: if_splits\<close>)
qed

lemma compass_loop_shape:
  "seq_res (map (compass_step rows) as) = Inr ps \<Longrightarrow>
     list_all (\<lambda>(a, ds). a \<in> set as \<and> 5 \<le> length ds \<and>
        ds = sort_flt (map fst (filter (\<lambda>(d, b, r). in_compass_slice a b) rows))) ([q. Some q \<leftarrow> ps]) \<and>
     (sorted_wrt (<) as \<longrightarrow> sorted_wrt (<) (map fst ([q. Some q \<leftarrow> ps])))"
proof (induction as arbitrary: ps)
  case Nil
  then show ?case by (simp add: List.map_filter_simps)
next
  case (Cons a as)
  obtain o1 ps' where ps: "ps = o1 # ps'" "compass_step rows a = Inr o1"
      "seq_res (map (compass_step rows) as) = Inr ps'"
    using Cons.prems by (auto split: sum.splits)
  note IH = Cons.IH [OF ps(3)]
  show ?case
  proof (cases o1)
    case None
    then show ?thesis using IH ps by (auto simp add: List.map_filter_simps list_all_iff)
  next
    case (Some p)
    then have p: "p = (a, sort_flt (map fst (filter (\<lambda>(d, b, r). in_compass_slice a b) rows)))"
      "5 \<le> length (filter (\<lambda>(d, b, r). in_compass_slice a b) rows)"
      using ps(2) compass_step_Some by blast+
    have hs: "\<forall>x \<in> set (map fst ([q. Some q \<leftarrow> ps'])). x \<in> set as"
      using IH by (auto simp add: list_all_iff)
    show ?thesis using IH ps Some p hs by (auto simp add: List.map_filter_simps list_all_iff)
  qed
qed

lemma compass_step_Inl:
  "compass_step rows a = Inl e \<longleftrightarrow>
     e = ValueError \<and>
     (let S = filter (\<lambda>(d, b, r). in_compass_slice a b) rows in
      3 \<le> length S \<and> (length S < 5 \<or> list_ex (\<lambda>(d, b, r). is_txt r) S))"
proof -
  define S where "S = filter (\<lambda>(d, b, r). in_compass_slice a b) rows"
  have st: "compass_step rows a =
      (if length S < 3 then Inr None
       else if list_ex (\<lambda>(d, b, r). is_txt r) S then Inl ValueError
       else case savgol_check (length S) (savgol_window (length S)) 3 of
              Inl e \<Rightarrow> Inl e | Inr _ \<Rightarrow> Inr (Some (a, sort_flt (map fst S))))"
    unfolding compass_step_def S_def Let_def by simp
  consider "length S < 3" | "length S = 3" | "length S = 4" | "5 \<le> length S" by linarith
  then show ?thesis
  proof cases
    case 4
    then have "savgol_check (length S) (savgol_window (length S)) 3 = Inr ()"
      using savgol_window_large [OF 4] by (simp add: savgol_check_def)
    with 4 show ?thesis by (auto simp add: st S_def [symmetric] Let_def)
  qed (auto simp add: st S_def [symmetric] Let_def savgol_check_def savgol_window_small)
qed

lemma rssi_frame_rows:
  "map (\<lambda>(d, b, r). r) (filter (\<lambda>(d, b, r). in_compass_slice a b) (frame_rows df)) =
     [r. (r, Num x, Num y) \<leftarrow> df, angle_diff (bearing base_lat base_lon x y) a \<le> 5 / 2]"
proof (induction df)
  case Nil
  then show ?case by (simp add: frame_rows_def)
next
  case (Cons row df)
  obtain r la lo where row: "row = (r, la, lo)" by (cases row)
  show ?case using Cons by (cases la; cases lo) (simp_all add: row frame_rows_def)
qed

lemma compass_step_isl:
  "isl (compass_step (frame_rows df) a) \<longleftrightarrow>
     (let s = [r. (r, Num x, Num y) \<leftarrow> df, angle_diff (bearing base_lat base_lon x y) a \<le> 5 / 2]
      in 3 \<le> length s \<and> (length s < 5 \<or> list_ex is_txt s))"
proof -
  define S where "S = filter (\<lambda>(d, b, r). in_compass_slice a b) (frame_rows df)"
  have R: "map (\<lambda>(d, b, r). r) S =
      [r. (r, Num x, Num y) \<leftarrow> df, angle_diff (bearing base_lat base_lon x y) a \<le> 5 / 2]"
    unfolding S_def by (rule rssi_frame_rows)
  have "length (map (\<lambda>(d, b, r). r) S) = length S" by simp
  moreover have "list_ex is_txt (map (\<lambda>(d, b, r). r) S) \<longleftrightarrow> list_ex (\<lambda>(d, b, r). is_txt r) S"
    by (simp add: list_ex_iff split_def)
  moreover have "isl (compass_step (frame_rows df) a) \<longleftrightarrow> (\<exists>e. compass_step (frame_rows df) a = Inl e)"
    by (cases "compass_step (frame_rows df) a") simp_all
  ultimately show ?thesis
    by (simp only: compass_step_Inl R [symmetric] S_def [symmetric] Let_def) blast
qed

lemma compass_script_empty: "compass_script [] = Inr []"
proof -
  have m: "map (compass_step []) angle_bins = map (\<lambda>a. Inr None) angle_bins"
    by (simp add: compass_step_def)
  have "seq_res (map (compass_step []) angle_bins) = Inr (map (\<lambda>a. None) angle_bins)"
    unfolding m by (rule seq_res_map_Inr)
  then show ?thesis by (simp add: compass_script_def)
qed

section \<open>Properties\<close>

text \<open>
  C31 [compass_error]: \<^verbatim>\<open>signal-over-compass.py\<close> fails with TypeError exactly when some
  row has a text \<open>lat\<close> or \<open>lon\<close>; otherwise it fails, with ValueError from
  \<open>savgol_filter\<close>, exactly when for some 5-degree heading the rows with both
  coordinates within 2.5 degrees of it number at least three (so the slice is not
  skipped) and either fewer than five (the window of 5 exceeds the slice) or include a
  text reading (the float64 conversion fails).
\<close>

theorem compass_script_error:
  "compass_script df = Inl e \<longleftrightarrow>
     (if list_ex (\<lambda>(r, la, lo). is_txt la \<or> is_txt lo) df then e = TypeError
      else e = ValueError \<and>
        list_ex (\<lambda>a. let s = [r. (r, Num x, Num y) \<leftarrow> df, angle_diff (bearing base_lat base_lon x y) a \<le> 5 / 2]
                     in 3 \<le> length s \<and> (length s < 5 \<or> list_ex is_txt s)) angle_bins)"
proof -
  have tc: "(\<lambda>(r, la, lo). is_txt la \<or> is_txt lo) = txt_coord" by (auto simp add: txt_coord_def)
  have u: "\<And>a e'. compass_step (frame_rows df) a = Inl e' \<Longrightarrow> e' = ValueError"
    using compass_step_Inl by blast
  show ?thesis
  proof (cases "list_ex txt_coord df")
    case True
    then show ?thesis by (auto simp add: tc compass_script_rows)
  next
    case False
    then have "compass_script df = Inl e \<longleftrightarrow>
        seq_res (map (compass_step (frame_rows df)) angle_bins) = Inl e"
      by (simp add: compass_script_rows split: sum.split)
    also have "\<dots> \<longleftrightarrow> e = ValueError \<and> list_ex (\<lambda>a. isl (compass_step (frame_rows df) a)) angle_bins"
      by (rule seq_res_map_Inl_uniform [OF u])
    finally show ?thesis using False by (simp add: tc compass_step_isl)
  qed
qed



text \<open>
  C33 [compass_sorted]: Every profile the compass script plots belongs to one of the
  headings \<open>0, 5, ..., 355\<close>, in increasing order, has at least five points, and its
  distances are finite, ascending and within half the Earth's circumference.
\<close>

theorem compass_script_sorted:
  assumes "compass_script df = Inr ps"
  shows "sorted_wrt (<) (map fst ps) \<and>
         list_all (\<lambda>(a, ds). a \<in> set angle_bins \<and> 5 \<le> length ds \<and>
           (\<exists>xs. ds = map Fin xs \<and> sorted xs \<and> list_all (\<lambda>x. 0 \<le> x \<and> x \<le> pi * earth_r) xs)) ps"
proof -
  obtain ps0 where nt: "\<not> list_ex txt_coord df"
      and ps0: "seq_res (map (compass_step (frame_rows df)) angle_bins) = Inr ps0"
      and ps: "ps = [q. Some q \<leftarrow> ps0]"
    using assms by (auto simp add: compass_script_rows split: if_splits sum.splits)
  have bins: "sorted_wrt (<) angle_bins"
    by (simp add: angle_bins_def sorted_wrt_map sorted_wrt_upt)
  have shape: "list_all (\<lambda>(a, ds). a \<in> set angle_bins \<and> 5 \<le> length ds \<and>
        ds = sort_flt (map fst (filter (\<lambda>(d, b, r). in_compass_slice a b) (frame_rows df)))) ps"
    "sorted_wrt (<) (map fst ps)"
    using compass_loop_shape [OF ps0] bins ps by simp_all
  define L where "L a = [hav_dist base_lat base_lon x y. (r, Num x, Num y) \<leftarrow> df,
               angle_diff (bearing base_lat base_lon x y) a \<le> 5 / 2]" for a
  have dist: "map fst (filter (\<lambda>(d, b, r). in_compass_slice a b) (frame_rows df)) = map Fin (L a)" for a
    unfolding slice_frame_rows L_def by (induction df) (auto split: cell.split)
  have each: "a \<in> set angle_bins \<and> 5 \<le> length ds \<and>
      (\<exists>xs. ds = map Fin xs \<and> sorted xs \<and> list_all (\<lambda>x. 0 \<le> x \<and> x \<le> pi * earth_r) xs)"
    if "(a, ds) \<in> set ps" for a ds
  proof -
    have h: "a \<in> set angle_bins" "5 \<le> length ds" "ds = map Fin (sort (L a))"
      using shape(1) that by (auto simp add: list_all_iff dist)
    have "list_all (\<lambda>x. 0 \<le> x \<and> x \<le> pi * earth_r) (sort (L a))"
      using hav_dist_range by (auto simp add: list_all_iff L_def)
    then show ?thesis using h by (intro conjI exI [of _ "sort (L a)"]) simp_all
  qed
  show ?thesis
    using shape(2) each by (auto simp add: list_all_iff)
qed

theorem compass_script_sorted_witness:
  "compass_script [] = Inr [] \<and> sorted_wrt (<) (map fst ([] :: (real \<times> flt list) list))"
  using compass_script_sorted [OF compass_script_empty] compass_script_empty by simp

end
