(* ===== verification/Cli.thy ===== *)
theory Cli
  imports Render
begin

text \<open>
  The command line of \<^verbatim>\<open>heatmap_gstools.py\<close> (lines 245-256 and 284-289): the
  argparse parser with its five options, the file lookup of \<open>load_csv(args.csv)\<close>, and
  the call of the pipeline and the renderer with the parsed values. argparse's matching
  of option strings (exact names, \<open>--opt=value\<close>, attached short values, unique
  prefixes) is not modelled: the command line arrives as the sequence of what argparse
  recognises in it, an option occurrence with its string value, a help request, an
  argument it cannot use (kept for the final "unrecognized arguments" error), or a
  malformed occurrence that it rejects at once. What is modelled is how the namespace
  is built: each occurrence's value is converted by the option's \<open>type\<close> when it is
  consumed (exit status 2 on failure, even if a later occurrence would replace it), a
  later occurrence replaces an earlier one, \<open>store_true\<close> sets its flag, the defaults
  are not converted (\<open>default=30\<close> stays the int 30, which \<open>float(args.grid)\<close> turns
  into 30.0), \<open>-h\<close> exits with status 0 at once, and unrecognised arguments make
  \<open>parse_args\<close> exit with status 2 only after the whole line was consumed. Python's
  \<open>float()\<close> and \<open>int()\<close> on strings are an interface record, so every theorem holds for
  every conversion; \<open>float()\<close> can give an infinity or NaN (\<open>"inf"\<close>, \<open>"nan"\<close>).

  The theorems give \<open>parse_args\<close> completely (the namespace is the defaults overridden
  by the last occurrence of each option; the exit status is 0 exactly when a help
  request comes before every rejected occurrence), and show that the script writes the
  kriged map of the file named by the last \<open>--csv\<close> to the path of the last \<open>--out\<close>,
  with the satellite layer exactly when \<open>--satellite\<close> was given.
\<close>

section \<open>Definitions\<close>

text \<open>Python's \<open>float(s)\<close> and \<open>int(s)\<close> on a string: None when they raise ValueError.\<close>

record builtins =
  float_str :: "string \<Rightarrow> flt option"
  int_str :: "string \<Rightarrow> int option"

text \<open>What argparse recognises in one argument (with its value, for the options that take one).\<close>

datatype cli_arg =
    ArgCsv string
  | ArgOut string
  | ArgGrid string
  | ArgRadius string
  | ArgSatellite
  | ArgHelp
  | ArgUnrecognized string
  | ArgMalformed string

text \<open>The namespace of lines 247-251; \<open>grid\<close> is held as \<open>float(args.grid)\<close> of line 259.\<close>

record cli_ns =
  csv :: string
  out :: string
  grid :: flt
  radius :: int
  satellite :: bool

definition cli_defaults :: cli_ns where
  "cli_defaults = \<lparr>csv = ''./csv/RIH-all.csv'', out = ''gps_heatmap_gstools.html'', grid = Fin 30,
                   radius = 20, satellite = False\<rparr>"

text \<open>
  \<open>parser.parse_args()\<close> (line 252): the occurrences are consumed in order; \<open>extras\<close>
  records that an unrecognised argument was seen.
\<close>

fun parse_opts :: "builtins \<Rightarrow> cli_arg list \<Rightarrow> cli_ns \<Rightarrow> bool \<Rightarrow> cli_ns result" where
  "parse_opts b [] ns extras = (if extras then Inl (SystemExit 2) else Inr ns)"
| "parse_opts b (ArgCsv s # as) ns extras = parse_opts b as (ns\<lparr>csv := s\<rparr>) extras"
| "parse_opts b (ArgOut s # as) ns extras = parse_opts b as (ns\<lparr>out := s\<rparr>) extras"
| "parse_opts b (ArgGrid s # as) ns extras =
     (case float_str b s of None \<Rightarrow> Inl (SystemExit 2) | Some g \<Rightarrow> parse_opts b as (ns\<lparr>grid := g\<rparr>) extras)"
| "parse_opts b (ArgRadius s # as) ns extras =
     (case int_str b s of None \<Rightarrow> Inl (SystemExit 2) | Some r \<Rightarrow> parse_opts b as (ns\<lparr>radius := r\<rparr>) extras)"
| "parse_opts b (ArgSatellite # as) ns extras = parse_opts b as (ns\<lparr>satellite := True\<rparr>) extras"
| "parse_opts b (ArgHelp # as) ns extras = Inl (SystemExit 0)"
| "parse_opts b (ArgUnrecognized s # as) ns extras = parse_opts b as ns True"
| "parse_opts b (ArgMalformed s # as) ns extras = Inl (SystemExit 2)"

definition parse_args :: "builtins \<Rightarrow> cli_arg list \<Rightarrow> cli_ns result" where
  "parse_args b argv = parse_opts b argv cli_defaults False"

text \<open>
  \<^verbatim>\<open>main\<close> (lines 245-285) run as a script (lines 288-289): the parse, then
  \<open>pd.read_csv(args.csv)\<close>, which raises FileNotFoundError for a path with no file
  (\<open>files\<close> gives each existing path's lines), then the pipeline and the renderer of
  \<open>Render\<close>. A spacing that is not finite passes the loader and the projection and makes
  \<open>np.arange\<close> in \<^verbatim>\<open>build_grid\<close> raise ValueError (the length
  \<open>(stop - start) / step\<close> is NaN); the model of \<^verbatim>\<open>build_grid\<close> takes finite spacings.
\<close>

definition cli_main ::
  "builtins \<Rightarrow> (string \<Rightarrow> cell list list option) \<Rightarrow> gstools_vario \<Rightarrow> gstools_krige \<Rightarrow> cli_arg list \<Rightarrow>
   html_file result" where
  "cli_main b files gv gk argv =
     (case parse_args b argv of
        Inl e \<Rightarrow> Inl e
      | Inr args \<Rightarrow>
          (case files (csv args) of
             None \<Rightarrow> Inl FileNotFoundError
           | Some lines \<Rightarrow>
               (case grid args of
                  Fin g \<Rightarrow> gstools_main lines g (radius args) (satellite args) (out args) gv gk
                | _ \<Rightarrow> (case load_csv lines of Inl e \<Rightarrow> Inl e | Inr _ \<Rightarrow> Inl ValueError))))"

section \<open>Lemmas\<close>

text \<open>An occurrence argparse consumes without stopping.\<close>

fun arg_ok :: "builtins \<Rightarrow> cli_arg \<Rightarrow> bool" where
  "arg_ok b (ArgGrid s) = (float_str b s \<noteq> None)"
| "arg_ok b (ArgRadius s) = (int_str b s \<noteq> None)"
| "arg_ok b ArgHelp = False"
| "arg_ok b (ArgMalformed s) = False"
| "arg_ok b _ = True"

text \<open>The namespace the occurrences build: the defaults overridden by the last occurrence.\<close>

definition final_ns :: "builtins \<Rightarrow> cli_arg list \<Rightarrow> cli_ns \<Rightarrow> cli_ns" where
  "final_ns b argv ns =
     \<lparr>csv = last (csv ns # [s. ArgCsv s \<leftarrow> argv]),
      out = last (out ns # [s. ArgOut s \<leftarrow> argv]),
      grid = last (grid ns # [the (float_str b s). ArgGrid s \<leftarrow> argv]),
      radius = last (radius ns # [the (int_str b s). ArgRadius s \<leftarrow> argv]),
      satellite = (satellite ns \<or> ArgSatellite \<in> set argv)\<rparr>"

lemma final_ns_Cons:
  "final_ns b (ArgCsv s # as) ns = final_ns b as (ns\<lparr>csv := s\<rparr>)"
  "final_ns b (ArgOut s # as) ns = final_ns b as (ns\<lparr>out := s\<rparr>)"
  "float_str b s = Some g \<Longrightarrow> final_ns b (ArgGrid s # as) ns = final_ns b as (ns\<lparr>grid := g\<rparr>)"
  "int_str b s = Some r \<Longrightarrow> final_ns b (ArgRadius s # as) ns = final_ns b as (ns\<lparr>radius := r\<rparr>)"
  "final_ns b (ArgSatellite # as) ns = final_ns b as (ns\<lparr>satellite := True\<rparr>)"
  "final_ns b (ArgUnrecognized s # as) ns = final_ns b as ns"
  by (simp_all add: final_ns_def)

lemma parse_opts_eq:
  "parse_opts b argv ns extras =
     (case dropWhile (arg_ok b) argv of
        [] \<Rightarrow> (if extras \<or> (\<exists>s. ArgUnrecognized s \<in> set argv) then Inl (SystemExit 2)
               else Inr (final_ns b argv ns))
      | ArgHelp # _ \<Rightarrow> Inl (SystemExit 0)
      | _ \<Rightarrow> Inl (SystemExit 2))"
proof (induction b argv ns extras rule: parse_opts.induct)
  case (1 b ns extras)
  then show ?case by (simp add: final_ns_def)
next
  case (2 b s as ns extras)
  then show ?case by (simp add: final_ns_Cons cong: list.case_cong)
next
  case (3 b s as ns extras)
  then show ?case by (simp add: final_ns_Cons cong: list.case_cong)
next
  case (4 b s as ns extras)
  then show ?case by (cases "float_str b s") (simp_all add: final_ns_Cons cong: list.case_cong)
next
  case (5 b s as ns extras)
  then show ?case by (cases "int_str b s") (simp_all add: final_ns_Cons cong: list.case_cong)
next
  case (6 b as ns extras)
  then show ?case by (simp add: final_ns_Cons cong: list.case_cong)
next
  case (8 b s as ns extras)
  have "\<exists>s'. ArgUnrecognized s' \<in> set (ArgUnrecognized s # as)" by auto
  with 8 show ?case by (simp add: cong: list.case_cong)
qed simp_all

lemma parse_args_Inr: "parse_args b argv = Inr ns \<Longrightarrow> ns = final_ns b argv cli_defaults"
  by (simp add: parse_args_def parse_opts_eq split: list.splits if_splits cli_arg.splits)

section \<open>Properties\<close>

text \<open>
  C9 [parse_args]: \<open>parse_args\<close> is the defaults overridden by the last occurrence of each
  option. It consumes the occurrences in order and stops at the first one it cannot
  take: a help request exits with status 0, a value its type rejects or a malformed
  occurrence with status 2. If it consumes them all, it exits with status 2 when some
  argument was unrecognised; otherwise each option has the value of its last
  occurrence, converted, or its default, and \<open>--satellite\<close> is set exactly when given.
\<close>

theorem parse_args_eq:
  "parse_args b argv =
     (case dropWhile (arg_ok b) argv of
        [] \<Rightarrow>
          (if \<exists>s. ArgUnrecognized s \<in> set argv then Inl (SystemExit 2)
           else Inr \<lparr>csv = last (''./csv/RIH-all.csv'' # [s. ArgCsv s \<leftarrow> argv]),
                     out = last (''gps_heatmap_gstools.html'' # [s. ArgOut s \<leftarrow> argv]),
                     grid = last (Fin 30 # [the (float_str b s). ArgGrid s \<leftarrow> argv]),
                     radius = last (20 # [the (int_str b s). ArgRadius s \<leftarrow> argv]),
                     satellite = (ArgSatellite \<in> set argv)\<rparr>)
      | ArgHelp # _ \<Rightarrow> Inl (SystemExit 0)
      | _ \<Rightarrow> Inl (SystemExit 2))"
  by (simp add: parse_args_def parse_opts_eq final_ns_def cli_defaults_def cong: list.case_cong)

text \<open>
  C8 [cli_writes]: When \<^verbatim>\<open>heatmap_gstools.py\<close> run from the command line writes a map, it
  writes it to the path of the last \<open>--out\<close> (default
  \<^verbatim>\<open>gps_heatmap_gstools.html\<close>): the file named by the last \<open>--csv\<close> exists, the last
  \<open>--grid\<close> is a finite spacing, the pipeline succeeds on them, and the document is the
  kriged map of the pipeline's result with the last \<open>--radius\<close> and the satellite layer
  exactly when \<open>--satellite\<close> was given.
\<close>

theorem cli_main_writes:
  assumes "cli_main b files gv gk argv = Inr (path, doc)"
  shows "path = last (''gps_heatmap_gstools.html'' # [s. ArgOut s \<leftarrow> argv]) \<and>
    (\<exists>lines g res. files (last (''./csv/RIH-all.csv'' # [s. ArgCsv s \<leftarrow> argv])) = Some lines \<and>
       last (Fin 30 # [the (float_str b s). ArgGrid s \<leftarrow> argv]) = Fin g \<and>
       main_pipeline lines g gv gk = Inr res \<and>
       doc = kriged_doc (lat_center res, lon_center res) (flt_rows (heat_data res))
               (last (20 # [the (int_str b s). ArgRadius s \<leftarrow> argv])) 12 (ArgSatellite \<in> set argv))"
proof -
  obtain ns where ns: "parse_args b argv = Inr ns"
    using assms by (cases "parse_args b argv") (simp_all add: cli_main_def)
  have nsv: "ns = final_ns b argv cli_defaults" using parse_args_Inr [OF ns] .
  obtain lines where f: "files (csv ns) = Some lines"
    using assms ns by (cases "files (csv ns)") (simp_all add: cli_main_def)
  obtain g where g: "grid ns = Fin g"
    using assms ns f by (cases "grid ns") (simp_all add: cli_main_def split: sum.splits)
  have gm: "gstools_main lines g (radius ns) (satellite ns) (out ns) gv gk = Inr (path, doc)"
    using assms ns f g by (simp add: cli_main_def)
  obtain res where res: "main_pipeline lines g gv gk = Inr res"
    using gm by (cases "main_pipeline lines g gv gk") (simp_all add: gstools_main_def)
  have "(path, doc) = (out ns, kriged_doc (lat_center res, lon_center res) (flt_rows (heat_data res))
                                (radius ns) 12 (satellite ns))"
    using gm gstools_main_Inr [OF res] by simp
  then show ?thesis
    using f g res by (auto simp add: nsv final_ns_def cli_defaults_def)
qed

theorem cli_main_writes_witness:
  "\<exists>doc. cli_main \<lparr>float_str = \<lambda>_. Some (Fin 30), int_str = \<lambda>_. Some 20\<rparr> (\<lambda>p. if p = ''rih.csv'' then Some [[Num (-60), Num 0, Num 0]] else None) (\<lambda>_ _ _. \<lparr>vario_estimate = \<lambda>_. Inl TypeError, vario_fit = Inl RuntimeError\<rparr>) (\<lambda>_ _ _ _ _ _. \<lparr>srf_init = Inl RuntimeError, srf_structured = \<lambda>_. Inl TypeError, ok_init = Inr (),
        ok_call = \<lambda>_. Inr (Single \<lparr>shape = [3, 3], data = replicate 9 (Fin (-75))\<rparr>)\<rparr>) [ArgCsv ''rih.csv'', ArgOut ''map.html'', ArgSatellite] = Inr (''map.html'', doc) \<and>
     (\<exists>lines res. main_pipeline lines 30 (\<lambda>_ _ _. \<lparr>vario_estimate = \<lambda>_. Inl TypeError, vario_fit = Inl RuntimeError\<rparr>) (\<lambda>_ _ _ _ _ _. \<lparr>srf_init = Inl RuntimeError, srf_structured = \<lambda>_. Inl TypeError, ok_init = Inr (),
        ok_call = \<lambda>_. Inr (Single \<lparr>shape = [3, 3], data = replicate 9 (Fin (-75))\<rparr>)\<rparr>) = Inr res \<and>
        doc = kriged_doc (lat_center res, lon_center res) (flt_rows (heat_data res)) 20 12 True)"
proof -
  obtain res where res: "main_pipeline [[Num (-60), Num 0, Num 0]] 30 (\<lambda>_ _ _. \<lparr>vario_estimate = \<lambda>_. Inl TypeError, vario_fit = Inl RuntimeError\<rparr>) (\<lambda>_ _ _ _ _ _. \<lparr>srf_init = Inl RuntimeError, srf_structured = \<lambda>_. Inl TypeError, ok_init = Inr (),
        ok_call = \<lambda>_. Inr (Single \<lparr>shape = [3, 3], data = replicate 9 (Fin (-75))\<rparr>)\<rparr>) = Inr res"
    by (simp add: main_eval_simps)
  define doc where "doc = kriged_doc (lat_center res, lon_center res) (flt_rows (heat_data res)) 20 12 True"
  have run: "cli_main \<lparr>float_str = \<lambda>_. Some (Fin 30), int_str = \<lambda>_. Some 20\<rparr> (\<lambda>p. if p = ''rih.csv'' then Some [[Num (-60), Num 0, Num 0]] else None) (\<lambda>_ _ _. \<lparr>vario_estimate = \<lambda>_. Inl TypeError, vario_fit = Inl RuntimeError\<rparr>) (\<lambda>_ _ _ _ _ _. \<lparr>srf_init = Inl RuntimeError, srf_structured = \<lambda>_. Inl TypeError, ok_init = Inr (),
        ok_call = \<lambda>_. Inr (Single \<lparr>shape = [3, 3], data = replicate 9 (Fin (-75))\<rparr>)\<rparr>) [ArgCsv ''rih.csv'', ArgOut ''map.html'', ArgSatellite] = Inr (''map.html'', doc)"
    by (simp add: cli_main_def parse_args_def cli_defaults_def gstools_main_Inr [OF res] doc_def)
  show ?thesis
    using cli_main_writes [OF run] run by auto
qed

end
