(* ===== verification/NamedCsv.thy ===== *)
theory NamedCsv
  imports Render Compass
begin

text \<open>
  \<open>pandas.read_csv(path, header=None, names=[...])\<close>, as every script other than
  \<^verbatim>\<open>heatmap_gstools.py\<close> reads its file, and each such script composed from its
  file's fields. As in \<open>Loader\<close>, the CSV tokenizer is not modelled: a line arrives as
  its fields, each classified as a number, missing or text. What pandas does with the
  lines when names are given: blank lines are skipped; a file with no line gives an
  empty frame; each row is expected to have as many fields as the larger of the number
  of names and the first line's length, a longer line raises ParserError and a shorter
  one is padded with missing values; when the first line has more fields than there are
  names, the extra leading fields of every row become the frame's index and the names go
  to the last fields.

  The theorems show that a parsed frame always has exactly the named columns, and that
  they are the fields that follow the index: on a file whose lines carry one extra
  leading field, every script reads its \<open>rssi\<close> from the second field, its \<open>lat\<close>
  from the third, and so on, without an error.
\<close>

section \<open>Definitions\<close>

text \<open>\<open>pd.read_csv(path, header=None, names=names)\<close> with \<open>k = len(names)\<close>.\<close>

definition read_csv_names :: "nat \<Rightarrow> cell list list \<Rightarrow> cell list list result" where
  "read_csv_names k lines =
     (let rows = filter (\<lambda>r. r \<noteq> []) lines in
      if rows = [] then Inr []
      else
        (let n = max k (length (hd rows)) in
         if list_ex (\<lambda>r. n < length r) rows then Inl ParserError
         else Inr (map (\<lambda>r. drop (n - k) (pad_row n r)) rows)))"

text \<open>The \<open>rssi, lat, lon\<close> columns of a frame read with five names.\<close>

definition frame3 :: "cell list list \<Rightarrow> frame" where
  "frame3 rows = map (\<lambda>r. (r ! 0, r ! 1, r ! 2)) rows"

text \<open>\<^verbatim>\<open>heatmap_generator.py\<close> lines 9-40.\<close>

definition raw_heatmap_file :: "cell list list \<Rightarrow> html_file result" where
  "raw_heatmap_file lines =
     (case read_csv_names 5 lines of Inl e \<Rightarrow> Inl e | Inr rows \<Rightarrow> raw_heatmap_script (frame3 rows))"

text \<open>\<^verbatim>\<open>heatmap_generator-2.py\<close> lines 13-85.\<close>

definition grid_heatmap_file :: "cell list list \<Rightarrow> html_file result" where
  "grid_heatmap_file lines =
     (case read_csv_names 5 lines of Inl e \<Rightarrow> Inl e | Inr rows \<Rightarrow> grid_heatmap_script (frame3 rows))"

text \<open>\<^verbatim>\<open>map_generator.py\<close> lines 25-61, on the \<open>rssi, x, y, z\<close> columns.\<close>

definition point_map_file :: "cell list list \<Rightarrow> html_file result" where
  "point_map_file lines =
     (case read_csv_names 5 lines of
        Inl e \<Rightarrow> Inl e
      | Inr rows \<Rightarrow> point_map_script (map (\<lambda>r. (r ! 0, r ! 1, r ! 2, r ! 3)) rows))"

text \<open>\<^verbatim>\<open>map_generator-2.py\<close> lines 5-34.\<close>

definition point_map2_file :: "cell list list \<Rightarrow> html_file result" where
  "point_map2_file lines =
     (case read_csv_names 5 lines of
        Inl e \<Rightarrow> Inl e
      | Inr rows \<Rightarrow> point_map2_script (map (\<lambda>r. (r ! 0, r ! 1, r ! 2, r ! 3, r ! 4)) rows))"

text \<open>\<^verbatim>\<open>signal-over-distance.py\<close> lines 33-45.\<close>

definition distance_file :: "cell list list \<Rightarrow> (flt \<times> cell) list result" where
  "distance_file lines =
     (case read_csv_names 5 lines of Inl e \<Rightarrow> Inl e | Inr rows \<Rightarrow> distance_script (frame3 rows))"

text \<open>\<^verbatim>\<open>signal-over-line.py\<close> lines 50-86.\<close>

definition line_file :: "cell list list \<Rightarrow> ((flt \<times> cell) list \<times> nat) result" where
  "line_file lines =
     (case read_csv_names 5 lines of Inl e \<Rightarrow> Inl e | Inr rows \<Rightarrow> line_script (frame3 rows))"

text \<open>\<^verbatim>\<open>signal-over-compass.py\<close> lines 59-110.\<close>

definition compass_file :: "cell list list \<Rightarrow> (real \<times> flt list) list result" where
  "compass_file lines =
     (case read_csv_names 5 lines of Inl e \<Rightarrow> Inl e | Inr rows \<Rightarrow> compass_script (frame3 rows))"

section \<open>Lemmas\<close>

text \<open>Field \<open>i\<close> of a line, missing beyond its end.\<close>

definition cell_at :: "cell list \<Rightarrow> nat \<Rightarrow> cell" where
  "cell_at r i = (if i < length r then r ! i else NA)"

lemma pad_row_nth: "i < n \<Longrightarrow> pad_row n r ! i = cell_at r i"
  by (simp add: pad_row_def cell_at_def nth_append)

lemma read_csv_names_Inr:
  assumes "read_csv_names k lines = Inr rows"
  shows "rows = map (\<lambda>r. drop (max k (length (hd (filter (\<lambda>r. r \<noteq> []) lines))) - k)
                         (pad_row (max k (length (hd (filter (\<lambda>r. r \<noteq> []) lines)))) r))
                  (filter (\<lambda>r. r \<noteq> []) lines) \<and>
         list_all (\<lambda>r. length r \<le> max k (length (hd (filter (\<lambda>r. r \<noteq> []) lines))))
           (filter (\<lambda>r. r \<noteq> []) lines)"
  using assms by (auto simp add: read_csv_names_def Let_def list_ex_iff list_all_iff not_less filter_empty_conv split: if_splits)

lemma read_csv_names_width:
  assumes "read_csv_names k lines = Inr rows"
  shows "list_all (\<lambda>r. length r = k) rows"
  using read_csv_names_Inr [OF assms] by (auto simp add: list_all_iff pad_row_def)

lemma drop_pad_row_nth:
  assumes "j + i < n" "j \<le> n"
  shows "drop j (pad_row n r) ! i = cell_at r (j + i)"
proof -
  have "length (pad_row n r) = max n (length r)" by (simp add: pad_row_def)
  then have "j \<le> length (pad_row n r)" using assms(2) by simp
  then show ?thesis using assms(1) by (simp add: pad_row_nth)
qed

section \<open>Properties\<close>

text \<open>
  C30 [csv_columns]: The columns a script reads are the fields after the index. When
  \<open>read_csv(header=None, names=[rssi, lat, lon, alt, heading])\<close> succeeds, the
  \<open>rssi\<close>, \<open>lat\<close> and \<open>lon\<close> of each non-blank line are its fields \<open>j\<close>, \<open>j + 1\<close>
  and \<open>j + 2\<close> (missing beyond the end of the line), where \<open>j\<close> is the number of fields
  by which the first non-blank line exceeds five: a file with an extra leading column
  is read shifted by one field without an error.
\<close>

theorem read_csv_names_frame:
  assumes "read_csv_names 5 lines = Inr rows"
  shows "frame3 rows =
           (let rs = filter (\<lambda>r. r \<noteq> []) lines; j = length (hd rs) - 5
            in map (\<lambda>r. (cell_at r j, cell_at r (j + 1), cell_at r (j + 2))) rs)"
proof -
  define rs where "rs = filter (\<lambda>r. r \<noteq> []) lines"
  define n where "n = max 5 (length (hd rs))"
  have rows: "rows = map (\<lambda>r. drop (n - 5) (pad_row n r)) rs"
    using read_csv_names_Inr [OF assms] by (simp add: rs_def n_def)
  have j: "n - 5 = length (hd rs) - 5" by (simp add: n_def)
  have "drop (n - 5) (pad_row n r) ! i = cell_at r (n - 5 + i)" if "i \<le> 2" for r i
    using that by (intro drop_pad_row_nth) (simp_all add: n_def)
  then show ?thesis
    by (simp add: frame3_def rows rs_def [symmetric] j [symmetric] Let_def)
qed

theorem read_csv_names_frame_witness:
  "read_csv_names 5 [[Num 0, Num (-60), Num 53, Num 0, Num 5, Num 90], []] =
     Inr [[Num (-60), Num 53, Num 0, Num 5, Num 90]] \<and>
   frame3 [[Num (-60), Num 53, Num 0, Num 5, Num 90]] = [(Num (-60), Num 53, Num 0)]"
proof -
  have r: "read_csv_names 5 [[Num 0, Num (-60), Num 53, Num 0, Num 5, Num 90], []] =
     Inr [[Num (-60), Num 53, Num 0, Num 5, Num 90]]"
    by (simp add: read_csv_names_def pad_row_def)
  show ?thesis
    using read_csv_names_frame [OF r] r by (simp add: cell_at_def)
qed

end
