(* ===== verification/Spec2Isabelle.thy ===== *)
theory Spec2Isabelle
  imports Grid Kriging Variogram Weights Loader Radial Binning Projection Pipeline FixCsv PointMap Gen3 Geodesy Heatmaps Ecef Folium Render RadialScripts Compass Cli NamedCsv
begin

text \<open>
  \<^bold>\<open>A verification development for the RSSI post-processing scripts\<close>

  The repository is a set of independent Python scripts under \<^verbatim>\<open>src/data/\<close> that
  post-process GPS/RSSI telemetry (\<open>rssi, lat, lon, alt, heading\<close> rows). The central
  one, \<^verbatim>\<open>heatmap_gstools.py\<close>, is a four-stage pipeline: a loader
  (\<^verbatim>\<open>load_csv\<close>), a projector to Web Mercator metres and back
  (\<^verbatim>\<open>project_to_meters\<close>, \<^verbatim>\<open>to_latlon\<close>), an interpolator (\<^verbatim>\<open>build_grid\<close>,
  \<^verbatim>\<open>fit_variogram\<close>, \<^verbatim>\<open>krige_with_gstools\<close>) and a renderer
  (\<^verbatim>\<open>grid_to_heatmap_data\<close>, the positive-weight filter and median centre of
  \<^verbatim>\<open>main\<close>). The other scripts are variants or helpers: a PyKrige heatmap
  (\<^verbatim>\<open>heatmap-generator-3.py\<close>), a grid-averaged heatmap
  (\<^verbatim>\<open>heatmap_generator-2.py\<close>), raw heatmaps with the \<open>rssi + 100\<close> weight
  (\<^verbatim>\<open>heatmap_generator.py\<close>), colour-coded point maps
  (\<^verbatim>\<open>map_generator.py\<close>, \<^verbatim>\<open>map_generator-2.py\<close>), the unit correction of raw
  captures (\<^verbatim>\<open>fix-csv.py\<close>) and radial signal profiles
  (\<^verbatim>\<open>signal-over-distance.py\<close>, \<^verbatim>\<open>signal-over-line.py\<close>,
  \<^verbatim>\<open>signal-over-compass.py\<close>). Every script that draws a map hands a document to
  folium and saves it; the plotting scripts hand their data to matplotlib.

  \<^bold>\<open>Modelling conventions.\<close> Each script is a shallow embedding: Python functions
  are HOL functions, every exception that can escape is a constructor of
  \<open>py_error\<close> and a result is \<open>py_error + 'a\<close> (\<open>Inl\<close> the exception), loops are
  structural recursion or list combinators, and statements executed in order are
  \<open>seq_res\<close> (the first exception wins). Floats are the datatype \<open>flt\<close>: a finite value
  held as an exact real, or one of the infinities or NaN, so NaN propagation, \<open>np.clip\<close>,
  \<open>np.nan_to_num\<close>, \<open>0 / 0\<close> and \<open>int(NaN)\<close> are modelled, rounding is not. numpy
  arrays are a record of shape and row-major data. The libraries are not code of the
  repository: gstools and PyKrige enter as interface records (\<open>backend\<close>,
  \<open>vario_lib\<close>, \<open>pykrige\<close>) that return a value or raise, and every theorem holds for
  every such behaviour; pyproj's transform is the spherical Web Mercator formula of the
  spec (\<open>merc_fwd\<close>, \<open>merc_inv\<close>); pandas' CSV tokenizer delivers each field already
  classified as number, missing or text; folium is a value model of the map document
  with its two input checks (\<open>Folium\<close>), and a script's result is the file it saves
  or, for the plotting scripts, the data it passes to the plot.

  \<^bold>\<open>Theories.\<close>
  \<^item> \<open>Prelude\<close>: exceptions, \<open>flt\<close> and its numpy operations, \<open>np.min\<close>/\<open>np.max\<close>,
    Python indexing, \<open>seq_res\<close> (with the lemmas for loops that raise on a guard or run
    a total step after a fallible one), Python's float modulo \<open>pymod\<close>, the \<open>ndarray\<close>
    record, and the shared list, option and modulo lemmas (collection \<open>model_simps\<close>).
  \<^item> \<open>Grid\<close>: \<^verbatim>\<open>build_grid\<close> (lines 59-68) with numpy's \<open>arange\<close> length rule, the
    one-cell padding and \<open>1e-6\<close> slack, \<open>meshgrid\<close> and the row-major \<open>flatten\<close>.
    Lemmas: axes cover the data (C1), are strictly increasing with exact spacing (C16),
    and fail only on an empty axis or a zero spacing, that the flattening enumerates the
    grid and that every sample lies in a cell are lemmas.
  \<^item> \<open>Kriging\<close>: \<^verbatim>\<open>krige_with_gstools\<close> (lines 132-196): the SRF conventions
    (\<open>srf_first_attempt\<close>, \<open>srf_retry\<close>), ordinary kriging (\<open>ordinary_attempt\<close>) and the
    reshape/transpose correction \<open>fix_shape\<close>. Lemmas: equivalence with a reference
    first-success chain (C10), RuntimeError as the only escaping exception (C11), the shape
    correction's soundness (C12; value preservation is a lemma), and the unchecked SRF path
    (C18).
  \<^item> \<open>Variogram\<close>: \<^verbatim>\<open>fit_variogram\<close> (lines 71-129): the three estimate conventions,
    the model derived from the empirical variogram, and the default model. Lemmas:
    failure only on empty data (C13), the default model (C14), the derived model (C19);
    every model has a length scale of at least 1.
  \<^item> \<open>Weights\<close>: the clipped rescale of \<^verbatim>\<open>grid_to_heatmap_data\<close> (lines 205-219),
    the filter of line 277 and the \<open>+100\<close> shift of the other scripts: weights in
    \<open>[0, 1]\<close> (C2), exactly the cells above \<open>-140\<close> dBm rendered (C17); the rescale
    formula and the negative shift weights below \<open>-100\<close> dBm are lemmas.
  \<^item> \<open>Loader\<close>: \<^verbatim>\<open>load_csv\<close> (lines 36-50) over a model of
    \<open>pandas.read_csv(header=None)\<close> (blank lines skipped, column count from the first
    line, short lines padded, long lines ParserError): the complete rows are kept in
    order (C26), a text field raises (C27), a line longer than the first raises (C28),
    and the optional columns of every sample follow the first line's width (C29).
  \<^item> \<open>Projection\<close>: \<^verbatim>\<open>project_to_meters\<close> and \<^verbatim>\<open>to_latlon\<close> over the Web
    Mercator formulas; the round trip returns every sample off the poles (C15).
  \<^item> \<open>Pipeline\<close>: \<^verbatim>\<open>main\<close> (lines 245-285) composing the above, returning the
    arguments of \<^verbatim>\<open>create_folium_map\<close>: every rendered point is a grid node converted
    back with weight in \<open>(0, 1]\<close> (C3), the pipeline fails only on loader errors,
    empty data, zero spacing or total kriging failure (C4), and it runs to completion on
    non-empty data whenever ordinary kriging works, whatever the variogram library does
    (C5).
  \<^item> \<open>Gen3\<close>: \<^verbatim>\<open>heatmap-generator-3.py\<close> (lines 24-80): its unpadded grid lies
    in \<open>[min, max)\<close> and is empty on a degenerate axis (C20).
  \<^item> \<open>FixCsv\<close>: \<^verbatim>\<open>fix-csv.py\<close>: a failure leaves exactly the corrected rows before
    it (C21), the first bad field decides the exception (C22); the script is a per-row map
    and written values are within half a unit of the last decimal (lemmas).
  \<^item> \<open>PointMap\<close>: the marker colours of \<^verbatim>\<open>map_generator.py\<close> and
    \<^verbatim>\<open>map_generator-2.py\<close>: a crash exactly on constant RSSI (C23), well-formed
    \<open>#rrgg00\<close> colours that decode to the gradient (C24), and the termination of the
    hexadecimal digit loop, stated with \<open>while_option\<close> against \<open>hex_digits\<close> (C25).
  \<^item> \<open>Radial\<close>: \<open>angle_diff\<close> and bearing normalisation of
    \<^verbatim>\<open>signal-over-line.py\<close>, the slices and Savitzky-Golay windows of
    \<^verbatim>\<open>signal-over-compass.py\<close> over points: the crash on 3-4 sample slices; the slice
    characterisation, valid windows from 5 samples, angle bounds, symmetry and bearing
    normalisation are lemmas.
  \<^item> \<open>Geodesy\<close>: \<^verbatim>\<open>haversine\<close> and \<^verbatim>\<open>bearing\<close> of the three radial scripts with
    \<open>math.sqrt\<close>'s ValueError and \<open>atan2\<close> by quadrant, the \<open>df.apply\<close> distance and
    bearing columns, and the heading slice of \<^verbatim>\<open>signal-over-line.py\<close>: the columns never
    raise, distances lie in \<open>[0, pi R]\<close> and the slice is the \<open>[178, 182]\<close> bearing
    band; these and the range and symmetry of \<open>haversine\<close> are lemmas.
  \<^item> \<open>Binning\<close>: the NaN-free cell aggregation of \<^verbatim>\<open>heatmap_generator-2.py\<close>: cell
    centres in their cells, groups that partition the samples and cell means between the
    extreme readings (lemmas).
  \<^item> \<open>Heatmaps\<close>: the data stages of the scripts that render readings without
    interpolation: \<^verbatim>\<open>heatmap_generator.py\<close> (lines 13-22) and
    \<^verbatim>\<open>heatmap_generator-2.py\<close> (lines 16-69), which fails exactly on text readings
    or unprojectable positions (C34) and, on numeric data, is the \<open>Binning\<close> aggregation
    between the projection and its inverse (C35).
  \<^item> \<open>Ecef\<close>: \<^verbatim>\<open>ecef_to_lla\<close> of \<^verbatim>\<open>map_generator.py\<close> (lines 5-22) and its loop
    (lines 28-37): latitudes strictly between the poles off the axis core and longitudes
    in \<open>(-180, 180]\<close> (C38), the height lost on the polar axis (C39); the loop's
    TypeError on text columns and the equatorial case are lemmas.
  \<^item> \<open>Folium\<close>: the folium library as a value model of the map document (centre,
    zoom, tiles, the child layers in \<open>add_to\<close> order, \<open>save\<close>) with its two input checks:
    \<open>validate_location\<close> and the heat layer's NaN check, both ValueError.
  \<^item> \<open>Render\<close>: the output stage of every script that draws a map and its composition
    with the data stage: \<^verbatim>\<open>create_folium_map\<close> implements the document the spec
    describes and fails only on NaN (C7); the whole of \<^verbatim>\<open>main\<close> writes its map whenever
    its data stages succeed, centred at the medians with exactly the computed rows (C6);
    \<^verbatim>\<open>heatmap_generator.py\<close> writes its map exactly when every field is a number,
    unfiltered with weight \<open>rssi + 100\<close> (C36); \<^verbatim>\<open>map_generator.py\<close> draws one marker
    per row at the converted position with the gradient colour (C40). The two other heat
    maps and \<^verbatim>\<open>map_generator-2.py\<close> are modelled with their exceptions as definitions
    and lemmas.
  \<^item> \<open>RadialScripts\<close>: \<^verbatim>\<open>signal-over-distance.py\<close> and
    \<^verbatim>\<open>signal-over-line.py\<close> from the frame's fields to the data they plot: the
    \<open>df.apply\<close> columns raise TypeError exactly on a text coordinate and carry NaN for a
    missing one; the distance script plots every row at its haversine distance (a lemma); the
    line script plots and prints the count of exactly the rows with both coordinates in
    the \<open>[178, 182]\<close> bearing band, in file order (C37).
  \<^item> \<open>Compass\<close>: \<^verbatim>\<open>signal-over-compass.py\<close> from the frame to its plotted
    profiles (lines 59-110): the same columns, each 5-degree slice with its skip below three
    rows, \<open>sort_values\<close> by distance (NaN last, \<open>sort_flt\<close>) and \<open>savgol_filter\<close>'s
    float64 conversion and window checks. It fails exactly on a text coordinate (TypeError)
    or on a slice of three or four rows or with a text reading (ValueError) (C31); on
    text-free frames its profile sizes are those of \<open>Radial\<close>'s loop over the rows with
    both coordinates (C32); every plotted profile has at least five points at ascending
    distances within \<open>[0, pi R]\<close> (C33).
  \<^item> \<open>NamedCsv\<close>: \<open>pandas.read_csv(header=None, names=[...])\<close> as the other
    scripts read their files (blank lines skipped, the expected width the larger of the
    name count and the first line's, longer lines ParserError, shorter ones padded, extra
    leading fields of the first line the index), and each frame-based script composed
    from its file. The columns the scripts read are the fields after the index, so a file
    with an extra leading column is read shifted without an error (C30).
  \<^item> \<open>Cli\<close>: the command line of \<^verbatim>\<open>heatmap_gstools.py\<close> (lines 245-256, 284-289):
    argparse's namespace over the option occurrences it recognises, with Python's
    \<open>float()\<close>/\<open>int()\<close> on strings as an interface record, the FileNotFoundError of a
    missing input path and the ValueError of a non-finite spacing. \<open>parse_args\<close> is the
    defaults overridden by each option's last occurrence, and stops with status 0 or 2 at
    the first occurrence it cannot take (C9); a written map goes to the last \<open>--out\<close> and
    is the kriged map of the last \<open>--csv\<close> with the requested radius and satellite layer
    (C8).

  \<^bold>\<open>Kinds of property.\<close> Besides functional, error and bounds results there are
  invariants (C12, C16), an equivalence (C10), refinements of a reference specification
  (C7, C32, C35, C37), round trips (C15, C24), a type result on the loaded columns
  (C29), a liveness result for the pipeline (C5), stated as the existence of an output,
  safety results for its composition with the renderer and the command line (C6, C8),
  and a termination result for the one loop whose number of steps is not the length of
  a list (C25).

  \<^bold>\<open>Bounds and fuel.\<close> No definition needs fuel: every loop of the scripts runs over a
  finite list and is modelled by structural recursion or \<open>map\<close>/\<open>filter\<close>/\<open>seq_res\<close>;
  the hexadecimal digit loop is the one non-structural recursion (\<open>hex_digits\<close>, measure
  \<open>n\<close>), and its \<open>while_option\<close> form is proved to return. The numeric constants are the
  code's: cell size 30 m in \<^verbatim>\<open>heatmap-generator-3.py\<close>, slack \<open>1e-6\<close>, clip range
  \<open>[-140, -10]\<close>, 5-degree compass bins, 5 m averaging cells, Earth radius 6371000 m,
  the WGS84 constants, the base station of the radial scripts and the hard-coded map
  centres, zooms and heat-layer parameters.

  \<^bold>\<open>Not modelled.\<close> The HTML and JavaScript folium generates from the map document
  (the document itself is modelled), argparse's matching of option strings (prefixes,
  \<open>=\<close> forms, attached values: the command line arrives as the occurrences it
  recognises) and its help and usage texts, matplotlib plots and scipy's smoothed values
  (a plotted profile is its heading and distances), the \<open>print\<close> calls,
  the CSV tokenizer (every model starts from a file's fields, classified as a number,
  missing or text), the pandas loading of \<^verbatim>\<open>heatmap-generator-3.py\<close> (its model
  starts from numeric samples), the popup strings
  of the point maps (only the exception of their \<open>:.2f\<close> format is), and floating-point
  rounding (values are exact reals; the special values are modelled), so the case where
  rounding lifts the haversine term above 1 for nearly antipodal points and
  \<open>math.sqrt\<close> raises is outside the model. The kriging mathematics itself is the
  library's and is quantified over, not computed.
\<close>

end
